(* ===== verification/Prelude.thy ===== *)
theory Prelude
  imports Main "HOL-Library.Word"
begin

text \<open>
  Shared vocabulary of the development: the machine types of the packed C structs
  (\<open>byte\<close>, \<open>u16\<close>, \<open>u32\<close>, the signed \<open>short\<close>/\<open>int\<close> fields as words read with
  \<open>sint\<close>), little-endian field encodings as byte lists with their round-trip laws,
  the byte-memory operations a C program performs on packed structs and caller buffers
  (\<open>store_bytes\<close>, \<open>load_bytes\<close>, a checked \<open>memcpy\<close> whose out-of-range case is
  \<open>None\<close>, i.e. undefined behaviour), and the \<open>layout_simps\<close> collection that the
  component theories extend with the field-access lemmas of their structs.
\<close>

unbundle bit_operations_syntax

named_theorems layout_simps "field read-after-write and encode/decode facts of the byte layouts"

type_synonym byte = "8 word"
type_synonym u16 = "16 word"
type_synonym u32 = "32 word"
type_synonym i16 = "16 word"  \<comment> \<open>C \<open>short\<close>: stored as 16 bits, read with \<open>sint\<close>\<close>
type_synonym i32 = "32 word"  \<comment> \<open>C \<open>int\<close>: stored as 32 bits, read with \<open>sint\<close>\<close>

abbreviation ascii :: "char \<Rightarrow> byte" where
  "ascii ch \<equiv> of_char ch"

definition ascii_bytes :: "string \<Rightarrow> byte list" where
  "ascii_bytes s = map of_char s"

subsection \<open>Little-endian encodings\<close>

fun le_val :: "byte list \<Rightarrow> nat" where
  "le_val [] = 0"
| "le_val (b # bs) = unat b + 256 * le_val bs"

fun le_bytes :: "nat \<Rightarrow> nat \<Rightarrow> byte list" where
  "le_bytes 0 n = []"
| "le_bytes (Suc k) n = of_nat (n mod 256) # le_bytes k (n div 256)"

definition le_word :: "byte list \<Rightarrow> 'a::len word" where
  "le_word bs = word_of_nat (le_val bs)"

definition u16_bytes :: "u16 \<Rightarrow> byte list" where
  "u16_bytes w = le_bytes 2 (unat w)"

definition u32_bytes :: "u32 \<Rightarrow> byte list" where
  "u32_bytes w = le_bytes 4 (unat w)"

subsection \<open>Byte memory\<close>

text \<open>A write of \<open>bs\<close> at offset \<open>off\<close> into a memory region, as \<open>memcpy\<close> into a
  struct or array field does; a read of \<open>n\<close> bytes at \<open>off\<close>.\<close>

definition store_bytes :: "byte list \<Rightarrow> nat \<Rightarrow> byte list \<Rightarrow> byte list" where
  "store_bytes mem off bs = take off mem @ bs @ drop (off + length bs) mem"

definition load_bytes :: "byte list \<Rightarrow> nat \<Rightarrow> nat \<Rightarrow> byte list" where
  "load_bytes mem off n = take n (drop off mem)"

text \<open>\<open>memcpy(dst, src, n)\<close> on buffers of known size: out-of-range on either side is
  undefined behaviour, the value \<open>None\<close>.\<close>

definition memcpy :: "byte list \<Rightarrow> byte list \<Rightarrow> nat \<Rightarrow> byte list option" where
  "memcpy dst src n =
     (if n \<le> length dst \<and> n \<le> length src then Some (store_bytes dst 0 (take n src)) else None)"

text \<open>An indexed write \<open>buf[i] = v\<close> or read \<open>buf[i]\<close> on a fixed-size C array or caller buffer:
  an index past the end is undefined behaviour.\<close>

definition store_checked :: "byte list \<Rightarrow> nat \<Rightarrow> byte \<Rightarrow> byte list option" where
  "store_checked buf i v = (if i < length buf then Some (buf[i := v]) else None)"

definition load_checked :: "byte list \<Rightarrow> nat \<Rightarrow> byte option" where
  "load_checked buf i = (if i < length buf then Some (buf ! i) else None)"

subsection \<open>Laws of the encodings\<close>

lemma length_le_bytes [simp, layout_simps]: "length (le_bytes k n) = k"
  by (induction k arbitrary: n) auto

lemma length_u16_bytes [simp, layout_simps]: "length (u16_bytes w) = 2"
  by (simp add: u16_bytes_def)

lemma length_u32_bytes [simp, layout_simps]: "length (u32_bytes w) = 4"
  by (simp add: u32_bytes_def)

lemma le_val_le_bytes: "le_val (le_bytes k n) = n mod 256 ^ k"
proof (induction k arbitrary: n)
  case 0
  then show ?case by simp
next
  case (Suc k)
  have "unat (of_nat (n mod 256) :: byte) = n mod 256"
    by (simp add: unat_of_nat)
  then have "le_val (le_bytes (Suc k) n) = n mod 256 + 256 * (n div 256 mod 256 ^ k)"
    using Suc.IH by simp
  also have "\<dots> = n mod 256 ^ Suc k"
    by (simp add: mod_mult2_eq)
  finally show ?case .
qed

lemma le_val_bound: "le_val bs < 256 ^ length bs"
proof (induction bs)
  case Nil
  then show ?case by simp
next
  case (Cons b bs)
  have "unat b < 256"
    using unsigned_less [of b] by simp
  with Cons.IH show ?case by simp
qed

lemma le_bytes_le_val [layout_simps]: "le_bytes (length bs) (le_val bs) = bs"
proof (induction bs)
  case Nil
  then show ?case by simp
next
  case (Cons b bs)
  have lt: "unat b < 256"
    using unsigned_less [of b] by simp
  then have "(unat b + 256 * le_val bs) mod 256 = unat b"
    by simp
  moreover from lt have "(unat b + 256 * le_val bs) div 256 = le_val bs"
    by simp
  ultimately show ?case
    using Cons.IH by simp
qed

lemma le_word_le_bytes:
  assumes "LENGTH('a::len) \<le> 8 * k"
  shows "(le_word (le_bytes k (unat (w :: 'a word))) :: 'a word) = w"
proof -
  have "unat w < 2 ^ LENGTH('a)"
    by (rule unsigned_less)
  also have "(2::nat) ^ LENGTH('a) \<le> 2 ^ (8 * k)"
    using assms by (simp add: power_increasing)
  also have "(2::nat) ^ (8 * k) = 256 ^ k"
    by (simp add: power_mult)
  finally have "unat w mod 256 ^ k = unat w"
    by simp
  then show ?thesis
    by (simp add: le_word_def le_val_le_bytes)
qed

lemma le_word_u16_bytes [simp, layout_simps]: "(le_word (u16_bytes w) :: u16) = w"
  by (simp add: u16_bytes_def le_word_le_bytes)

lemma le_word_u32_bytes [simp, layout_simps]: "(le_word (u32_bytes w) :: u32) = w"
  by (simp add: u32_bytes_def le_word_le_bytes)

lemma u16_bytes_le_word [layout_simps]: "length bs = 2 \<Longrightarrow> u16_bytes (le_word bs) = bs"
  using le_val_bound [of bs] le_bytes_le_val [of bs]
  by (simp add: u16_bytes_def le_word_def unat_of_nat)

lemma u32_bytes_le_word [layout_simps]: "length bs = 4 \<Longrightarrow> u32_bytes (le_word bs) = bs"
  using le_val_bound [of bs] le_bytes_le_val [of bs]
  by (simp add: u32_bytes_def le_word_def unat_of_nat)

lemma sint_word_of_int_i16:
  "- 32768 \<le> k \<Longrightarrow> k \<le> 32767 \<Longrightarrow> sint (word_of_int k :: i16) = k"
  by (simp add: sint_sbintrunc' signed_take_bit_int_eq_self)

lemma unat_of_nat_u32: "n < 2 ^ 32 \<Longrightarrow> unat (of_nat n :: u32) = n"
  by (simp add: unat_of_nat)

lemma unat_of_nat_u16: "n < 2 ^ 16 \<Longrightarrow> unat (of_nat n :: u16) = n"
  by (simp add: unat_of_nat)

subsection \<open>Laws of the byte memory\<close>

lemma length_store_bytes [simp, layout_simps]:
  "off + length bs \<le> length mem \<Longrightarrow> length (store_bytes mem off bs) = length mem"
  by (simp add: store_bytes_def)

lemma load_store_same [simp, layout_simps]:
  "off + length bs \<le> length mem \<Longrightarrow> load_bytes (store_bytes mem off bs) off (length bs) = bs"
  by (simp add: store_bytes_def load_bytes_def)

lemma load_store_below [layout_simps]:
  assumes "off + length bs \<le> length mem" and "o' + n \<le> off"
  shows "load_bytes (store_bytes mem off bs) o' n = load_bytes mem o' n"
proof -
  have "take n (drop o' (take off mem)) = take n (drop o' mem)"
    using assms(2) by (simp add: drop_take min_def)
  then show ?thesis
    using assms by (simp add: store_bytes_def load_bytes_def)
qed

lemma load_store_above [layout_simps]:
  assumes "off + length bs \<le> length mem" and "off + length bs \<le> o'"
  shows "load_bytes (store_bytes mem off bs) o' n = load_bytes mem o' n"
  using assms by (simp add: store_bytes_def load_bytes_def)

lemma load_bytes_append_left [layout_simps]:
  "off + n \<le> length xs \<Longrightarrow> load_bytes (xs @ ys) off n = load_bytes xs off n"
  by (simp add: load_bytes_def)

lemma load_bytes_append_right [layout_simps]:
  "length xs \<le> off \<Longrightarrow> load_bytes (xs @ ys) off n = load_bytes ys (off - length xs) n"
  by (simp add: load_bytes_def)

lemma store_bytes_Cons:
  "off + length (x # ys) \<le> length m \<Longrightarrow>
   store_bytes m off (x # ys) = store_bytes (m[off := x]) (Suc off) ys"
  by (simp add: store_bytes_def upd_conv_take_nth_drop ac_simps)

lemma store_bytes_append:
  "off + length xs + length ys \<le> length m \<Longrightarrow>
   store_bytes (store_bytes m off xs) (off + length xs) ys = store_bytes m off (xs @ ys)"
  by (simp add: store_bytes_def ac_simps)

lemma store_bytes_all: "length bs = length m \<Longrightarrow> store_bytes m 0 bs = bs"
  by (simp add: store_bytes_def)

lemma store_bytes_prefix_nth:
  "length bs \<le> length mem \<Longrightarrow>
   store_bytes mem 0 bs = map (\<lambda>i. if i < length bs then bs ! i else mem ! i) [0..<length mem]"
  by (rule nth_equalityI) (simp_all add: store_bytes_def nth_append)

lemma length_load_bytes [simp]: "length (load_bytes mem off n) = min n (length mem - off)"
  by (simp add: load_bytes_def)

lemma memcpy_Some [layout_simps]:
  "n \<le> length dst \<Longrightarrow> n \<le> length src \<Longrightarrow>
   memcpy dst src n = Some (take n src @ drop n dst)"
  by (simp add: memcpy_def store_bytes_def)

lemma store_checked_in [simp]: "i < length buf \<Longrightarrow> store_checked buf i v = Some (buf[i := v])"
  by (simp add: store_checked_def)

lemma store_checked_out [simp]: "length buf \<le> i \<Longrightarrow> store_checked buf i v = None"
  by (simp add: store_checked_def)

lemma load_checked_in [simp]: "i < length buf \<Longrightarrow> load_checked buf i = Some (buf ! i)"
  by (simp add: load_checked_def)

lemma load_checked_out [simp]: "length buf \<le> i \<Longrightarrow> load_checked buf i = None"
  by (simp add: load_checked_def)

lemma memcpy_None:
  "memcpy dst src n = None \<longleftrightarrow> length dst < n \<or> length src < n"
  by (auto simp: memcpy_def)

subsection \<open>Signed ranges\<close>

lemma sint_i16_range: "- 32768 \<le> sint (w :: i16) \<and> sint w \<le> 32767"
  using sint_ge [of w] sint_lt [of w] by simp

lemma i16_product_range:
  fixes a b :: int
  assumes "- 32768 \<le> a" "a \<le> 32767" "- 32768 \<le> b" "b \<le> 32767"
  shows "- (2 ^ 31) \<le> a * b \<and> a * b < 2 ^ 31"
proof -
  have "\<bar>a\<bar> \<le> 32768" "\<bar>b\<bar> \<le> 32768" using assms by auto
  then have "\<bar>a * b\<bar> \<le> 32768 * 32768"
    unfolding abs_mult by (intro mult_mono) simp_all
  then show ?thesis by (simp add: abs_le_iff)
qed

lemma sint_i32_of_int: "- (2 ^ 31) \<le> x \<Longrightarrow> x < 2 ^ 31 \<Longrightarrow> sint (word_of_int x :: i32) = x"
  by (simp add: sint_sbintrunc' signed_take_bit_int_eq_self)

end
