(* ===== verification/I256_Format.thy ===== *)
theory I256_Format
  imports Prelude
begin

text \<open>
  The packed structs of \<open>src/file_io_plugin_samples/i256/256_file.h\<close>: the colour
  quad, the 16-byte file header, the \<open>PIXL\<close>, \<open>CLUT\<close> and generic chunk headers
  and the palette, with their \<open>IsValid\<close> methods. The header declares the structs under
  \<open>#pragma pack(push, 1)\<close>, so each struct's byte layout is its fields in order,
  little-endian, with no padding; the C code overlays the structs on the file bytes, and
  the model makes that overlay an explicit encode (\<open>*_bytes\<close>) and decode
  (\<open>*_parse\<close>) pair. Struct fields whose one-letter C names (\<open>b\<close>, \<open>p\<close>, \<open>c\<close>,
  \<open>l\<close>, ...) would shadow variables are prefixed with the struct's name.
  The CLUT colour count is \<open>(num_colors & 0x3FFF) + 1\<close>; its encoding side and the
  reason-reporting header check come from the specification (section 4.1, 4.3), since
  the class implementation is not part of the repository.
\<close>

unbundle bit_operations_syntax

subsection \<open>Structs\<close>

record I256_Color =
  color_b :: byte
  color_g :: byte
  color_r :: byte
  color_a :: byte

record I256File_Header =
  hi :: byte
  h2 :: byte
  h5 :: byte
  h6 :: byte
  file_length :: u32
  version :: i16
  width :: i16
  height :: i16
  reserved :: i16

record I256File_PIXL =
  pixl_p :: byte
  pixl_i :: byte
  pixl_x :: byte
  pixl_l :: byte
  pixl_chunk_length :: u32
  num_blobs :: u16

record I256File_CLUT =
  clut_c :: byte
  clut_l :: byte
  clut_u :: byte
  clut_t :: byte
  clut_chunk_length :: u32
  num_colors :: u16

record I256File_CHUNK =
  id0 :: byte
  id1 :: byte
  id2 :: byte
  id3 :: byte
  chunk_length :: u32

record I256_Palette =
  iNumColors :: int
  pColors :: "I256_Color list"

subsection \<open>Byte layouts of the packed structs\<close>

definition I256_Color_bytes :: "I256_Color \<Rightarrow> byte list" where
  "I256_Color_bytes col = [color_b col, color_g col, color_r col, color_a col]"

definition I256_Color_parse :: "byte list \<Rightarrow> I256_Color" where
  "I256_Color_parse bs =
     \<lparr>color_b = bs ! 0, color_g = bs ! 1, color_r = bs ! 2, color_a = bs ! 3\<rparr>"

definition I256File_Header_bytes :: "I256File_Header \<Rightarrow> byte list" where
  "I256File_Header_bytes hdr =
     [hi hdr, h2 hdr, h5 hdr, h6 hdr] @ u32_bytes (file_length hdr) @ u16_bytes (version hdr)
     @ u16_bytes (width hdr) @ u16_bytes (height hdr) @ u16_bytes (reserved hdr)"

definition I256File_Header_parse :: "byte list \<Rightarrow> I256File_Header option" where
  "I256File_Header_parse bs =
     (if length bs < 16 then None
      else Some \<lparr>hi = bs ! 0, h2 = bs ! 1, h5 = bs ! 2, h6 = bs ! 3,
                 file_length = le_word (load_bytes bs 4 4),
                 version = le_word (load_bytes bs 8 2),
                 width = le_word (load_bytes bs 10 2),
                 height = le_word (load_bytes bs 12 2),
                 reserved = le_word (load_bytes bs 14 2)\<rparr>)"

definition I256File_CHUNK_parse :: "byte list \<Rightarrow> I256File_CHUNK option" where
  "I256File_CHUNK_parse bs =
     (if length bs < 8 then None
      else Some \<lparr>id0 = bs ! 0, id1 = bs ! 1, id2 = bs ! 2, id3 = bs ! 3,
                 chunk_length = le_word (load_bytes bs 4 4)\<rparr>)"

definition I256File_CLUT_bytes :: "I256File_CLUT \<Rightarrow> byte list" where
  "I256File_CLUT_bytes cl =
     [clut_c cl, clut_l cl, clut_u cl, clut_t cl] @ u32_bytes (clut_chunk_length cl)
     @ u16_bytes (num_colors cl)"

definition I256File_CLUT_parse :: "byte list \<Rightarrow> I256File_CLUT option" where
  "I256File_CLUT_parse bs =
     (if length bs < 10 then None
      else Some \<lparr>clut_c = bs ! 0, clut_l = bs ! 1, clut_u = bs ! 2, clut_t = bs ! 3,
                 clut_chunk_length = le_word (load_bytes bs 4 4),
                 num_colors = le_word (load_bytes bs 8 2)\<rparr>)"

definition I256File_PIXL_bytes :: "I256File_PIXL \<Rightarrow> byte list" where
  "I256File_PIXL_bytes px =
     [pixl_p px, pixl_i px, pixl_x px, pixl_l px] @ u32_bytes (pixl_chunk_length px)
     @ u16_bytes (num_blobs px)"

definition I256File_PIXL_parse :: "byte list \<Rightarrow> I256File_PIXL option" where
  "I256File_PIXL_parse bs =
     (if length bs < 10 then None
      else Some \<lparr>pixl_p = bs ! 0, pixl_i = bs ! 1, pixl_x = bs ! 2, pixl_l = bs ! 3,
                 pixl_chunk_length = le_word (load_bytes bs 4 4),
                 num_blobs = le_word (load_bytes bs 8 2)\<rparr>)"

text \<open>\<open>sizeof\<close> of the packed structs.\<close>

abbreviation sizeof_I256File_Header :: nat where "sizeof_I256File_Header \<equiv> 16"
abbreviation sizeof_I256File_CLUT :: nat where "sizeof_I256File_CLUT \<equiv> 10"
abbreviation sizeof_I256File_PIXL :: nat where "sizeof_I256File_PIXL \<equiv> 10"
abbreviation sizeof_I256File_CHUNK :: nat where "sizeof_I256File_CHUNK \<equiv> 8"

subsection \<open>The validity checks\<close>

definition I256File_Header_IsValid :: "I256File_Header \<Rightarrow> u32 \<Rightarrow> bool" where
  "I256File_Header_IsValid hdr fileLength =
     (if file_length hdr \<noteq> fileLength then False
      else if version hdr \<noteq> 0 then False
      else if hi hdr \<noteq> ascii CHR ''I'' \<or> h2 hdr \<noteq> ascii CHR ''2''
              \<or> h5 hdr \<noteq> ascii CHR ''5'' \<or> h6 hdr \<noteq> ascii CHR ''6'' then False
      else if width hdr = 0 \<or> height hdr = 0 then False
      else if reserved hdr \<noteq> 0 then False
      else True)"

definition I256File_PIXL_IsValid :: "I256File_PIXL \<Rightarrow> bool" where
  "I256File_PIXL_IsValid px =
     (if pixl_p px \<noteq> ascii CHR ''P'' \<or> pixl_i px \<noteq> ascii CHR ''I''
         \<or> pixl_x px \<noteq> ascii CHR ''X'' \<or> pixl_l px \<noteq> ascii CHR ''L'' then False
      else True)"

text \<open>\<open>int numColors = num_colors & 0x3FFF; numColors++;\<close>\<close>

definition clut_numColors :: "u16 \<Rightarrow> nat" where
  "clut_numColors nc = unat (nc AND 0x3FFF) + 1"

text \<open>The comparison \<open>chunk_length > sizeof(I256File_CLUT) + numColors*4\<close> is between
  an \<open>unsigned int\<close> and a \<open>size_t\<close>; \<open>numColors*4\<close> is at most 65536, so nothing
  wraps and the comparison is the one on natural numbers.\<close>

definition I256File_CLUT_IsValid :: "I256File_CLUT \<Rightarrow> bool" where
  "I256File_CLUT_IsValid cl =
     (let numColors = clut_numColors (num_colors cl) in
      if unat (clut_chunk_length cl) > sizeof_I256File_CLUT + numColors * 4 then False
      else if clut_c cl \<noteq> ascii CHR ''C'' \<or> clut_l cl \<noteq> ascii CHR ''L''
              \<or> clut_u cl \<noteq> ascii CHR ''U'' \<or> clut_t cl \<noteq> ascii CHR ''T'' then False
      else True)"

subsection \<open>From the specification: reasons and the count encoding\<close>

datatype header_error =
  LengthMismatch | VersionMismatch | SignatureMismatch | ZeroDimension | ReservedNonZero

definition I256File_Header_check :: "I256File_Header \<Rightarrow> u32 \<Rightarrow> header_error option" where
  "I256File_Header_check hdr fileLength =
     (if file_length hdr \<noteq> fileLength then Some LengthMismatch
      else if version hdr \<noteq> 0 then Some VersionMismatch
      else if [hi hdr, h2 hdr, h5 hdr, h6 hdr] \<noteq> ascii_bytes ''I256'' then Some SignatureMismatch
      else if width hdr = 0 \<or> height hdr = 0 then Some ZeroDimension
      else if reserved hdr \<noteq> 0 then Some ReservedNonZero
      else None)"

text \<open>The packed \<open>count_and_flags\<close> field: \<open>colorCount - 1\<close> in the low 14 bits and
  the flag value \<open>flags\<close> (0 to 3) in the top two.\<close>

definition clut_count_field :: "nat \<Rightarrow> nat \<Rightarrow> u16" where
  "clut_count_field colorCount flags = of_nat (colorCount - 1 + 16384 * flags)"

text \<open>A valid header of a 4 by 2 image in a 16-byte file, used by the witnesses.\<close>

definition example_header :: I256File_Header where
  "example_header = \<lparr>hi = ascii CHR ''I'', h2 = ascii CHR ''2'', h5 = ascii CHR ''5'',
     h6 = ascii CHR ''6'', file_length = 16, version = 0, width = 4, height = 2, reserved = 0\<rparr>"

subsection \<open>Layout lemmas\<close>

lemma length_I256File_Header_bytes [simp, layout_simps]:
  "length (I256File_Header_bytes hdr) = 16"
  by (simp add: I256File_Header_bytes_def)

lemma length_I256File_CLUT_bytes [simp, layout_simps]: "length (I256File_CLUT_bytes cl) = 10"
  by (simp add: I256File_CLUT_bytes_def)

lemma length_I256File_PIXL_bytes [simp, layout_simps]: "length (I256File_PIXL_bytes px) = 10"
  by (simp add: I256File_PIXL_bytes_def)

lemma length_I256_Color_bytes [simp, layout_simps]: "length (I256_Color_bytes col) = 4"
  by (simp add: I256_Color_bytes_def)

lemma I256_Color_parse_bytes [simp, layout_simps]:
  "I256_Color_parse (I256_Color_bytes col @ rest) = col"
  by (simp add: I256_Color_parse_def I256_Color_bytes_def)

lemma I256File_CLUT_parse_bytes [simp, layout_simps]:
  "I256File_CLUT_parse (I256File_CLUT_bytes cl @ rest) = Some cl"
  by (simp add: I256File_CLUT_parse_def I256File_CLUT_bytes_def load_bytes_def)

lemma I256File_PIXL_parse_bytes [simp, layout_simps]:
  "I256File_PIXL_parse (I256File_PIXL_bytes px @ rest) = Some px"
  by (simp add: I256File_PIXL_parse_def I256File_PIXL_bytes_def load_bytes_def)

lemma I256File_Header_IsValid_check:
  "I256File_Header_IsValid hdr n \<longleftrightarrow> I256File_Header_check hdr n = None"
  by (simp add: I256File_Header_IsValid_def I256File_Header_check_def ascii_bytes_def)

lemma unat_and_3FFF: "unat ((w::u16) AND 0x3FFF) = unat w mod 16384"
proof -
  have "(0x3FFF :: u16) = mask 14"
    by (simp add: mask_eq_exp_minus_1)
  then have "w AND 0x3FFF = take_bit 14 w"
    by (simp add: take_bit_eq_mask)
  moreover have "unat (take_bit 14 w) = take_bit 14 (unat w)"
    by (rule unsigned_take_bit_eq)
  ultimately show ?thesis
    by (simp only: take_bit_eq_mod) simp
qed

lemma le_word_u16_eq_0_iff:
  assumes "length xs = 2"
  shows "(le_word xs :: u16) = 0 \<longleftrightarrow> xs = [0, 0]"
proof
  assume z: "(le_word xs :: u16) = 0"
  have "xs = u16_bytes (le_word xs)"
    using assms by (simp add: u16_bytes_le_word)
  also have "\<dots> = u16_bytes 0"
    using z by simp
  also have "\<dots> = [0, 0]"
    by (simp add: u16_bytes_def numeral_2_eq_2)
  finally show "xs = [0, 0]" .
next
  assume "xs = [0, 0]"
  then show "(le_word xs :: u16) = 0"
    by (simp add: le_word_def)
qed

lemma load_bytes_update_inside:
  "off \<le> i \<Longrightarrow> i < off + n \<Longrightarrow>
   load_bytes (bs[i := v]) off n = (load_bytes bs off n)[i - off := v]"
  by (simp add: load_bytes_def drop_update_swap take_update_swap)

lemma load_bytes_update_outside:
  assumes "i < off \<or> off + n \<le> i"
  shows "load_bytes (bs[i := v]) off n = load_bytes bs off n"
  using assms
proof
  assume "i < off"
  then show ?thesis by (simp add: load_bytes_def drop_update_cancel)
next
  assume "off + n \<le> i"
  then show ?thesis by (simp add: load_bytes_def drop_update_swap take_update_cancel)
qed

lemma take_16_split:
  assumes "16 \<le> length bs"
  shows "\<exists>b0 b1 b2 b3 b4 b5 b6 b7 b8 b9 b10 b11 b12 b13 b14 b15 rest.
           bs = [b0, b1, b2, b3, b4, b5, b6, b7, b8, b9, b10, b11, b12, b13, b14, b15] @ rest"
  using assms by (auto simp: Suc_le_length_iff numeral_eq_Suc)

lemma u16_field_mutated_nonzero:
  assumes "length bs \<ge> off + 2" and "load_bytes bs off 2 = [0, 0]"
    and "off \<le> j" "j < off + 2" and "v \<noteq> bs ! j"
  shows "(le_word (load_bytes (bs[j := v]) off 2) :: u16) \<noteq> 0"
proof -
  have bj: "bs ! j = 0"
    using assms(2) nth_take [of "j - off" 2 "drop off bs"] assms(1,3,4)
    by (auto simp: load_bytes_def less_Suc_eq numeral_2_eq_2)
  have "load_bytes (bs[j := v]) off 2 = [0, 0][j - off := v]"
    using assms(2-4) by (simp add: load_bytes_update_inside)
  moreover have "[0, 0][j - off := v] \<noteq> [0, 0 :: byte]"
    using assms(3,4,5) bj by (auto simp: list_update_def numeral_2_eq_2 less_Suc_eq split: nat.splits)
  moreover have "length ([0, 0][j - off := v]) = 2"
    by (simp only: length_list_update) simp
  ultimately show ?thesis
    using le_word_u16_eq_0_iff by metis
qed

lemma example_header_valid: "I256File_Header_IsValid example_header 16"
  by (simp add: example_header_def I256File_Header_IsValid_def)

subsection \<open>Properties of the header and chunk structs\<close>

lemma I256File_Header_parse_append [simp, layout_simps]:
  "I256File_Header_parse (I256File_Header_bytes hdr @ rest) = Some hdr"
  by (simp add: I256File_Header_parse_def I256File_Header_bytes_def load_bytes_def)

lemma I256File_Header_parse_inverse:
  "I256File_Header_parse bs = Some hdr \<Longrightarrow> I256File_Header_bytes hdr = take 16 bs"
proof -
  assume p: "I256File_Header_parse bs = Some hdr"
  then have len: "16 \<le> length bs"
    by (simp add: I256File_Header_parse_def split: if_splits)
  obtain b0 b1 b2 b3 b4 b5 b6 b7 b8 b9 b10 b11 b12 b13 b14 b15 rest where
    bs: "bs = [b0, b1, b2, b3, b4, b5, b6, b7, b8, b9, b10, b11, b12, b13, b14, b15] @ rest"
    using take_16_split [OF len] by (elim exE) blast
  show ?thesis
    using p by (auto simp: bs I256File_Header_parse_def I256File_Header_bytes_def load_bytes_def
        u16_bytes_le_word u32_bytes_le_word)
qed

text \<open>C16: If a buffer holds a header that \<open>IsValid\<close> accepts, changing any single byte of
  the signature (offsets 0-3), of the version (8-9) or of the reserved field (14-15) to a
  different value yields a header that \<open>IsValid\<close> rejects.\<close>

theorem I256File_Header_mutation_invalid:
  assumes p: "I256File_Header_parse bs = Some hdr" and valid: "I256File_Header_IsValid hdr n"
    and pos: "i \<in> {0, 1, 2, 3, 8, 9, 14, 15}" and changed: "v \<noteq> bs ! i"
  shows "\<exists>hdr'. I256File_Header_parse (bs[i := v]) = Some hdr' \<and> \<not> I256File_Header_IsValid hdr' n"
proof -
  from p have len: "16 \<le> length bs"
    by (auto simp: I256File_Header_parse_def split: if_splits)
  have ver0: "load_bytes bs 8 2 = [0, 0]" and res0: "load_bytes bs 14 2 = [0, 0]"
    using valid p len by (auto simp: I256File_Header_IsValid_def I256File_Header_parse_def
        le_word_u16_eq_0_iff split: if_splits)
  show ?thesis
  proof (cases "i < 4")
    case True
    then show ?thesis
      using p valid changed len
      by (auto simp: I256File_Header_parse_def I256File_Header_IsValid_def load_bytes_update_outside
          less_Suc_eq numeral_eq_Suc split: if_splits)
  next
    case False
    then have "i \<in> {8, 9} \<or> i \<in> {14, 15}" using pos by auto
    then show ?thesis
    proof
      assume i: "i \<in> {8, 9}"
      have "(le_word (load_bytes (bs[i := v]) 8 2) :: u16) \<noteq> 0"
        using i len ver0 changed by (intro u16_field_mutated_nonzero) auto
      then show ?thesis
        using len by (simp add: I256File_Header_parse_def I256File_Header_IsValid_def)
    next
      assume i: "i \<in> {14, 15}"
      have "(le_word (load_bytes (bs[i := v]) 14 2) :: u16) \<noteq> 0"
        using i len res0 changed by (intro u16_field_mutated_nonzero) auto
      moreover have "load_bytes (bs[i := v]) off k = load_bytes bs off k" if "off + k \<le> 14" for off k
        using that i by (intro load_bytes_update_outside) auto
      ultimately show ?thesis
        using len p i valid
        by (auto simp: I256File_Header_parse_def I256File_Header_IsValid_def split: if_splits)
    qed
  qed
qed

theorem I256File_Header_mutation_invalid_witness:
  "\<exists>hdr'. I256File_Header_parse ((I256File_Header_bytes example_header)[0 := ascii CHR ''X''])
            = Some hdr' \<and> \<not> I256File_Header_IsValid hdr' 16"
proof -
  have "ascii CHR ''X'' \<noteq> I256File_Header_bytes example_header ! 0"
    by (simp add: I256File_Header_bytes_def example_header_def)
  then show ?thesis
    using I256File_Header_mutation_invalid [OF I256File_Header_parse_append [of _ "[]", simplified]
        example_header_valid, of 0 "ascii CHR ''X''"]
    by simp
qed

text \<open>C34: \<open>IsValid\<close> only rejects a zero width: a header it accepts stays accepted with
  its width negated, so a header whose \<open>short\<close> width is negative (e.g. \<open>-4\<close>) passes,
  although the specification requires width and height to be positive.\<close>

theorem I256File_Header_IsValid_negated_width:
  "I256File_Header_IsValid hdr n \<Longrightarrow> I256File_Header_IsValid (hdr\<lparr>width := - width hdr\<rparr>) n"
  by (simp add: I256File_Header_IsValid_def split: if_splits)

theorem I256File_Header_IsValid_negated_width_witness:
  "I256File_Header_IsValid (example_header\<lparr>width := - 4\<rparr>) 16 \<and> sint (- 4 :: i16) < 0"
  using I256File_Header_IsValid_negated_width [OF example_header_valid]
  by (simp add: example_header_def)

text \<open>C19: The packed colour count round-trips: for every colour count from 1 to 16384
  and every value of the two flag bits, \<open>(field & 0x3FFF) + 1\<close> recovers the count, so
  16384 colours (all fourteen bits set) is representable.\<close>

theorem clut_count_roundtrip:
  assumes "1 \<le> colorCount" and "colorCount \<le> 16384"
  shows "clut_numColors (clut_count_field colorCount flags) = colorCount"
proof -
  define m where "m = colorCount - 1"
  have m: "m < 16384"
    using assms by (simp add: m_def)
  have "unat (clut_count_field colorCount flags) = (m + 16384 * flags) mod 65536"
    by (simp only: clut_count_field_def m_def unat_of_nat) simp
  then have "unat (clut_count_field colorCount flags AND 0x3FFF) = (m + 16384 * flags) mod 16384"
    by (simp add: unat_and_3FFF mod_mod_cancel)
  also have "\<dots> = m"
    using m by simp
  finally show ?thesis
    using assms by (simp add: clut_numColors_def m_def)
qed

theorem clut_count_roundtrip_witness:
  "clut_numColors (clut_count_field 16384 3) = 16384 \<and> clut_numColors (clut_count_field 1 0) = 1"
  using clut_count_roundtrip [of 16384 3] clut_count_roundtrip [of 1 0] by simp

text \<open>C36: The colour count decoded from any 16-bit field lies between 1 and 16384, so the
  byte size \<open>sizeof(I256File_CLUT) + numColors * 4\<close> that \<open>IsValid\<close> compares against
  is at most 65546 and cannot overflow.\<close>

theorem clut_numColors_range:
  "1 \<le> clut_numColors w \<and> clut_numColors w \<le> 16384
   \<and> sizeof_I256File_CLUT + clut_numColors w * 4 \<le> 65546"
  by (simp add: clut_numColors_def unat_and_3FFF)

text \<open>C35: \<open>I256File_CLUT::IsValid\<close> bounds the chunk length from above only: a chunk it
  accepts stays accepted with any smaller declared length, down to 0, below the 10 bytes
  of the chunk's own header.\<close>

theorem I256File_CLUT_IsValid_shorter:
  "I256File_CLUT_IsValid cl \<Longrightarrow> k \<le> clut_chunk_length cl \<Longrightarrow>
   I256File_CLUT_IsValid (cl\<lparr>clut_chunk_length := k\<rparr>)"
  by (auto simp: I256File_CLUT_IsValid_def Let_def word_le_nat_alt split: if_splits)

theorem I256File_CLUT_IsValid_shorter_witness:
  "I256File_CLUT_IsValid \<lparr>clut_c = ascii CHR ''C'', clut_l = ascii CHR ''L'',
      clut_u = ascii CHR ''U'', clut_t = ascii CHR ''T'', clut_chunk_length = 0, num_colors = 1\<rparr>
   \<and> unat (0 :: u32) < sizeof_I256File_CLUT"
proof -
  have v: "I256File_CLUT_IsValid \<lparr>clut_c = ascii CHR ''C'', clut_l = ascii CHR ''L'',
      clut_u = ascii CHR ''U'', clut_t = ascii CHR ''T'', clut_chunk_length = 18, num_colors = 1\<rparr>"
    by (simp add: I256File_CLUT_IsValid_def clut_numColors_def)
  show ?thesis
    using I256File_CLUT_IsValid_shorter [OF v, of 0] by simp
qed

end
