(* ===== verification/I256_Chunks.thy ===== *)
theory I256_Chunks
  imports I256_Format
begin

text \<open>
  The decoding side of the I256 format after the file header: the compression codec's
  contract, the chunk walker, and the \<open>CLUT\<close> and \<open>PIXL\<close> chunk decoders
  (\<open>I256File::UnpackClut\<close>, \<open>I256File::UnpackPixel\<close>, declared in
  \<open>256_file.h\<close> and implemented outside the repository). All of it follows the
  specification (sections 4.2-4.5, 6, 7); the struct layouts and the \<open>IsValid\<close> checks
  it relies on are the source's, from \<open>I256_Format\<close>.

  The codec is a parameter: a record of an encoder and a decoder that must satisfy the
  decode-of-encode contract \<open>codec_ok\<close>; \<open>store_codec\<close> is the pass-through codec the
  specification allows. The chunk walker follows section 4.2 literally and may not
  return (a chunk that declares length 0 is re-read forever), so it is a
  \<open>partial_function (option)\<close>; \<open>chunks_advance\<close> says exactly when it returns.
  A \<open>PIXL\<close> blob is framed as a 32-bit little-endian length followed by that many codec
  bytes (section 4.4: "length-prefixed"); a \<open>CLUT\<close> payload is raw when the two flag bits
  of \<open>num_colors\<close> are 0 and codec-encoded otherwise (section 9's conservative choice).
\<close>

unbundle bit_operations_syntax

datatype load_error =
  InvalidHeader "header_error option"
  | TruncatedChunk
  | TruncatedBlob
  | ChunkDecodeError
  | CompressionError

subsection \<open>The compression codec\<close>

record codec =
  encode :: "byte list \<Rightarrow> byte list"
  decode :: "byte list \<Rightarrow> nat \<Rightarrow> byte list option"

definition codec_ok :: "codec \<Rightarrow> bool" where
  "codec_ok cd \<longleftrightarrow> (\<forall>raw. decode cd (encode cd raw) (length raw) = Some raw)"

definition store_codec :: codec where
  "store_codec = \<lparr>encode = (\<lambda>raw. raw),
                  decode = (\<lambda>src n. if length src = n then Some src else None)\<rparr>"

subsection \<open>The chunk walker\<close>

record chunk_entry =
  ch_tag :: "byte list"
  ch_length :: nat
  ch_payload :: nat

definition chunk_len_at :: "byte list \<Rightarrow> nat \<Rightarrow> nat" where
  "chunk_len_at bs off = unat (le_word (load_bytes bs (off + 4) 4) :: u32)"

partial_function (option) chunk_walk ::
  "byte list \<Rightarrow> nat \<Rightarrow> (chunk_entry list \<times> load_error option) option" where
  "chunk_walk bs off =
     (if length bs - off < sizeof_I256File_CHUNK then Some ([], None)
      else if off + chunk_len_at bs off > length bs then Some ([], Some TruncatedChunk)
      else Option.bind (chunk_walk bs (off + chunk_len_at bs off))
             (\<lambda>(cs, e). Some (\<lparr>ch_tag = load_bytes bs off 4, ch_length = chunk_len_at bs off,
                                ch_payload = off + sizeof_I256File_CHUNK\<rparr> # cs, e)))"

text \<open>When the walker returns: no chunk it reaches declares length 0.\<close>

function chunks_advance :: "byte list \<Rightarrow> nat \<Rightarrow> bool" where
  "chunks_advance bs off =
     (if length bs - off < sizeof_I256File_CHUNK then True
      else if off + chunk_len_at bs off > length bs then True
      else if chunk_len_at bs off = 0 then False
      else chunks_advance bs (off + chunk_len_at bs off))"
  by pat_completeness auto
termination
  by (relation "measure (\<lambda>(bs, off). length bs - off)") auto

text \<open>Where the walked chunks lie: each entry's payload starts 8 bytes after the end of
  the previous chunk, and \<open>chunks_end\<close> is where the last one ends.\<close>

fun chunks_contiguous :: "nat \<Rightarrow> chunk_entry list \<Rightarrow> bool" where
  "chunks_contiguous off [] = True"
| "chunks_contiguous off (c # cs) =
     (ch_payload c = off + sizeof_I256File_CHUNK \<and> chunks_contiguous (off + ch_length c) cs)"

fun chunks_end :: "nat \<Rightarrow> chunk_entry list \<Rightarrow> nat" where
  "chunks_end off [] = off"
| "chunks_end off (c # cs) = chunks_end (off + ch_length c) cs"

text \<open>What the walker promises (section 4.2): the chunks it yields are contiguous from
  where it starts; it stops without error exactly when fewer than 8 bytes remain after
  the last chunk, and it reports \<open>TruncatedChunk\<close> exactly for a chunk whose declared
  length runs past the end of the buffer.\<close>

definition walk_spec :: "byte list \<Rightarrow> nat \<Rightarrow> chunk_entry list \<times> load_error option \<Rightarrow> bool" where
  "walk_spec bs off r =
     (case r of (cs, e) \<Rightarrow>
        chunks_contiguous off cs \<and> chunks_end off cs \<le> length bs \<and>
        (case e of None \<Rightarrow> length bs - chunks_end off cs < sizeof_I256File_CHUNK
         | Some err \<Rightarrow> err = TruncatedChunk \<and> sizeof_I256File_CHUNK \<le> length bs - chunks_end off cs
                       \<and> length bs < chunks_end off cs + chunk_len_at bs (chunks_end off cs)))"

text \<open>A sequence of chunks laid end to end, as a writer emits them: each chunk at least
  a generic header long, with its own length in its length field.\<close>

definition chunk_framed :: "byte list \<Rightarrow> bool" where
  "chunk_framed ch \<longleftrightarrow> sizeof_I256File_CHUNK \<le> length ch \<and> chunk_len_at ch 0 = length ch"

fun chunk_entries :: "nat \<Rightarrow> byte list list \<Rightarrow> chunk_entry list" where
  "chunk_entries off [] = []"
| "chunk_entries off (ch # chs) =
     \<lparr>ch_tag = take 4 ch, ch_length = length ch, ch_payload = off + sizeof_I256File_CHUNK\<rparr>
     # chunk_entries (off + length ch) chs"

subsection \<open>The chunk decoders\<close>

text \<open>BGRA quads of a raw palette payload.\<close>

fun colors_of_bytes :: "byte list \<Rightarrow> I256_Color list" where
  "colors_of_bytes (b # g # r # a # rest) =
     \<lparr>color_b = b, color_g = g, color_r = r, color_a = a\<rparr> # colors_of_bytes rest"
| "colors_of_bytes _ = []"

definition UnpackClut ::
  "codec \<Rightarrow> byte list \<Rightarrow> chunk_entry \<Rightarrow> load_error + (nat \<times> I256_Color list)" where
  "UnpackClut cd bs e =
     (let start = ch_payload e - sizeof_I256File_CHUNK in
      if ch_length e < sizeof_I256File_CLUT then Inl ChunkDecodeError
      else case I256File_CLUT_parse (load_bytes bs start sizeof_I256File_CLUT) of
        None \<Rightarrow> Inl ChunkDecodeError
      | Some cl \<Rightarrow>
          if \<not> I256File_CLUT_IsValid cl then Inl ChunkDecodeError
          else
            let n = clut_numColors (num_colors cl);
                payload = load_bytes bs (start + sizeof_I256File_CLUT)
                            (ch_length e - sizeof_I256File_CLUT)
            in if drop_bit 14 (num_colors cl) = 0 then
                 (if length payload = n * 4 then Inr (n, colors_of_bytes payload)
                  else Inl ChunkDecodeError)
               else
                 (case decode cd payload (n * 4) of
                    None \<Rightarrow> Inl CompressionError
                  | Some raw \<Rightarrow>
                      if length raw = n * 4 then Inr (n, colors_of_bytes raw)
                      else Inl CompressionError))"

text \<open>The blobs of a \<open>PIXL\<close> payload, each decoded independently to one frame.\<close>

fun unpack_blobs ::
  "codec \<Rightarrow> nat \<Rightarrow> byte list \<Rightarrow> nat \<Rightarrow> load_error + byte list list" where
  "unpack_blobs cd fsize p 0 = Inr []"
| "unpack_blobs cd fsize p (Suc k) =
     (if length p < 4 then Inl TruncatedBlob
      else
        let blen = unat (le_word (take 4 p) :: u32) in
        if 4 + blen > length p then Inl TruncatedBlob
        else case decode cd (take blen (drop 4 p)) fsize of
          None \<Rightarrow> Inl CompressionError
        | Some fr \<Rightarrow>
            if length fr \<noteq> fsize then Inl CompressionError
            else case unpack_blobs cd fsize (drop (4 + blen) p) k of
              Inl err \<Rightarrow> Inl err
            | Inr frs \<Rightarrow> Inr (fr # frs))"

definition UnpackPixel ::
  "codec \<Rightarrow> nat \<Rightarrow> byte list \<Rightarrow> chunk_entry \<Rightarrow> load_error + byte list list" where
  "UnpackPixel cd fsize bs e =
     (let start = ch_payload e - sizeof_I256File_CHUNK in
      if ch_length e < sizeof_I256File_PIXL then Inl ChunkDecodeError
      else case I256File_PIXL_parse (load_bytes bs start sizeof_I256File_PIXL) of
        None \<Rightarrow> Inl ChunkDecodeError
      | Some px \<Rightarrow>
          if \<not> I256File_PIXL_IsValid px then Inl ChunkDecodeError
          else unpack_blobs cd fsize
                 (load_bytes bs (start + sizeof_I256File_PIXL) (ch_length e - sizeof_I256File_PIXL))
                 (unat (num_blobs px)))"

text \<open>The encoding side used by the save path: a framed blob.\<close>

definition blob_bytes :: "codec \<Rightarrow> byte list \<Rightarrow> byte list" where
  "blob_bytes cd fr = u32_bytes (of_nat (length (encode cd fr))) @ encode cd fr"

declare chunks_advance.simps [simp del]
declare chunk_walk.simps [code]

subsection \<open>Walker lemmas\<close>

lemma chunk_walk_stop:
  "length bs - off < sizeof_I256File_CHUNK \<Longrightarrow> chunk_walk bs off = Some ([], None)"
  by (simp add: chunk_walk.simps [of bs off])

lemma chunk_walk_step:
  assumes "\<not> length bs - off < sizeof_I256File_CHUNK" and "off + chunk_len_at bs off \<le> length bs"
  shows "chunk_walk bs off =
           map_option (\<lambda>(cs, e). (\<lparr>ch_tag = load_bytes bs off 4, ch_length = chunk_len_at bs off,
                                  ch_payload = off + sizeof_I256File_CHUNK\<rparr> # cs, e))
             (chunk_walk bs (off + chunk_len_at bs off))"
  using assms
  by (cases "chunk_walk bs (off + chunk_len_at bs off)")
     (auto simp: chunk_walk.simps [of bs off] split: prod.splits)

lemma chunk_walk_returns_advance:
  assumes "chunk_walk bs off = Some r"
  shows "chunks_advance bs off"
proof (rule chunk_walk.raw_induct [where P = "\<lambda>bs off r. chunks_advance bs off", OF _ assms])
  fix f bs off r
  assume IH: "\<And>bs off r. f bs off = Some r \<Longrightarrow> chunks_advance bs off"
    and eq: "(if length bs - off < sizeof_I256File_CHUNK then Some ([], None)
      else if off + chunk_len_at bs off > length bs then Some ([], Some TruncatedChunk)
      else Option.bind (f bs (off + chunk_len_at bs off))
             (\<lambda>(cs, e). Some (\<lparr>ch_tag = load_bytes bs off 4, ch_length = chunk_len_at bs off,
                                ch_payload = off + sizeof_I256File_CHUNK\<rparr> # cs, e))) = Some r"
  show "chunks_advance bs off"
  proof (cases "length bs - off < sizeof_I256File_CHUNK \<or> off + chunk_len_at bs off > length bs")
    case True
    then show ?thesis by (auto simp: chunks_advance.simps [of bs off])
  next
    case False
    with eq obtain r' where "f bs (off + chunk_len_at bs off) = Some r'"
      by (cases "f bs (off + chunk_len_at bs off)") auto
    then have adv: "chunks_advance bs (off + chunk_len_at bs off)" by (rule IH)
    show ?thesis
    proof (cases "chunk_len_at bs off = 0")
      case True
      with adv show ?thesis by simp
    next
      case nz: False
      with adv False show ?thesis by (simp add: chunks_advance.simps [of bs off])
    qed
  qed
qed

lemma chunk_walk_advance_returns:
  "chunks_advance bs off \<Longrightarrow> \<exists>r. chunk_walk bs off = Some r"
proof (induction bs off rule: chunks_advance.induct)
  case (1 bs off)
  show ?case
  proof (cases "length bs - off < sizeof_I256File_CHUNK \<or> off + chunk_len_at bs off > length bs")
    case True
    then show ?thesis by (auto simp: chunk_walk.simps [of bs off])
  next
    case False
    with "1.prems" have nz: "chunk_len_at bs off \<noteq> 0"
        and adv: "chunks_advance bs (off + chunk_len_at bs off)"
      by (auto simp: chunks_advance.simps [of bs off] split: if_splits)
    with "1.IH" False obtain r where "chunk_walk bs (off + chunk_len_at bs off) = Some r"
      by auto
    with False show ?thesis by (cases r) (auto simp: chunk_walk.simps [of bs off])
  qed
qed

lemma colors_of_bytes_concat: "colors_of_bytes (concat (map I256_Color_bytes cols)) = cols"
proof (induction cols)
  case Nil
  then show ?case by simp
next
  case (Cons col cols)
  then show ?case by (cases col) (simp add: I256_Color_bytes_def)
qed

lemma length_concat_color_bytes: "length (concat (map I256_Color_bytes cols)) = 4 * length cols"
  by (induction cols) simp_all

lemma length_blob_bytes: "length (blob_bytes cd fr) = 4 + length (encode cd fr)"
  by (simp add: blob_bytes_def)

lemma unpack_blobs_concat:
  assumes ok: "codec_ok cd"
    and sz: "list_all (\<lambda>f. length f = fsize) frs"
    and enc: "list_all (\<lambda>f. length (encode cd f) < 2 ^ 32) frs"
  shows "unpack_blobs cd fsize (concat (map (blob_bytes cd) frs) @ rest) (length frs) = Inr frs"
  using sz enc
proof (induction frs)
  case Nil
  then show ?case by simp
next
  case (Cons f frs)
  let ?z = "encode cd f"
  let ?p = "blob_bytes cd f @ concat (map (blob_bytes cd) frs) @ rest"
  have L: "unat (le_word (take 4 ?p) :: u32) = length ?z"
    using Cons.prems by (simp add: blob_bytes_def unat_of_nat_u32)
  have "decode cd ?z (length f) = Some f"
    using ok by (simp add: codec_ok_def)
  then have dec: "decode cd ?z fsize = Some f"
    using Cons.prems by simp
  have "take (length ?z) (drop 4 ?p) = ?z" and "drop (4 + length ?z) ?p = concat (map (blob_bytes cd) frs) @ rest"
    by (simp_all add: blob_bytes_def)
  with L dec Cons show ?case
    by (simp add: length_blob_bytes)
qed
lemma chunk_len_at_append:
  "sizeof_I256File_CHUNK \<le> length ch \<Longrightarrow> chunk_len_at (pre @ ch @ rest) (length pre) = chunk_len_at ch 0"
  by (simp add: chunk_len_at_def load_bytes_def)

lemma chunk_walk_concat:
  assumes "list_all chunk_framed chs" and "length trail < sizeof_I256File_CHUNK"
  shows "chunk_walk (pre @ concat chs @ trail) (length pre) = Some (chunk_entries (length pre) chs, None)"
  using assms(1)
proof (induction chs arbitrary: pre)
  case Nil
  then show ?case using assms(2) by (simp add: chunk_walk_stop)
next
  case (Cons ch chs)
  let ?bs = "pre @ ch @ concat chs @ trail"
  have fr: "sizeof_I256File_CHUNK \<le> length ch" "chunk_len_at ch 0 = length ch"
    using Cons.prems by (simp_all add: chunk_framed_def)
  have len: "chunk_len_at ?bs (length pre) = length ch"
    using fr chunk_len_at_append [of ch pre "concat chs @ trail"] by simp
  have tag: "load_bytes ?bs (length pre) 4 = take 4 ch"
    using fr by (simp add: load_bytes_def)
  have IH: "chunk_walk ((pre @ ch) @ concat chs @ trail) (length (pre @ ch))
              = Some (chunk_entries (length (pre @ ch)) chs, None)"
    using Cons.IH [of "pre @ ch"] Cons.prems by simp
  have "chunk_walk ?bs (length pre) =
          map_option (\<lambda>(cs, e). (\<lparr>ch_tag = take 4 ch, ch_length = length ch,
                                  ch_payload = length pre + sizeof_I256File_CHUNK\<rparr> # cs, e))
            (chunk_walk ?bs (length pre + length ch))"
    using chunk_walk_step [of ?bs "length pre"] fr len tag by simp
  with IH show ?case by simp
qed

lemma store_codec_ok: "codec_ok store_codec"
  by (simp add: codec_ok_def store_codec_def)

subsection \<open>Properties of the walker\<close>

text \<open>C18: The chunk walker returns (for any buffer and start offset) exactly when no
  chunk it reaches declares a length of 0; otherwise it re-reads the same chunk forever.\<close>

theorem chunk_walk_terminates_iff:
  "(\<exists>r. chunk_walk bs off = Some r) \<longleftrightarrow> chunks_advance bs off"
  using chunk_walk_returns_advance chunk_walk_advance_returns by blast

text \<open>C17: Whenever the walker returns, the chunks it yields tile the buffer from the start
  offset without gap or overlap, each payload 8 bytes after its chunk's start; it ends
  without error exactly when fewer than 8 bytes remain after the last chunk, and it
  reports \<open>TruncatedChunk\<close> exactly for a chunk whose declared length runs past the end.\<close>

theorem chunk_walk_coverage:
  assumes ret: "chunk_walk bs off = Some r" and le: "off \<le> length bs"
  shows "walk_spec bs off r"
proof -
  have "off \<le> length bs \<longrightarrow> walk_spec bs off r"
  proof (rule chunk_walk.raw_induct
      [where P = "\<lambda>bs off r. off \<le> length bs \<longrightarrow> walk_spec bs off r", OF _ ret])
    fix f bs off r
    assume IH: "\<And>bs off r. f bs off = Some r \<Longrightarrow> off \<le> length bs \<longrightarrow> walk_spec bs off r"
      and eq: "(if length bs - off < sizeof_I256File_CHUNK then Some ([], None)
        else if off + chunk_len_at bs off > length bs then Some ([], Some TruncatedChunk)
        else Option.bind (f bs (off + chunk_len_at bs off))
               (\<lambda>(cs, e). Some (\<lparr>ch_tag = load_bytes bs off 4, ch_length = chunk_len_at bs off,
                                  ch_payload = off + sizeof_I256File_CHUNK\<rparr> # cs, e))) = Some r"
    show "off \<le> length bs \<longrightarrow> walk_spec bs off r"
    proof
      assume le: "off \<le> length bs"
      consider (stop) "length bs - off < sizeof_I256File_CHUNK"
        | (trunc) "\<not> length bs - off < sizeof_I256File_CHUNK" "off + chunk_len_at bs off > length bs"
        | (step) "\<not> length bs - off < sizeof_I256File_CHUNK" "off + chunk_len_at bs off \<le> length bs"
        by linarith
      then show "walk_spec bs off r"
      proof cases
        case stop
        with eq le show ?thesis by (auto simp: walk_spec_def)
      next
        case trunc
        with eq le show ?thesis by (auto simp: walk_spec_def)
      next
        case step
        with eq obtain cs e where rec: "f bs (off + chunk_len_at bs off) = Some (cs, e)"
            and r: "r = (\<lparr>ch_tag = load_bytes bs off 4, ch_length = chunk_len_at bs off,
                          ch_payload = off + sizeof_I256File_CHUNK\<rparr> # cs, e)"
          by (cases "f bs (off + chunk_len_at bs off)") auto
        from IH [OF rec] step have "walk_spec bs (off + chunk_len_at bs off) (cs, e)"
          by simp
        then show ?thesis
          by (simp add: r walk_spec_def split: option.splits)
      qed
    qed
  qed
  with le show ?thesis by simp
qed

theorem chunk_walk_coverage_witness:
  "walk_spec (replicate 16 0 @ ascii_bytes ''ABCD'' @ [8, 0, 0, 0] @ ascii_bytes ''EFGH''
              @ [9, 0, 0, 0, 7, 1, 2]) 16
     ([\<lparr>ch_tag = ascii_bytes ''ABCD'', ch_length = 8, ch_payload = 24\<rparr>,
       \<lparr>ch_tag = ascii_bytes ''EFGH'', ch_length = 9, ch_payload = 32\<rparr>], None)"
proof -
  have "chunk_walk (replicate 16 0 @ ascii_bytes ''ABCD'' @ [8, 0, 0, 0] @ ascii_bytes ''EFGH''
              @ [9, 0, 0, 0, 7, 1, 2]) 16
     = Some ([\<lparr>ch_tag = ascii_bytes ''ABCD'', ch_length = 8, ch_payload = 24\<rparr>,
       \<lparr>ch_tag = ascii_bytes ''EFGH'', ch_length = 9, ch_payload = 32\<rparr>], None)"
    by (simp add: chunk_walk.simps chunk_len_at_def load_bytes_def le_word_def ascii_bytes_def)
  then show ?thesis
    by (rule chunk_walk_coverage) simp
qed


end
