(* ===== verification/I256_Container.thy ===== *)
theory I256_Container
  imports I256_Chunks
begin

text \<open>
  The class \<open>I256File\<close> of \<open>256_file.h\<close>: its data members as a record and its inline
  accessors from the source; its constructors and the methods \<open>SetPalette\<close>,
  \<open>AddImages\<close>, \<open>LoadFromFile\<close> and \<open>SaveToFile\<close>, whose bodies are not in the
  repository, from the specification's section 4.6 (the file system itself is left to
  the plugin theories: \<open>I256File_Load\<close> and \<open>I256File_Save\<close> work on the file's bytes).
  Loading runs the header check, then the chunk walker, dispatching \<open>CLUT\<close> chunks to
  \<open>UnpackClut\<close> (the last one wins) and \<open>PIXL\<close> chunks to \<open>UnpackPixel\<close> (frames
  appended in order) and skipping every other tag; it may not return, since the walker
  may not (\<open>None\<close>). The frame size is \<open>width * height\<close> of the header's signed
  shorts, read as a natural number (0 when the product is negative, which the source's
  \<open>IsValid\<close> lets through; the specification leaves that case open).
\<close>

unbundle bit_operations_syntax

record I256File =
  m_widthPixels :: int
  m_heightPixels :: int
  m_numColors :: int
  m_pal :: I256_Palette
  m_pPixelMaps :: "byte list list"

datatype container_error = PaletteSizeMismatch | FrameSizeMismatch

subsection \<open>Accessors (inline in the class declaration)\<close>

definition GetFrameCount :: "I256File \<Rightarrow> int" where
  "GetFrameCount c = int (length (m_pPixelMaps c))"

definition GetWidth :: "I256File \<Rightarrow> int" where
  "GetWidth c = m_widthPixels c"

definition GetHeight :: "I256File \<Rightarrow> int" where
  "GetHeight c = m_heightPixels c"

definition GetPalette :: "I256File \<Rightarrow> I256_Palette" where
  "GetPalette c = m_pal c"

definition GetPixelMaps :: "I256File \<Rightarrow> byte list list" where
  "GetPixelMaps c = m_pPixelMaps c"

definition frame_size :: "I256File \<Rightarrow> nat" where
  "frame_size c = nat (m_widthPixels c * m_heightPixels c)"

subsection \<open>Building a container (section 4.6)\<close>

definition zero_color :: I256_Color where
  "zero_color = \<lparr>color_b = 0, color_g = 0, color_r = 0, color_a = 0\<rparr>"

definition I256File_blank :: "int \<Rightarrow> int \<Rightarrow> int \<Rightarrow> I256File" where
  "I256File_blank iWidthPixels iHeightPixels numColors =
     \<lparr>m_widthPixels = iWidthPixels, m_heightPixels = iHeightPixels, m_numColors = numColors,
      m_pal = \<lparr>iNumColors = numColors, pColors = replicate (nat numColors) zero_color\<rparr>,
      m_pPixelMaps = []\<rparr>"

definition SetPalette :: "I256File \<Rightarrow> I256_Palette \<Rightarrow> container_error + I256File" where
  "SetPalette c palette =
     (if iNumColors palette \<noteq> m_numColors c \<or> int (length (pColors palette)) \<noteq> iNumColors palette
      then Inl PaletteSizeMismatch
      else Inr (c\<lparr>m_pal := palette\<rparr>))"

definition AddImages :: "I256File \<Rightarrow> byte list list \<Rightarrow> container_error + I256File" where
  "AddImages c pPixelMaps =
     (if list_all (\<lambda>f. length f = frame_size c) pPixelMaps
      then Inr (c\<lparr>m_pPixelMaps := m_pPixelMaps c @ pPixelMaps\<rparr>)
      else Inl FrameSizeMismatch)"

subsection \<open>Loading (section 4.6, Load)\<close>

definition I256File_init :: "I256File_Header \<Rightarrow> I256File" where
  "I256File_init hdr =
     \<lparr>m_widthPixels = sint (width hdr), m_heightPixels = sint (height hdr), m_numColors = 0,
      m_pal = \<lparr>iNumColors = 0, pColors = []\<rparr>, m_pPixelMaps = []\<rparr>"

fun load_chunks :: "codec \<Rightarrow> byte list \<Rightarrow> I256File \<Rightarrow> chunk_entry list \<Rightarrow> load_error + I256File" where
  "load_chunks cd bs c [] = Inr c"
| "load_chunks cd bs c (e # es) =
     (if ch_tag e = ascii_bytes ''CLUT'' then
        (case UnpackClut cd bs e of
           Inl err \<Rightarrow> Inl err
         | Inr (n, cols) \<Rightarrow>
             load_chunks cd bs
               (c\<lparr>m_numColors := int n, m_pal := \<lparr>iNumColors = int n, pColors = cols\<rparr>\<rparr>) es)
      else if ch_tag e = ascii_bytes ''PIXL'' then
        (case UnpackPixel cd (frame_size c) bs e of
           Inl err \<Rightarrow> Inl err
         | Inr frs \<Rightarrow> load_chunks cd bs (c\<lparr>m_pPixelMaps := m_pPixelMaps c @ frs\<rparr>) es)
      else load_chunks cd bs c es)"

definition I256File_Load :: "codec \<Rightarrow> byte list \<Rightarrow> (load_error + I256File) option" where
  "I256File_Load cd bs =
     (case I256File_Header_parse bs of
        None \<Rightarrow> Some (Inl (InvalidHeader None))
      | Some hdr \<Rightarrow>
          (case I256File_Header_check hdr (of_nat (length bs)) of
             Some r \<Rightarrow> Some (Inl (InvalidHeader (Some r)))
           | None \<Rightarrow>
               map_option
                 (\<lambda>(cs, werr). case load_chunks cd bs (I256File_init hdr) cs of
                     Inl err \<Rightarrow> Inl err
                   | Inr c \<Rightarrow> (case werr of None \<Rightarrow> Inr c | Some err \<Rightarrow> Inl err))
                 (chunk_walk bs sizeof_I256File_Header)))"

text \<open>What section 4.6 says \<open>Load\<close> does with the chunks: the frames of the \<open>PIXL\<close>
  chunks in chunk order, then blob order, and the palette of the last \<open>CLUT\<close> chunk.\<close>

definition chunk_frames :: "codec \<Rightarrow> nat \<Rightarrow> byte list \<Rightarrow> chunk_entry list \<Rightarrow> byte list list" where
  "chunk_frames cd fsize bs es =
     concat (map (\<lambda>e. if ch_tag e \<noteq> ascii_bytes ''CLUT'' \<and> ch_tag e = ascii_bytes ''PIXL''
                      then (case UnpackPixel cd fsize bs e of Inr frs \<Rightarrow> frs | Inl err \<Rightarrow> [])
                      else []) es)"

fun last_clut :: "codec \<Rightarrow> byte list \<Rightarrow> chunk_entry list \<Rightarrow> (nat \<times> I256_Color list) option" where
  "last_clut cd bs [] = None"
| "last_clut cd bs (e # es) =
     (case last_clut cd bs es of
        Some r \<Rightarrow> Some r
      | None \<Rightarrow> if ch_tag e = ascii_bytes ''CLUT''
                then (case UnpackClut cd bs e of Inr r \<Rightarrow> Some r | Inl err \<Rightarrow> None) else None)"

subsection \<open>Saving (section 4.6, Save)\<close>

definition clut_chunk_bytes :: "I256_Palette \<Rightarrow> byte list" where
  "clut_chunk_bytes pal =
     (let payload = concat (map I256_Color_bytes (pColors pal)) in
      I256File_CLUT_bytes
        \<lparr>clut_c = ascii CHR ''C'', clut_l = ascii CHR ''L'', clut_u = ascii CHR ''U'',
         clut_t = ascii CHR ''T'', clut_chunk_length = of_nat (sizeof_I256File_CLUT + length payload),
         num_colors = clut_count_field (nat (iNumColors pal)) 0\<rparr>
      @ payload)"

definition pixl_chunk_bytes :: "codec \<Rightarrow> byte list list \<Rightarrow> byte list" where
  "pixl_chunk_bytes cd frs =
     (let payload = concat (map (blob_bytes cd) frs) in
      I256File_PIXL_bytes
        \<lparr>pixl_p = ascii CHR ''P'', pixl_i = ascii CHR ''I'', pixl_x = ascii CHR ''X'',
         pixl_l = ascii CHR ''L'', pixl_chunk_length = of_nat (sizeof_I256File_PIXL + length payload),
         num_blobs = of_nat (length frs)\<rparr>
      @ payload)"

definition I256File_Save :: "codec \<Rightarrow> I256File \<Rightarrow> byte list" where
  "I256File_Save cd c =
     (let body = clut_chunk_bytes (m_pal c) @ pixl_chunk_bytes cd (m_pPixelMaps c) in
      I256File_Header_bytes
        \<lparr>hi = ascii CHR ''I'', h2 = ascii CHR ''2'', h5 = ascii CHR ''5'', h6 = ascii CHR ''6'',
         file_length = of_nat (sizeof_I256File_Header + length body), version = 0,
         width = word_of_int (m_widthPixels c), height = word_of_int (m_heightPixels c),
         reserved = 0\<rparr>
      @ body)"

subsection \<open>The container invariant\<close>

text \<open>What a populated container keeps true between its fields (section 3): positive
  dimensions that fit the header's signed shorts, a colour count the \<open>CLUT\<close> field can
  hold, a palette of exactly that many entries, and frames of \<open>width * height\<close> bytes.\<close>

definition I256File_wf :: "I256File \<Rightarrow> bool" where
  "I256File_wf c \<longleftrightarrow>
     1 \<le> m_widthPixels c \<and> m_widthPixels c \<le> 32767 \<and>
     1 \<le> m_heightPixels c \<and> m_heightPixels c \<le> 32767 \<and>
     1 \<le> m_numColors c \<and> m_numColors c \<le> 16384 \<and>
     iNumColors (m_pal c) = m_numColors c \<and> int (length (pColors (m_pal c))) = m_numColors c \<and>
     list_all (\<lambda>f. length f = frame_size c) (m_pPixelMaps c)"

text \<open>What \<open>Save\<close> and \<open>Load\<close> need of a container to round-trip: non-zero dimensions
  that fit the signed shorts of the header (negative ones included, as \<open>IsValid\<close> lets
  them through), and the colour count, palette and frames of the invariant.\<close>

definition I256File_storable :: "I256File \<Rightarrow> bool" where
  "I256File_storable c \<longleftrightarrow>
     m_widthPixels c \<noteq> 0 \<and> - 32768 \<le> m_widthPixels c \<and> m_widthPixels c \<le> 32767 \<and>
     m_heightPixels c \<noteq> 0 \<and> - 32768 \<le> m_heightPixels c \<and> m_heightPixels c \<le> 32767 \<and>
     1 \<le> m_numColors c \<and> m_numColors c \<le> 16384 \<and>
     iNumColors (m_pal c) = m_numColors c \<and> int (length (pColors (m_pal c))) = m_numColors c \<and>
     list_all (\<lambda>f. length f = frame_size c) (m_pPixelMaps c)"

text \<open>The containers a client builds (section 4.6: created blank with dimensions and a
  colour count in range, then populated by \<open>SetPalette\<close> and \<open>AddImages\<close>), and
  the container of the specification's end-to-end scenario (section 8).\<close>

inductive I256File_built :: "I256File \<Rightarrow> bool" where
  blank: "1 \<le> w \<Longrightarrow> w \<le> 32767 \<Longrightarrow> 1 \<le> h \<Longrightarrow> h \<le> 32767 \<Longrightarrow> 1 \<le> n \<Longrightarrow> n \<le> 16384
          \<Longrightarrow> I256File_built (I256File_blank w h n)"
| set_palette: "I256File_built c \<Longrightarrow> SetPalette c p = Inr c' \<Longrightarrow> I256File_built c'"
| add_images: "I256File_built c \<Longrightarrow> AddImages c frs = Inr c' \<Longrightarrow> I256File_built c'"

definition example_palette :: I256_Palette where
  "example_palette = \<lparr>iNumColors = 2,
     pColors = [\<lparr>color_b = 0, color_g = 0, color_r = 0, color_a = 255\<rparr>,
                \<lparr>color_b = 255, color_g = 255, color_r = 255, color_a = 255\<rparr>]\<rparr>"

definition example_file :: I256File where
  "example_file = (I256File_blank 4 2 2)\<lparr>m_pal := example_palette, m_pPixelMaps := [[0, 1, 0, 1, 0, 1, 0, 1]]\<rparr>"

text \<open>Two \<open>CLUT\<close> chunks with an unknown chunk between them.\<close>

definition example_palette1 :: I256_Palette where
  "example_palette1 = \<lparr>iNumColors = 1, pColors = [\<lparr>color_b = 1, color_g = 2, color_r = 3, color_a = 4\<rparr>]\<rparr>"

definition example_two_cluts :: "byte list" where
  "example_two_cluts = clut_chunk_bytes example_palette @ clut_chunk_bytes example_palette1"

definition example_two_clut_entries :: "chunk_entry list" where
  "example_two_clut_entries =
     [\<lparr>ch_tag = take 4 (clut_chunk_bytes example_palette), ch_length = length (clut_chunk_bytes example_palette),
       ch_payload = sizeof_I256File_CHUNK\<rparr>,
      \<lparr>ch_tag = ascii_bytes ''ZZZZ'', ch_length = 8, ch_payload = sizeof_I256File_CHUNK\<rparr>,
      \<lparr>ch_tag = take 4 (clut_chunk_bytes example_palette1), ch_length = length (clut_chunk_bytes example_palette1),
       ch_payload = length (clut_chunk_bytes example_palette) + sizeof_I256File_CHUNK\<rparr>]"

text \<open>What every container \<open>Load\<close> returns keeps between its fields, whatever the file:
  a palette of exactly its colour count of entries and frames of \<open>width * height\<close>
  bytes (the dimensions and the count themselves are not bounded).\<close>

definition I256File_shape :: "I256File \<Rightarrow> bool" where
  "I256File_shape c \<longleftrightarrow>
     iNumColors (m_pal c) = m_numColors c \<and> int (length (pColors (m_pal c))) = m_numColors c \<and>
     list_all (\<lambda>f. length f = frame_size c) (m_pPixelMaps c)"

subsection \<open>Lemmas of the save path\<close>

lemma drop_bit_14_small: "unat (w :: u16) < 16384 \<Longrightarrow> drop_bit 14 w = 0"
proof -
  assume "unat w < 16384"
  then have "unat (drop_bit 14 w) = 0"
    by (simp only: unat_drop_bit_eq) (simp add: drop_bit_eq_div)
  then show ?thesis by (simp add: unat_0_iff)
qed

lemma clut_count_field_props:
  assumes "1 \<le> n" "n \<le> 16384"
  shows "clut_numColors (clut_count_field n 0) = n" and "drop_bit 14 (clut_count_field n 0) = 0"
proof -
  have u: "unat (clut_count_field n 0) = n - 1"
    using assms by (simp only: clut_count_field_def unat_of_nat) simp
  then show "clut_numColors (clut_count_field n 0) = n"
    using assms by (simp add: clut_numColors_def unat_and_3FFF)
  show "drop_bit 14 (clut_count_field n 0) = 0"
    using u assms by (intro drop_bit_14_small) simp
qed

lemma length_clut_chunk_bytes:
  "length (clut_chunk_bytes pal) = 10 + 4 * length (pColors pal)"
  by (simp add: clut_chunk_bytes_def length_concat_color_bytes)

lemma UnpackClut_saved:
  assumes len: "int (length (pColors pal)) = iNumColors pal" and lo: "1 \<le> iNumColors pal"
    and hi: "iNumColors pal \<le> 16384"
  shows "UnpackClut cd (pre @ clut_chunk_bytes pal @ rest)
           \<lparr>ch_tag = take 4 (clut_chunk_bytes pal), ch_length = length (clut_chunk_bytes pal),
            ch_payload = length pre + sizeof_I256File_CHUNK\<rparr>
         = Inr (nat (iNumColors pal), pColors pal)"
proof -
  define n where "n = length (pColors pal)"
  define payload where "payload = concat (map I256_Color_bytes (pColors pal))"
  define cl where "cl = \<lparr>clut_c = ascii CHR ''C'', clut_l = ascii CHR ''L'', clut_u = ascii CHR ''U'',
         clut_t = ascii CHR ''T'', clut_chunk_length = of_nat (sizeof_I256File_CLUT + length payload),
         num_colors = clut_count_field (nat (iNumColors pal)) 0\<rparr>"
  have nn: "nat (iNumColors pal) = n" and n1: "1 \<le> n" and n2: "n \<le> 16384"
    using len lo hi by (simp_all add: n_def)
  have pl: "length payload = 4 * n"
    by (simp add: payload_def n_def length_concat_color_bytes)
  have C: "clut_chunk_bytes pal = I256File_CLUT_bytes cl @ payload"
    by (simp add: clut_chunk_bytes_def cl_def payload_def Let_def)
  have hdr: "load_bytes (pre @ clut_chunk_bytes pal @ rest) (length pre) 10 = I256File_CLUT_bytes cl"
    by (simp add: C load_bytes_def)
  have pay: "load_bytes (pre @ clut_chunk_bytes pal @ rest) (length pre + 10) (length (clut_chunk_bytes pal) - 10)
             = payload"
    by (simp add: C load_bytes_def pl)
  have parse: "I256File_CLUT_parse (I256File_CLUT_bytes cl) = Some cl"
    using I256File_CLUT_parse_bytes [of cl "[]"] by simp
  have cnt: "clut_numColors (num_colors cl) = n" "drop_bit 14 (num_colors cl) = 0"
    using clut_count_field_props [OF n1 n2] by (simp_all add: cl_def nn)
  have ulen: "unat (clut_chunk_length cl) = 10 + 4 * n"
    using pl n2 by (simp only: cl_def I256File_CLUT.select_convs unat_of_nat) simp
  have valid: "I256File_CLUT_IsValid cl"
    using cnt ulen by (simp add: I256File_CLUT_IsValid_def cl_def)
  show ?thesis
    using hdr pay parse valid cnt pl nn
    by (simp add: UnpackClut_def Let_def C payload_def colors_of_bytes_concat)
qed
lemma UnpackPixel_saved:
  assumes ok: "codec_ok cd" and sz: "list_all (\<lambda>f. length f = fsize) frs"
    and enc: "list_all (\<lambda>f. length (encode cd f) < 2 ^ 32) frs" and nfr: "length frs < 65536"
  shows "UnpackPixel cd fsize (pre @ pixl_chunk_bytes cd frs @ rest)
           \<lparr>ch_tag = take 4 (pixl_chunk_bytes cd frs), ch_length = length (pixl_chunk_bytes cd frs),
            ch_payload = length pre + sizeof_I256File_CHUNK\<rparr>
         = Inr frs"
proof -
  define payload where "payload = concat (map (blob_bytes cd) frs)"
  define px where "px = \<lparr>pixl_p = ascii CHR ''P'', pixl_i = ascii CHR ''I'', pixl_x = ascii CHR ''X'',
         pixl_l = ascii CHR ''L'', pixl_chunk_length = of_nat (sizeof_I256File_PIXL + length payload),
         num_blobs = of_nat (length frs)\<rparr>"
  have P: "pixl_chunk_bytes cd frs = I256File_PIXL_bytes px @ payload"
    by (simp add: pixl_chunk_bytes_def px_def payload_def Let_def)
  have hdr: "load_bytes (pre @ pixl_chunk_bytes cd frs @ rest) (length pre) 10 = I256File_PIXL_bytes px"
    by (simp add: P load_bytes_def)
  have pay: "load_bytes (pre @ pixl_chunk_bytes cd frs @ rest) (length pre + 10)
               (length (pixl_chunk_bytes cd frs) - 10) = payload"
    by (simp add: P load_bytes_def)
  have parse: "I256File_PIXL_parse (I256File_PIXL_bytes px) = Some px"
    using I256File_PIXL_parse_bytes [of px "[]"] by simp
  have valid: "I256File_PIXL_IsValid px"
    by (simp add: I256File_PIXL_IsValid_def px_def)
  have nb: "unat (num_blobs px) = length frs"
    using nfr by (simp only: px_def I256File_PIXL.select_convs unat_of_nat) simp
  have blobs: "unpack_blobs cd fsize payload (length frs) = Inr frs"
    using unpack_blobs_concat [OF ok sz enc, of "[]"] by (simp add: payload_def)
  show ?thesis
    using hdr pay parse valid nb blobs
    by (simp add: UnpackPixel_def Let_def P)
qed
lemma encode_length_le_payload:
  "list_all (\<lambda>f. length (encode cd f) \<le> length (concat (map (blob_bytes cd) frs))) frs"
  by (induction frs) (auto simp: length_blob_bytes elim!: list.pred_mono_strong)

lemma length_pixl_chunk_bytes:
  "length (pixl_chunk_bytes cd frs) = 10 + length (concat (map (blob_bytes cd) frs))"
  by (simp add: pixl_chunk_bytes_def Let_def)

lemma length_I256File_Save:
  "length (I256File_Save cd c) =
     16 + (10 + 4 * length (pColors (m_pal c))) + (10 + length (concat (map (blob_bytes cd) (m_pPixelMaps c))))"
  by (simp add: I256File_Save_def Let_def length_clut_chunk_bytes length_pixl_chunk_bytes)

lemma storable_palette:
  "I256File_storable c \<Longrightarrow> nat (iNumColors (m_pal c)) = length (pColors (m_pal c)) \<and>
     length (pColors (m_pal c)) = nat (m_numColors c)"
  by (auto simp: I256File_storable_def)

lemma wf_first_frame:
  "I256File_wf c \<Longrightarrow> m_pPixelMaps c \<noteq> [] \<Longrightarrow> length (hd (m_pPixelMaps c)) = frame_size c"
  by (cases "m_pPixelMaps c") (auto simp: I256File_wf_def)

lemma clut_chunk_framed:
  "length (clut_chunk_bytes pal) < 2 ^ 32 \<Longrightarrow> chunk_framed (clut_chunk_bytes pal)"
  by (simp add: chunk_framed_def chunk_len_at_def clut_chunk_bytes_def Let_def I256File_CLUT_bytes_def
      load_bytes_def unat_of_nat del: of_nat_add)

lemma pixl_chunk_framed:
  "length (pixl_chunk_bytes cd frs) < 2 ^ 32 \<Longrightarrow> chunk_framed (pixl_chunk_bytes cd frs)"
  by (simp add: chunk_framed_def chunk_len_at_def pixl_chunk_bytes_def Let_def I256File_PIXL_bytes_def
      load_bytes_def unat_of_nat del: of_nat_add)

lemma take4_clut: "take 4 (clut_chunk_bytes pal) = ascii_bytes ''CLUT''"
  by (simp add: clut_chunk_bytes_def Let_def I256File_CLUT_bytes_def ascii_bytes_def)

lemma take4_pixl: "take 4 (pixl_chunk_bytes cd frs) = ascii_bytes ''PIXL''"
  by (simp add: pixl_chunk_bytes_def Let_def I256File_PIXL_bytes_def ascii_bytes_def)


lemma wf_storable: "I256File_wf c \<Longrightarrow> I256File_storable c"
  by (simp add: I256File_wf_def I256File_storable_def)

lemma SetPalette_wf: "I256File_wf c \<Longrightarrow> SetPalette c p = Inr c' \<Longrightarrow> I256File_wf c'"
  by (auto simp: SetPalette_def I256File_wf_def frame_size_def split: if_splits)

lemma AddImages_wf: "I256File_wf c \<Longrightarrow> AddImages c frs = Inr c' \<Longrightarrow> I256File_wf c'"
  by (auto simp: AddImages_def I256File_wf_def frame_size_def split: if_splits)

lemma I256File_blank_wf:
  "1 \<le> w \<Longrightarrow> w \<le> 32767 \<Longrightarrow> 1 \<le> h \<Longrightarrow> h \<le> 32767 \<Longrightarrow> 1 \<le> n \<Longrightarrow> n \<le> 16384
   \<Longrightarrow> I256File_wf (I256File_blank w h n)"
  by (simp add: I256File_blank_def I256File_wf_def)

lemma example_file_built: "I256File_built example_file"
proof -
  have b: "I256File_built (I256File_blank 4 2 2)"
    by (rule I256File_built.blank) simp_all
  have s: "SetPalette (I256File_blank 4 2 2) example_palette
             = Inr ((I256File_blank 4 2 2)\<lparr>m_pal := example_palette\<rparr>)"
    by (simp add: SetPalette_def I256File_blank_def example_palette_def)
  have a: "AddImages ((I256File_blank 4 2 2)\<lparr>m_pal := example_palette\<rparr>) [[0, 1, 0, 1, 0, 1, 0, 1]]
             = Inr example_file"
    by (simp add: AddImages_def I256File_blank_def example_file_def frame_size_def)
  show ?thesis
    using I256File_built.add_images [OF I256File_built.set_palette [OF b s] a] .
qed

text \<open>Saving then loading, proved once here for the container's round trip and for the
  plugin's read path.\<close>

lemma I256File_Load_Save:
  assumes st: "I256File_storable c" and ok: "codec_ok cd"
    and nfr: "length (m_pPixelMaps c) < 65536"
    and size: "length (I256File_Save cd c) < 2 ^ 32"
  shows "I256File_Load cd (I256File_Save cd c) = Some (Inr c)"
proof -
  define C where "C = clut_chunk_bytes (m_pal c)"
  define P where "P = pixl_chunk_bytes cd (m_pPixelMaps c)"
  define hdr where "hdr = \<lparr>hi = ascii CHR ''I'', h2 = ascii CHR ''2'', h5 = ascii CHR ''5'', h6 = ascii CHR ''6'',
         file_length = of_nat (sizeof_I256File_Header + length (C @ P)), version = 0,
         width = word_of_int (m_widthPixels c) :: i16, height = word_of_int (m_heightPixels c),
         reserved = 0\<rparr>"
  define H where "H = I256File_Header_bytes hdr"
  have save: "I256File_Save cd c = H @ C @ P"
    by (simp add: I256File_Save_def C_def P_def H_def hdr_def Let_def)
  have lens: "length C < 2 ^ 32" "length P < 2 ^ 32" "length (H @ C @ P) < 2 ^ 32"
    using size by (simp_all add: save)
  have w: "sint (width hdr) = m_widthPixels c" and h: "sint (height hdr) = m_heightPixels c"
    using st by (simp_all add: hdr_def I256File_storable_def sint_word_of_int_i16)
  have check: "I256File_Header_check hdr (of_nat (length (H @ C @ P))) = None"
  proof -
    have "width hdr \<noteq> 0" "height hdr \<noteq> 0"
      using w h st by (auto simp: I256File_storable_def)
    then show ?thesis
      by (simp add: I256File_Header_check_def hdr_def H_def ascii_bytes_def)
  qed
  have walk: "chunk_walk (H @ C @ P) sizeof_I256File_Header
                = Some (chunk_entries sizeof_I256File_Header [C, P], None)"
    using chunk_walk_concat [of "[C, P]" "[]" H] lens
      clut_chunk_framed [of "m_pal c"] pixl_chunk_framed [of cd "m_pPixelMaps c"]
    by (simp add: C_def P_def H_def)
  have pal: "int (length (pColors (m_pal c))) = iNumColors (m_pal c)" "1 \<le> iNumColors (m_pal c)"
      "iNumColors (m_pal c) \<le> 16384"
    using st by (auto simp: I256File_storable_def)
  have clut: "UnpackClut cd (H @ C @ P) (hd (chunk_entries sizeof_I256File_Header [C, P]))
                = Inr (nat (iNumColors (m_pal c)), pColors (m_pal c))"
    using UnpackClut_saved [OF pal, of cd H P] by (simp add: C_def H_def)
  have sz: "list_all (\<lambda>f. length f = frame_size c) (m_pPixelMaps c)"
    using st by (simp add: I256File_storable_def)
  have enc: "list_all (\<lambda>f. length (encode cd f) < 2 ^ 32) (m_pPixelMaps c)"
    using encode_length_le_payload [of cd "m_pPixelMaps c"] lens(2)
    by (auto simp: P_def length_pixl_chunk_bytes elim!: list.pred_mono_strong)
  have pixl: "UnpackPixel cd (frame_size c) ((H @ C) @ P @ [])
                (chunk_entries sizeof_I256File_Header [C, P] ! 1) = Inr (m_pPixelMaps c)"
    using UnpackPixel_saved [OF ok sz enc nfr, of "H @ C" "[]"] by (simp add: P_def H_def)
  have fs: "nat (sint (width hdr) * sint (height hdr)) = frame_size c"
    using w h by (simp add: frame_size_def)
  have pal_eq: "\<lparr>iNumColors = iNumColors (m_pal c), pColors = pColors (m_pal c)\<rparr> = m_pal c"
    by (cases "m_pal c") simp
  have num: "iNumColors (m_pal c) = m_numColors c"
    using st by (simp add: I256File_storable_def)
  have nn: "int (nat (iNumColors (m_pal c))) = iNumColors (m_pal c)"
    using pal(2) by simp
  define c' where "c' = (I256File_init hdr)\<lparr>m_numColors := iNumColors (m_pal c),
      m_pal := \<lparr>iNumColors = iNumColors (m_pal c), pColors = pColors (m_pal c)\<rparr>\<rparr>"
  have fs': "frame_size c' = frame_size c"
    using w h by (simp add: c'_def frame_size_def I256File_init_def)
  have chunks: "load_chunks cd (H @ C @ P) (I256File_init hdr) (chunk_entries sizeof_I256File_Header [C, P])
                  = Inr (c'\<lparr>m_pPixelMaps := m_pPixelMaps c\<rparr>)"
  proof -
    have e: "m_pPixelMaps c' = []"
      by (simp add: c'_def I256File_init_def)
    have tC: "take 4 C = ascii_bytes ''CLUT''" and tP: "take 4 P = ascii_bytes ''PIXL''"
      by (simp_all add: C_def P_def take4_clut take4_pixl)
    show ?thesis
      using clut pixl fs' tC tP nn e by (simp add: ascii_bytes_def c'_def [symmetric])
  qed
  have load: "I256File_Load cd (H @ C @ P) = Some (Inr (c'\<lparr>m_pPixelMaps := m_pPixelMaps c\<rparr>))"
    using chunks walk check by (simp add: I256File_Load_def H_def I256File_Header_parse_append)
  have eq: "c'\<lparr>m_pPixelMaps := m_pPixelMaps c\<rparr> = c"
    using w h pal_eq num by (cases c) (simp add: c'_def I256File_init_def)
  show ?thesis
    using load eq save by simp
qed

subsection \<open>Lemmas of the load path\<close>

lemma length_colors_of_bytes: "length (colors_of_bytes bs) = length bs div 4"
  by (induction bs rule: colors_of_bytes.induct) simp_all

lemma UnpackClut_length:
  "UnpackClut cd bs e = Inr (n, cols) \<Longrightarrow> length cols = n"
  by (auto simp: UnpackClut_def Let_def length_colors_of_bytes split: if_splits option.splits)

lemma unpack_blobs_lengths:
  "unpack_blobs cd fsize p k = Inr frs \<Longrightarrow> list_all (\<lambda>f. length f = fsize) frs"
  by (induction cd fsize p k arbitrary: frs rule: unpack_blobs.induct)
     (auto simp: Let_def split: if_splits option.splits sum.splits)

lemma UnpackPixel_lengths:
  "UnpackPixel cd fsize bs e = Inr frs \<Longrightarrow> list_all (\<lambda>f. length f = fsize) frs"
  by (auto simp: UnpackPixel_def Let_def split: if_splits option.splits dest: unpack_blobs_lengths)

lemma load_chunks_shape:
  "load_chunks cd bs c es = Inr c' \<Longrightarrow> I256File_shape c \<Longrightarrow>
   I256File_shape c' \<and> m_widthPixels c' = m_widthPixels c \<and> m_heightPixels c' = m_heightPixels c"
proof (induction cd bs c es rule: load_chunks.induct)
  case (1 cd bs c)
  then show ?case by simp
next
  case (2 cd bs c e es)
  show ?case
  proof (cases "ch_tag e = ascii_bytes ''CLUT''")
    case True
    then obtain n cols where u: "UnpackClut cd bs e = Inr (n, cols)"
      and r: "load_chunks cd bs (c\<lparr>m_numColors := int n, m_pal := \<lparr>iNumColors = int n, pColors = cols\<rparr>\<rparr>) es = Inr c'"
      using "2.prems" by (auto split: sum.splits)
    have "I256File_shape (c\<lparr>m_numColors := int n, m_pal := \<lparr>iNumColors = int n, pColors = cols\<rparr>\<rparr>)"
      using "2.prems"(2) UnpackClut_length [OF u] by (simp add: I256File_shape_def frame_size_def)
    then show ?thesis using "2.IH"(1) [OF True u _ r] by simp
  next
    case nclut: False
    show ?thesis
    proof (cases "ch_tag e = ascii_bytes ''PIXL''")
      case True
      then obtain frs where u: "UnpackPixel cd (frame_size c) bs e = Inr frs"
        and r: "load_chunks cd bs (c\<lparr>m_pPixelMaps := m_pPixelMaps c @ frs\<rparr>) es = Inr c'"
        using "2.prems" nclut by (auto split: sum.splits)
      have "I256File_shape (c\<lparr>m_pPixelMaps := m_pPixelMaps c @ frs\<rparr>)"
        using "2.prems"(2) UnpackPixel_lengths [OF u] by (simp add: I256File_shape_def frame_size_def)
      then show ?thesis using "2.IH"(2) [OF nclut True u r] by simp
    next
      case False
      then show ?thesis using "2.IH"(3) [OF nclut False] "2.prems" nclut by simp
    qed
  qed
qed

text \<open>Cutting the framed blobs of a payload anywhere before their end: the first blob
  cut short has a length prefix that runs past the remaining bytes.\<close>

lemma unpack_blobs_truncated:
  assumes ok: "codec_ok cd"
    and sz: "list_all (\<lambda>f. length f = fsize) frs"
    and enc: "list_all (\<lambda>f. length (encode cd f) < 2 ^ 32) frs"
    and cut: "m < length (concat (map (blob_bytes cd) frs))"
  shows "unpack_blobs cd fsize (take m (concat (map (blob_bytes cd) frs))) (length frs) = Inl TruncatedBlob"
  using sz enc cut
proof (induction frs arbitrary: m)
  case Nil
  then show ?case by simp
next
  case (Cons f frs)
  let ?z = "encode cd f"
  let ?r = "concat (map (blob_bytes cd) frs)"
  define p where "p = take m (blob_bytes cd f @ ?r)"
  have lp: "length p = m"
    using Cons.prems by (simp add: p_def)
  have L: "4 \<le> m \<Longrightarrow> unat (le_word (take 4 p) :: u32) = length ?z"
    using Cons.prems by (simp add: p_def blob_bytes_def unat_of_nat_u32)
  have g: "take m (concat (map (blob_bytes cd) (f # frs))) = p"
    by (simp add: p_def)
  have "unpack_blobs cd fsize p (Suc (length frs)) = Inl TruncatedBlob"
  proof (cases "m < 4 + length ?z")
    case True
    then show ?thesis
      using lp L by (cases "m < 4") simp_all
  next
    case False
    have "decode cd ?z (length f) = Some f"
      using ok by (simp add: codec_ok_def)
    then have "decode cd ?z fsize = Some f"
      using Cons.prems by simp
    moreover have "take (length ?z) (drop 4 p) = ?z" and "drop (4 + length ?z) p = take (m - (4 + length ?z)) ?r"
      using False by (simp_all add: p_def blob_bytes_def)
    moreover have "unpack_blobs cd fsize (take (m - (4 + length ?z)) ?r) (length frs) = Inl TruncatedBlob"
      using Cons False by (simp add: length_blob_bytes)
    ultimately show ?thesis
      using L lp False Cons.prems by simp
  qed
  then show ?case
    using g by simp
qed

lemma I256File_Load_chunks:
  assumes "I256File_Load cd bs = Some (Inr c)"
  shows "\<exists>hdr cs. I256File_Header_parse bs = Some hdr \<and> load_chunks cd bs (I256File_init hdr) cs = Inr c"
proof -
  obtain hdr where h: "I256File_Header_parse bs = Some hdr" "I256File_Header_check hdr (of_nat (length bs)) = None"
    using assms by (auto simp: I256File_Load_def split: option.splits)
  with assms obtain cs werr where "chunk_walk bs sizeof_I256File_Header = Some (cs, werr)"
    and r: "(case load_chunks cd bs (I256File_init hdr) cs of Inl err \<Rightarrow> Inl err
             | Inr c \<Rightarrow> (case werr of None \<Rightarrow> Inr c | Some err \<Rightarrow> Inl err)) = Inr c"
    by (auto simp: I256File_Load_def)
  then have "load_chunks cd bs (I256File_init hdr) cs = Inr c"
    by (auto split: sum.splits option.splits)
  with h show ?thesis by blast
qed

lemma example_file_wf: "I256File_wf example_file"
  by (simp add: I256File_wf_def example_file_def example_palette_def I256File_blank_def frame_size_def)

lemma example_file_save_length: "length (I256File_Save store_codec example_file) < 2 ^ 32"
  by (simp add: I256File_Save_def clut_chunk_bytes_def pixl_chunk_bytes_def example_file_def
      example_palette_def I256File_blank_def blob_bytes_def store_codec_def Let_def)

subsection \<open>Properties of the container\<close>

text \<open>C1: Saving a well-formed container and loading the bytes back gives the same
  container (dimensions, colour count, palette, frames in order), for every compression
  codec that meets the decode-of-encode contract, as long as the frame count fits the
  16-bit \<open>num_blobs\<close> field and the file fits the 32-bit length fields.\<close>

theorem I256File_Save_Load:
  assumes "I256File_wf c" and "codec_ok cd"
    and "length (m_pPixelMaps c) < 65536"
    and "length (I256File_Save cd c) < 2 ^ 32"
  shows "I256File_Load cd (I256File_Save cd c) = Some (Inr c)"
  using I256File_Load_Save [OF wf_storable [OF assms(1)] assms(2-4)] .

theorem I256File_Save_Load_witness:
  "I256File_Load store_codec (I256File_Save store_codec example_file) = Some (Inr example_file)
   \<and> GetFrameCount example_file = 1 \<and> GetWidth example_file = 4 \<and> GetHeight example_file = 2
   \<and> GetPalette example_file = example_palette
   \<and> GetPixelMaps example_file = [[0, 1, 0, 1, 0, 1, 0, 1]]"
  using I256File_Save_Load [OF example_file_wf store_codec_ok _ example_file_save_length]
  by (simp add: example_file_def GetFrameCount_def GetWidth_def GetHeight_def GetPalette_def
      GetPixelMaps_def I256File_blank_def)

text \<open>C24: Every container a client can build (blank with width and height in 1..32767 and
  1..16384 colours, then any sequence of successful \<open>SetPalette\<close> and \<open>AddImages\<close>
  calls) is well formed: its palette has exactly its colour count of entries and every
  frame has \<open>width * height\<close> bytes.\<close>

theorem I256File_built_wf: "I256File_built c \<Longrightarrow> I256File_wf c"
proof (induction rule: I256File_built.induct)
  case (blank w h n)
  then show ?case by (rule I256File_blank_wf)
next
  case (set_palette c p c')
  then show ?case by (blast intro: SetPalette_wf)
next
  case (add_images c frs c')
  then show ?case by (blast intro: AddImages_wf)
qed

theorem I256File_built_wf_witness: "I256File_built example_file \<and> I256File_wf example_file"
  using I256File_built_wf [OF example_file_built] example_file_built by simp

text \<open>C25: A buffer whose header has the right length and version but a signature other
  than \<open>I256\<close> (e.g. \<open>XXXX\<close>) fails to load with \<open>InvalidHeader\<close> for a signature
  mismatch, and no container is produced (section 8, malformed-signature scenario).\<close>

theorem I256File_Load_bad_signature:
  assumes "I256File_Header_parse bs = Some hdr" and "file_length hdr = of_nat (length bs)"
    and "version hdr = 0" and "[hi hdr, h2 hdr, h5 hdr, h6 hdr] \<noteq> ascii_bytes ''I256''"
  shows "I256File_Load cd bs = Some (Inl (InvalidHeader (Some SignatureMismatch)))"
  using assms by (simp add: I256File_Load_def I256File_Header_check_def)

theorem I256File_Load_bad_signature_witness:
  "I256File_Load store_codec (I256File_Header_bytes (example_header\<lparr>hi := ascii CHR ''X'',
      h2 := ascii CHR ''X'', h5 := ascii CHR ''X'', h6 := ascii CHR ''X''\<rparr>))
   = Some (Inl (InvalidHeader (Some SignatureMismatch)))"
  by (rule I256File_Load_bad_signature [OF I256File_Header_parse_append [of _ "[]", simplified]])
     (simp_all add: example_header_def ascii_bytes_def I256File_Header_bytes_def)

text \<open>C21: Each blob of a \<open>PIXL\<close> payload is decoded on its own: when every framed blob
  decodes to a frame of the right size, the decoded frames are exactly those frames in
  blob order, whatever bytes follow the last blob (section 4.4, section 8).\<close>

theorem unpack_blobs_independent:
  assumes "list_all2 (\<lambda>z f. decode cd z fsize = Some f \<and> length f = fsize \<and> length z < 2 ^ 32) zs frs"
  shows "unpack_blobs cd fsize (concat (map (\<lambda>z. u32_bytes (of_nat (length z)) @ z) zs) @ rest)
           (length zs) = Inr frs"
  using assms
proof (induction zs arbitrary: frs)
  case Nil
  then show ?case by simp
next
  case (Cons z zs)
  then obtain f frs' where frs: "frs = f # frs'" and hd: "decode cd z fsize = Some f"
      "length f = fsize" "length z < 2 ^ 32" and tl: "list_all2 (\<lambda>z f. decode cd z fsize = Some f \<and> length f = fsize \<and> length z < 2 ^ 32) zs frs'"
    by (cases frs) auto
  have "unpack_blobs cd fsize (concat (map (\<lambda>z. u32_bytes (of_nat (length z)) @ z) zs) @ rest)
          (length zs) = Inr frs'"
    by (rule Cons.IH [OF tl])
  then show ?case
    using hd by (simp add: frs unat_of_nat_u32)
qed

theorem unpack_blobs_independent_witness:
  "unpack_blobs store_codec 2
     (concat (map (\<lambda>z. u32_bytes (of_nat (length z)) @ z) [[1, 2], [3, 4]]) @ [9])
     (length [[1, 2], [3, 4 :: byte]]) = Inr [[1, 2], [3, 4]]"
  by (rule unpack_blobs_independent) (simp add: store_codec_def)

text \<open>C15: Whatever bytes it is given and whatever codec it uses, a container that
  \<open>Load\<close> returns has a palette of exactly its colour count of entries and only frames
  of \<open>width * height\<close> bytes: the chunk decoders check every decoded length before the
  container takes it.\<close>

theorem I256File_Load_shape:
  assumes "I256File_Load cd bs = Some (Inr c)"
  shows "I256File_shape c"
proof -
  obtain hdr cs where l: "load_chunks cd bs (I256File_init hdr) cs = Inr c"
    using I256File_Load_chunks [OF assms] by blast
  have "I256File_shape (I256File_init hdr)"
    by (simp add: I256File_shape_def I256File_init_def)
  then show ?thesis using load_chunks_shape [OF l] by simp
qed

theorem I256File_Load_shape_witness:
  "I256File_Load store_codec (I256File_Save store_codec example_file) = Some (Inr example_file)
   \<and> I256File_shape example_file"
proof -
  have ld: "I256File_Load store_codec (I256File_Save store_codec example_file) = Some (Inr example_file)"
    using I256File_Load_Save [OF wf_storable [OF example_file_wf] store_codec_ok _ example_file_save_length]
    by (simp add: example_file_def)
  show ?thesis using ld I256File_Load_shape [OF ld] by simp
qed

text \<open>C23: Truncation: a file that ends inside the blobs of its \<open>PIXL\<close> chunk, whose header
  still declares the chunk's full length, makes the pixel chunk decoder fail with
  \<open>TruncatedBlob\<close>, for every codec meeting its contract: the payload is read only up
  to the end of the buffer and a blob whose length prefix runs past it is never decoded
  (section 4.4, section 8 truncation fuzz).\<close>

theorem UnpackPixel_truncated:
  assumes ok: "codec_ok cd" and sz: "list_all (\<lambda>f. length f = fsize) frs"
    and enc: "list_all (\<lambda>f. length (encode cd f) < 2 ^ 32) frs" and nfr: "length frs < 65536"
    and cut: "sizeof_I256File_PIXL \<le> m" "m < length (pixl_chunk_bytes cd frs)"
  shows "UnpackPixel cd fsize (pre @ take m (pixl_chunk_bytes cd frs))
           \<lparr>ch_tag = take 4 (pixl_chunk_bytes cd frs), ch_length = length (pixl_chunk_bytes cd frs),
            ch_payload = length pre + sizeof_I256File_CHUNK\<rparr>
         = Inl TruncatedBlob"
proof -
  define payload where "payload = concat (map (blob_bytes cd) frs)"
  define px where "px = \<lparr>pixl_p = ascii CHR ''P'', pixl_i = ascii CHR ''I'', pixl_x = ascii CHR ''X'',
         pixl_l = ascii CHR ''L'', pixl_chunk_length = of_nat (sizeof_I256File_PIXL + length payload),
         num_blobs = of_nat (length frs)\<rparr>"
  have P: "pixl_chunk_bytes cd frs = I256File_PIXL_bytes px @ payload"
    by (simp add: pixl_chunk_bytes_def px_def payload_def Let_def)
  have m: "10 \<le> m" "m - 10 < length payload"
    using cut by (simp_all add: P)
  have hdr: "load_bytes (pre @ take m (pixl_chunk_bytes cd frs)) (length pre) 10 = I256File_PIXL_bytes px"
    using m by (simp add: P load_bytes_def)
  have pay: "load_bytes (pre @ take m (pixl_chunk_bytes cd frs)) (length pre + 10)
               (length (pixl_chunk_bytes cd frs) - 10) = take (m - 10) payload"
    using m by (simp add: P load_bytes_def)
  have parse: "I256File_PIXL_parse (I256File_PIXL_bytes px) = Some px"
    using I256File_PIXL_parse_bytes [of px "[]"] by simp
  have valid: "I256File_PIXL_IsValid px"
    by (simp add: I256File_PIXL_IsValid_def px_def)
  have nb: "unat (num_blobs px) = length frs"
    using nfr by (simp only: px_def I256File_PIXL.select_convs unat_of_nat) simp
  have blobs: "unpack_blobs cd fsize (take (m - 10) payload) (length frs) = Inl TruncatedBlob"
    using unpack_blobs_truncated [OF ok sz enc, of "m - 10"] m by (simp add: payload_def)
  show ?thesis
    using hdr pay parse valid nb blobs m
    by (simp add: UnpackPixel_def Let_def P)
qed

theorem UnpackPixel_truncated_witness:
  "codec_ok store_codec \<and> list_all (\<lambda>f. length f = 2) [[1, 2], [3, 4 :: byte]]
   \<and> list_all (\<lambda>f. length (encode store_codec f) < 2 ^ 32) [[1, 2], [3, 4 :: byte]]
   \<and> length [[1, 2], [3, 4 :: byte]] < 65536
   \<and> sizeof_I256File_PIXL \<le> 15 \<and> 15 < length (pixl_chunk_bytes store_codec [[1, 2], [3, 4]])
   \<and> UnpackPixel store_codec 2 ([] @ take 15 (pixl_chunk_bytes store_codec [[1, 2], [3, 4]]))
       \<lparr>ch_tag = take 4 (pixl_chunk_bytes store_codec [[1, 2], [3, 4]]),
        ch_length = length (pixl_chunk_bytes store_codec [[1, 2], [3, 4]]),
        ch_payload = length ([] :: byte list) + sizeof_I256File_CHUNK\<rparr> = Inl TruncatedBlob"
  using UnpackPixel_truncated [OF store_codec_ok, of 2 "[[1, 2], [3, 4]]" 15 "[]"] store_codec_ok
  by (simp add: store_codec_def blob_bytes_def length_pixl_chunk_bytes)

text \<open>C22: The chunk dispatch of \<open>Load\<close> meets section 4.6: when the chunks of a file load,
  the container's frames are its frames followed by the frames of the \<open>PIXL\<close> chunks in
  chunk order and blob order, its dimensions are unchanged, its palette and colour count
  are those of the last \<open>CLUT\<close> chunk (unchanged when there is none), and chunks of any
  other tag are skipped.\<close>

theorem load_chunks_dispatch:
  assumes "load_chunks cd bs c es = Inr c'"
  shows "m_pPixelMaps c' = m_pPixelMaps c @ chunk_frames cd (frame_size c) bs es \<and>
         m_widthPixels c' = m_widthPixels c \<and> m_heightPixels c' = m_heightPixels c \<and>
         (case last_clut cd bs es of
            None \<Rightarrow> m_pal c' = m_pal c \<and> m_numColors c' = m_numColors c
          | Some (n, cols) \<Rightarrow> m_pal c' = \<lparr>iNumColors = int n, pColors = cols\<rparr> \<and> m_numColors c' = int n)"
  using assms
proof (induction cd bs c es rule: load_chunks.induct)
  case (1 cd bs c)
  then show ?case by (simp add: chunk_frames_def)
next
  case (2 cd bs c e es)
  show ?case
  proof (cases "ch_tag e = ascii_bytes ''CLUT''")
    case True
    then obtain n cols where u: "UnpackClut cd bs e = Inr (n, cols)"
      and r: "load_chunks cd bs (c\<lparr>m_numColors := int n, m_pal := \<lparr>iNumColors = int n, pColors = cols\<rparr>\<rparr>) es = Inr c'"
      using "2.prems" by (auto split: sum.splits)
    show ?thesis using "2.IH"(1) [OF True u _ r] True u
      by (auto simp: chunk_frames_def frame_size_def split: option.splits)
  next
    case nclut: False
    show ?thesis
    proof (cases "ch_tag e = ascii_bytes ''PIXL''")
      case True
      then obtain frs where u: "UnpackPixel cd (frame_size c) bs e = Inr frs"
        and r: "load_chunks cd bs (c\<lparr>m_pPixelMaps := m_pPixelMaps c @ frs\<rparr>) es = Inr c'"
        using "2.prems" nclut by (auto split: sum.splits)
      show ?thesis using "2.IH"(2) [OF nclut True u r] nclut True u
        by (auto simp: chunk_frames_def frame_size_def split: option.splits)
    next
      case False
      then show ?thesis using "2.IH"(3) [OF nclut False] "2.prems" nclut
        by (auto simp: chunk_frames_def split: option.splits)
    qed
  qed
qed

theorem load_chunks_dispatch_witness:
  "\<exists>c'. load_chunks store_codec example_two_cluts example_file example_two_clut_entries = Inr c' \<and>
     (m_pPixelMaps c' = m_pPixelMaps example_file @
        chunk_frames store_codec (frame_size example_file) example_two_cluts example_two_clut_entries \<and>
      m_widthPixels c' = m_widthPixels example_file \<and> m_heightPixels c' = m_heightPixels example_file \<and>
      (case last_clut store_codec example_two_cluts example_two_clut_entries of
         None \<Rightarrow> m_pal c' = m_pal example_file \<and> m_numColors c' = m_numColors example_file
       | Some (n, cols) \<Rightarrow> m_pal c' = \<lparr>iNumColors = int n, pColors = cols\<rparr> \<and> m_numColors c' = int n))"
proof -
  have u1: "UnpackClut store_codec example_two_cluts (hd example_two_clut_entries) = Inr (2, pColors example_palette)"
    using UnpackClut_saved [of example_palette store_codec "[]" "clut_chunk_bytes example_palette1"]
    by (simp add: example_two_cluts_def example_two_clut_entries_def example_palette_def)
  have u2: "UnpackClut store_codec example_two_cluts (example_two_clut_entries ! 2) = Inr (1, pColors example_palette1)"
    using UnpackClut_saved [of example_palette1 store_codec "clut_chunk_bytes example_palette" "[]"]
    by (simp add: example_two_cluts_def example_two_clut_entries_def example_palette1_def)
  have ld: "load_chunks store_codec example_two_cluts example_file example_two_clut_entries =
      Inr (example_file\<lparr>m_numColors := 1, m_pal := \<lparr>iNumColors = 1, pColors = pColors example_palette1\<rparr>\<rparr>)"
    using u1 u2 take4_clut [of example_palette] take4_clut [of example_palette1]
    by (simp add: example_two_clut_entries_def ascii_bytes_def)
  show ?thesis using ld load_chunks_dispatch [OF ld] by blast
qed

end
