(* ===== verification/Plugin_Shell.thy ===== *)
theory Plugin_Shell
  imports Prelude "HOL-Library.Monad_Syntax"
begin

text \<open>
  The process globals and the helper and entry-point functions that
  \<open>i256/i256ImageIo.cpp\<close> and \<open>simImage/simImageIo.cpp\<close> share word for word
  (only the constants \<open>FILE_TYPE_ID\<close>, \<open>FILE_BOX_DESCRIPTION\<close>, \<open>FILE_EXTENSION\<close> and
  \<open>FILE_HEADER_TYPE_ID\<close> differ, and are parameters here).

  The globals form the record \<open>shell\<close>; the I256 plugin extends it with its
  \<open>CurrentFile\<close> pointer and its heap of containers. Every function takes the state and returns the new one.
  The error message buffer is a string (\<open>''''\<close> when its first character is 0), the
  progress callback is whether one is installed, and \<open>progress_log\<close> records the
  values passed to it, in order, which is all a caller can observe of it. The file
  system the plugins open is the map \<open>disk\<close> from file names to contents.
  The anonymous \<open>fileHeader\<close> struct is declared after \<open>#pragma pack(1)\<close>, so it is
  18 bytes (\<open>typeId\<close> 0-3, \<open>version\<close> 4, \<open>width\<close> 5-8, \<open>height\<close> 9-12,
  \<open>transparentColor\<close> 13-16, \<open>alphaEnabled\<close> 17); the SIM plugin \<open>fread\<close>s raw
  bytes into it, so it is kept as its 18 bytes of memory with field accessors.
  Undefined behaviour (a write past a fixed-size buffer, a null dereference) is the
  result \<open>None\<close>.
\<close>

unbundle bit_operations_syntax

record shell =
  lastErrorMessage :: string
  progressCallback :: bool
  progress_log :: "int list"
  currentFileName :: string
  basicDataLoaded :: bool
  rgbTable :: "byte list"
  alphaTable :: "byte list"
  fileHeader :: "byte list"
  disk :: "string \<rightharpoonup> byte list"

text \<open>The caller's buffers passed to \<open>loadNextImage\<close> and \<open>writeNextImage\<close>.\<close>

record frame_bufs =
  buf_colorFrame :: "byte list"
  buf_colorFramePalette :: "byte list"
  buf_alphaFrame :: "byte list option"
  buf_alphaFramePalette :: "byte list option"

text \<open>The per-plugin constants of the \<open>#define\<close>s.\<close>

record plugin_consts =
  FILE_TYPE_ID :: string
  FILE_BOX_DESCRIPTION :: string
  FILE_EXTENSION :: string
  FILE_HEADER_TYPE_ID :: string

definition ERROR_NO_FILE_NAME :: string where
  "ERROR_NO_FILE_NAME = ''No file given to load!''"

definition ERROR_FILE_OPEN_FAILED :: string where
  "ERROR_FILE_OPEN_FAILED = ''Could not open file!''"

definition ERROR_FILE_READ_FAILED :: string where
  "ERROR_FILE_READ_FAILED = ''Could not read file!''"

definition ERROR_FILE_WRITE_FAILED :: string where
  "ERROR_FILE_WRITE_FAILED = ''Could not write file!''"

definition PLUGIN_INTERFACE_VERSION_USED :: u16 where
  "PLUGIN_INTERFACE_VERSION_USED = 1"

subsection \<open>The packed \<open>fileHeader\<close> struct as memory\<close>

definition sizeof_fileHeader :: nat where "sizeof_fileHeader = 18"

definition fh_typeId :: "byte list \<Rightarrow> byte list" where
  "fh_typeId fh = load_bytes fh 0 4"

definition fh_version :: "byte list \<Rightarrow> byte" where
  "fh_version fh = fh ! 4"

definition fh_width :: "byte list \<Rightarrow> u32" where
  "fh_width fh = le_word (load_bytes fh 5 4)"

definition fh_height :: "byte list \<Rightarrow> u32" where
  "fh_height fh = le_word (load_bytes fh 9 4)"

definition fh_transparentColor :: "byte list \<Rightarrow> i32" where
  "fh_transparentColor fh = le_word (load_bytes fh 13 4)"

definition fh_alphaEnabled :: "byte list \<Rightarrow> bool" where
  "fh_alphaEnabled fh = (fh ! 17 \<noteq> 0)"

definition fh_set_typeId :: "byte list \<Rightarrow> byte list \<Rightarrow> byte list" where
  "fh_set_typeId tid fh = store_bytes fh 0 (take 4 tid)"

definition fh_set_version :: "byte \<Rightarrow> byte list \<Rightarrow> byte list" where
  "fh_set_version v fh = store_bytes fh 4 [v]"

definition fh_set_width :: "u32 \<Rightarrow> byte list \<Rightarrow> byte list" where
  "fh_set_width w fh = store_bytes fh 5 (u32_bytes w)"

definition fh_set_height :: "u32 \<Rightarrow> byte list \<Rightarrow> byte list" where
  "fh_set_height h fh = store_bytes fh 9 (u32_bytes h)"

definition fh_set_transparentColor :: "i32 \<Rightarrow> byte list \<Rightarrow> byte list" where
  "fh_set_transparentColor tc fh = store_bytes fh 13 (u32_bytes tc)"

definition fh_set_alphaEnabled :: "bool \<Rightarrow> byte list \<Rightarrow> byte list" where
  "fh_set_alphaEnabled ae fh = store_bytes fh 17 [if ae then 1 else 0]"

text \<open>The 18 bytes of a header whose every field has been assigned.\<close>

definition fh_bytes :: "byte list \<Rightarrow> byte \<Rightarrow> u32 \<Rightarrow> u32 \<Rightarrow> i32 \<Rightarrow> bool \<Rightarrow> byte list" where
  "fh_bytes tid v w h tc ae =
     take 4 tid @ [v] @ u32_bytes w @ u32_bytes h @ u32_bytes tc @ [if ae then 1 else 0]"

subsection \<open>Shared helpers\<close>

definition resetError :: "'a shell_scheme \<Rightarrow> 'a shell_scheme" where
  "resetError s = s\<lparr>lastErrorMessage := ''''\<rparr>"

definition isError :: "'a shell_scheme \<Rightarrow> bool" where
  "isError s = (lastErrorMessage s \<noteq> '''')"

definition resetBasicData :: "'a shell_scheme \<Rightarrow> 'a shell_scheme" where
  "resetBasicData s =
     resetError (s\<lparr>basicDataLoaded := False,
       fileHeader := fh_set_alphaEnabled False (fh_set_transparentColor (- 1)
                       (fh_set_height (- 1) (fh_set_width (- 1) (fileHeader s)))),
       rgbTable := replicate 768 0, alphaTable := replicate 256 0\<rparr>)"

definition updateProgress :: "int \<Rightarrow> 'a shell_scheme \<Rightarrow> 'a shell_scheme" where
  "updateProgress progress s =
     (if progressCallback s then s\<lparr>progress_log := progress_log s @ [progress]\<rparr> else s)"

subsection \<open>Shared entry points\<close>

text \<open>\<open>initialize\<close> returns its result and the two values it stores through its
  \<open>version\<close> and \<open>animation\<close> pointers.\<close>

definition initialize :: "'a shell_scheme \<Rightarrow> (bool \<times> u16 \<times> bool) \<times> 'a shell_scheme" where
  "initialize s =
     ((True, PLUGIN_INTERFACE_VERSION_USED, False), (resetError s)\<lparr>currentFileName := ''''\<rparr>)"

definition setProgressCallback :: "bool \<Rightarrow> 'a shell_scheme \<Rightarrow> 'a shell_scheme" where
  "setProgressCallback cb s = s\<lparr>progressCallback := cb\<rparr>"

definition getErrorMessage :: "'a shell_scheme \<Rightarrow> string option" where
  "getErrorMessage s = (if \<not> isError s then None else Some (lastErrorMessage s))"

definition getFileTypeId :: "plugin_consts \<Rightarrow> 'a shell_scheme \<Rightarrow> string \<times> 'a shell_scheme" where
  "getFileTypeId k s = (FILE_TYPE_ID k, resetError s)"

definition isReadSupported :: "'a shell_scheme \<Rightarrow> bool \<times> 'a shell_scheme" where
  "isReadSupported s = (True, resetError s)"

definition isWriteSupported :: "'a shell_scheme \<Rightarrow> bool \<times> 'a shell_scheme" where
  "isWriteSupported s = (True, resetError s)"

definition isWriteTrueColorSupported :: "'a shell_scheme \<Rightarrow> bool \<times> 'a shell_scheme" where
  "isWriteTrueColorSupported s = (False, resetError s)"

definition getFileBoxDescription :: "plugin_consts \<Rightarrow> 'a shell_scheme \<Rightarrow> string \<times> 'a shell_scheme" where
  "getFileBoxDescription k s = (FILE_BOX_DESCRIPTION k, resetError s)"

definition getFileExtension :: "plugin_consts \<Rightarrow> 'a shell_scheme \<Rightarrow> string \<times> 'a shell_scheme" where
  "getFileExtension k s = (FILE_EXTENSION k, resetError s)"

text \<open>\<open>wcscpy\<close> into the 2048-character \<open>currentFileName\<close>: a longer name overruns it.\<close>

definition setFilename :: "string \<Rightarrow> 'a shell_scheme \<Rightarrow> 'a shell_scheme option" where
  "setFilename filename s =
     (let s = resetError s in
      if currentFileName s \<noteq> filename then
        (if 2048 \<le> length filename then None
         else Some ((resetBasicData s)\<lparr>currentFileName := filename\<rparr>))
      else Some s)"

definition getWidth :: "'a shell_scheme \<Rightarrow> int" where
  "getWidth s = sint (fh_width (fileHeader s))"

definition getHeight :: "'a shell_scheme \<Rightarrow> int" where
  "getHeight s = sint (fh_height (fileHeader s))"

definition getImageCount :: "'a shell_scheme \<Rightarrow> int \<times> 'a shell_scheme" where
  "getImageCount s = (1, resetError s)"

definition canExtractPalette :: "'a shell_scheme \<Rightarrow> bool \<times> 'a shell_scheme" where
  "canExtractPalette s = (True, resetError s)"

definition getRgbPalette :: "'a shell_scheme \<Rightarrow> byte list option" where
  "getRgbPalette s = (if basicDataLoaded s then Some (rgbTable s) else None)"

definition beginWrite ::
  "plugin_consts \<Rightarrow> int \<Rightarrow> int \<Rightarrow> int \<Rightarrow> bool \<Rightarrow> int \<Rightarrow> 'a shell_scheme \<Rightarrow> bool \<times> 'a shell_scheme" where
  "beginWrite k width height transparentColor alphaEnabled numberOfFrames s =
     (let s = resetBasicData s;
          fh = fh_set_alphaEnabled alphaEnabled (fh_set_transparentColor (word_of_int transparentColor)
                 (fh_set_height (word_of_int height) (fh_set_width (word_of_int width)
                   (fh_set_version 1 (fh_set_typeId (ascii_bytes (FILE_HEADER_TYPE_ID k)) (fileHeader s))))))
      in (True, updateProgress 0 (s\<lparr>fileHeader := fh\<rparr>)))"

definition finishProcessing :: "'a shell_scheme \<Rightarrow> 'a shell_scheme" where
  "finishProcessing s = updateProgress 0 (resetBasicData s)"

subsection \<open>The start state\<close>

text \<open>Globals of static storage start zeroed: no error, no callback, no file name, nothing
  loaded, zero tables and header.\<close>

definition shell_init :: "(string \<rightharpoonup> byte list) \<Rightarrow> shell" where
  "shell_init d =
     \<lparr>lastErrorMessage = '''', progressCallback = False, progress_log = [], currentFileName = '''',
      basicDataLoaded = False, rgbTable = replicate 768 0, alphaTable = replicate 256 0,
      fileHeader = replicate 18 0, disk = d\<rparr>"

subsection \<open>Field access of the packed header\<close>

definition fh_ok :: "byte list \<Rightarrow> bool" where
  "fh_ok fh \<longleftrightarrow> length fh = sizeof_fileHeader"

lemmas fh_defs = fh_typeId_def fh_version_def fh_width_def fh_height_def fh_transparentColor_def
  fh_alphaEnabled_def fh_set_typeId_def fh_set_version_def fh_set_width_def fh_set_height_def
  fh_set_transparentColor_def fh_set_alphaEnabled_def

lemma fh_ok_set [simp]:
  "fh_ok fh \<Longrightarrow> fh_ok (fh_set_typeId tid fh)"
  "fh_ok fh \<Longrightarrow> fh_ok (fh_set_version v fh)"
  "fh_ok fh \<Longrightarrow> fh_ok (fh_set_width w fh)"
  "fh_ok fh \<Longrightarrow> fh_ok (fh_set_height h fh)"
  "fh_ok fh \<Longrightarrow> fh_ok (fh_set_transparentColor tc fh)"
  "fh_ok fh \<Longrightarrow> fh_ok (fh_set_alphaEnabled ae fh)"
  by (simp_all add: fh_ok_def sizeof_fileHeader_def fh_defs store_bytes_def)

lemma fh_width_set_width [simp]: "fh_ok fh \<Longrightarrow> fh_width (fh_set_width w fh) = w"
  using load_store_same [of 5 "u32_bytes w" fh]
  by (simp add: fh_ok_def sizeof_fileHeader_def fh_width_def fh_set_width_def)

lemma fh_height_set_height [simp]: "fh_ok fh \<Longrightarrow> fh_height (fh_set_height h fh) = h"
  using load_store_same [of 9 "u32_bytes h" fh]
  by (simp add: fh_ok_def sizeof_fileHeader_def fh_height_def fh_set_height_def)

lemma fh_width_set_height [simp]: "fh_ok fh \<Longrightarrow> fh_width (fh_set_height h fh) = fh_width fh"
  using load_store_below [of 9 "u32_bytes h" fh 5 4]
  by (simp add: fh_ok_def sizeof_fileHeader_def fh_width_def fh_set_height_def)

lemma fh_height_set_width [simp]: "fh_ok fh \<Longrightarrow> fh_height (fh_set_width w fh) = fh_height fh"
  using load_store_above [of 5 "u32_bytes w" fh 9 4]
  by (simp add: fh_ok_def sizeof_fileHeader_def fh_height_def fh_set_width_def)

lemma length_fh_bytes [simp]: "4 \<le> length tid \<Longrightarrow> length (fh_bytes tid v w h tc ae) = 18"
  by (simp add: fh_bytes_def)

lemma fh_bytes_fields [simp]:
  assumes "length tid = 4"
  shows "fh_typeId (fh_bytes tid v w h tc ae) = tid" "fh_version (fh_bytes tid v w h tc ae) = v"
    "fh_width (fh_bytes tid v w h tc ae) = w" "fh_height (fh_bytes tid v w h tc ae) = h"
    "fh_transparentColor (fh_bytes tid v w h tc ae) = tc"
    "fh_alphaEnabled (fh_bytes tid v w h tc ae) = ae"
  using assms by (simp_all add: fh_defs fh_bytes_def load_bytes_def nth_append)

text \<open>\<open>beginWrite\<close> assigns the six fields in their order in the struct, so the header it
  leaves is \<open>fh_bytes\<close> of the assigned values, whatever the header held before.\<close>

lemma fh_set_all:
  assumes "fh_ok fh" "4 \<le> length tid"
  shows "fh_set_alphaEnabled ae (fh_set_transparentColor tc (fh_set_height h (fh_set_width w
           (fh_set_version v (fh_set_typeId tid fh))))) = fh_bytes tid v w h tc ae"
proof -
  have l: "length fh = 18" using assms(1) by (simp add: fh_ok_def sizeof_fileHeader_def)
  have t: "length (take 4 tid) = 4" using assms(2) by simp
  have "fh_set_version v (fh_set_typeId tid fh) = store_bytes fh 0 (take 4 tid @ [v])"
    using store_bytes_append [of 0 "take 4 tid" "[v]" fh] l t
    by (simp add: fh_set_version_def fh_set_typeId_def)
  then show ?thesis
    using l t by (simp add: fh_defs store_bytes_def fh_bytes_def)
qed

lemma fh_ok_resetBasicData [simp]: "fh_ok (fileHeader s) \<Longrightarrow> fh_ok (fileHeader (resetBasicData s))"
  by (simp add: resetBasicData_def resetError_def)

lemma beginWrite_header:
  assumes "fh_ok (fileHeader s)" "length (ascii_bytes (FILE_HEADER_TYPE_ID k)) = 4"
  shows "beginWrite k w h tc ae nf s =
    (True, updateProgress 0 ((resetBasicData s)\<lparr>fileHeader :=
       fh_bytes (ascii_bytes (FILE_HEADER_TYPE_ID k)) 1 (word_of_int w) (word_of_int h) (word_of_int tc) ae\<rparr>))"
  using assms fh_set_all [of "fileHeader (resetBasicData s)" "ascii_bytes (FILE_HEADER_TYPE_ID k)"]
  by (simp add: beginWrite_def Let_def)

lemma unat_u32_mult_of_int:
  "0 \<le> w \<Longrightarrow> 0 \<le> h \<Longrightarrow> unat (word_of_int w * word_of_int h :: u32) = nat (w * h) mod 2 ^ 32"
  by (simp del: of_int_mult add: of_int_mult [symmetric] unat_eq_nat_uint uint_word_of_int_eq
      take_bit_eq_mod nat_mod_distrib)

lemma sint_u32_of_int: "- (2 ^ 31) \<le> x \<Longrightarrow> x < 2 ^ 31 \<Longrightarrow> sint (word_of_int x :: u32) = x"
  by (simp add: sint_sbintrunc' signed_take_bit_int_eq_self)

end
