(* ===== verification/I256_Plugin.thy ===== *)
theory I256_Plugin
  imports I256_Container Plugin_Shell
begin

text \<open>
  The I256 plugin shell, \<open>i256/i256ImageIo.cpp\<close>: the shared globals of
  \<open>Plugin_Shell\<close> extended with the pointer \<open>CurrentFile\<close> (\<open>None\<close> for \<open>nullptr\<close>),
  and the entry points whose bodies differ from the SIM plugin's. The container is
  reached through the operations of \<open>I256_Container\<close>; the constructor that loads a file
  and \<open>SaveToFile\<close>, whose bodies are not in the repository, read and write the plugin's
  file system \<open>disk\<close> through \<open>I256File_Load\<close> and \<open>I256File_Save\<close>, with the
  compression codec as a parameter. The two copy loops over the palette are functions
  recursing on the number of iterations left; their indexed accesses to the 768- and
  256-byte tables and to the caller's palette buffer are checked, an access past the end
  being undefined behaviour (\<open>None\<close>), as is the dereference of a null \<open>CurrentFile\<close>.
  The containers live on a heap of addresses, as in Imperative HOL: \<open>live\<close> holds the
  addresses of the \<open>I256File\<close> objects created with \<open>new\<close> and not yet released with
  \<open>delete\<close>, \<open>next_addr\<close> is the next fresh address, and \<open>CurrentAddr\<close> is the address
  the pointer \<open>CurrentFile\<close> holds (\<open>CurrentFile\<close> itself is the object's value).
\<close>

record i256_state = shell +
  CurrentFile :: "I256File option"
  CurrentAddr :: "nat option"
  live :: "nat set"
  next_addr :: nat

definition i256_consts :: plugin_consts where
  "i256_consts =
     \<lparr>FILE_TYPE_ID = ''de.cosmigo.fileio.256'', FILE_BOX_DESCRIPTION = ''256 - I256 Image'',
      FILE_EXTENSION = ''256'', FILE_HEADER_TYPE_ID = ''I256''\<rparr>"

definition i256_init :: "(string \<rightharpoonup> byte list) \<Rightarrow> i256_state" where
  "i256_init d =
     \<lparr>lastErrorMessage = '''', progressCallback = False, progress_log = [], currentFileName = '''',
      basicDataLoaded = False, rgbTable = replicate 768 0, alphaTable = replicate 256 0,
      fileHeader = replicate 18 0, disk = d, CurrentFile = None,
      CurrentAddr = None, live = {}, next_addr = 0\<rparr>"

subsection \<open>The container's file constructor and \<open>SaveToFile\<close>\<close>

text \<open>\<open>new I256File(path)\<close>: a missing file or a file that fails to load gives a container
  without frames, which is how the shell detects it (\<open>GetFrameCount() < 1\<close>); a load
  that does not return (the chunk walker's zero-length chunk) is \<open>None\<close>.\<close>

definition I256File_open :: "codec \<Rightarrow> (string \<rightharpoonup> byte list) \<Rightarrow> string \<Rightarrow> I256File option" where
  "I256File_open cd d path =
     (case d path of
        None \<Rightarrow> Some (I256File_blank 0 0 0)
      | Some bs \<Rightarrow>
          (case I256File_Load cd bs of
             None \<Rightarrow> None
           | Some (Inl err) \<Rightarrow> Some (I256File_blank 0 0 0)
           | Some (Inr c) \<Rightarrow> Some c))"

definition SaveToFile ::
  "codec \<Rightarrow> I256File \<Rightarrow> string \<Rightarrow> (string \<rightharpoonup> byte list) \<Rightarrow> (string \<rightharpoonup> byte list)" where
  "SaveToFile cd c path d = d(path \<mapsto> I256File_Save cd c)"

subsection \<open>The palette loops\<close>

text \<open>\<open>ensureBasicData\<close>, lines 131-138: colour \<open>idx\<close> of the loaded palette into
  \<open>alphaTable[idx]\<close> and \<open>rgbTable[3 idx .. 3 idx + 2]\<close>, for \<open>idx < pal.iNumColors\<close>.\<close>

fun palette_to_tables ::
  "I256_Color list \<Rightarrow> nat \<Rightarrow> nat \<Rightarrow> byte list \<Rightarrow> byte list \<Rightarrow> (byte list \<times> byte list) option" where
  "palette_to_tables cols idx 0 rgb alpha = Some (rgb, alpha)"
| "palette_to_tables cols idx (Suc k) rgb alpha =
     (if length cols \<le> idx then None
      else do {
        alpha' \<leftarrow> store_checked alpha idx (color_a (cols ! idx));
        rgb0 \<leftarrow> store_checked rgb (3 * idx) (color_r (cols ! idx));
        rgb1 \<leftarrow> store_checked rgb0 (3 * idx + 1) (color_g (cols ! idx));
        rgb2 \<leftarrow> store_checked rgb1 (3 * idx + 2) (color_b (cols ! idx));
        palette_to_tables cols (Suc idx) k rgb2 alpha'
      })"

text \<open>\<open>writeNextImage\<close>, lines 355-363: colour \<open>idx\<close> of the new container's palette from
  the caller's palette buffer, \<open>b\<close> read at \<open>rgbindex + 3\<close> as the source has it.\<close>

fun palette_from_host ::
  "byte list \<Rightarrow> I256_Color list \<Rightarrow> nat \<Rightarrow> nat \<Rightarrow> I256_Color list option" where
  "palette_from_host colorFramePalette cols idx 0 = Some cols"
| "palette_from_host colorFramePalette cols idx (Suc k) =
     (if length cols \<le> idx then None
      else do {
        r \<leftarrow> load_checked colorFramePalette (3 * idx + 0);
        g \<leftarrow> load_checked colorFramePalette (3 * idx + 1);
        b \<leftarrow> load_checked colorFramePalette (3 * idx + 3);
        palette_from_host colorFramePalette
          (cols[idx := (cols ! idx)\<lparr>color_r := r, color_g := g, color_b := b, color_a := 255\<rparr>])
          (Suc idx) k
      })"

text \<open>The three table bytes of a colour, in the order the loop stores them.\<close>

definition color_rgb :: "I256_Color \<Rightarrow> byte list" where
  "color_rgb col = [color_r col, color_g col, color_b col]"

text \<open>The specification of the \<open>ensureBasicData\<close> palette loop, element by element: when the
  colours fit the tables, byte \<open>i\<close> of \<open>rgbTable\<close> below \<open>3 n\<close> is component \<open>i mod 3\<close>
  (red, green, blue) of colour \<open>i div 3\<close>, entry \<open>i\<close> of \<open>alphaTable\<close> below \<open>n\<close> is the
  alpha of colour \<open>i\<close>, and every other byte is left as it was; otherwise the loop
  writes out of bounds.\<close>

definition palette_tables_ref ::
  "I256_Color list \<Rightarrow> byte list \<Rightarrow> byte list \<Rightarrow> (byte list \<times> byte list) option" where
  "palette_tables_ref cols rgb alpha =
     (if length cols \<le> length alpha \<and> 3 * length cols \<le> length rgb then
        Some (map (\<lambda>i. if i < 3 * length cols then color_rgb (cols ! (i div 3)) ! (i mod 3) else rgb ! i)
                  [0..<length rgb],
              map (\<lambda>i. if i < length cols then color_a (cols ! i) else alpha ! i) [0..<length alpha])
      else None)"

subsection \<open>Entry points\<close>

text \<open>\<open>CurrentFile = new I256File(...)\<close>: a fresh address becomes live and the pointer
  holds it; \<open>delete CurrentFile\<close>: the address the pointer holds is no longer live (the
  pointer itself is unchanged).\<close>

definition new_container :: "I256File \<Rightarrow> i256_state \<Rightarrow> i256_state" where
  "new_container cf s =
     s\<lparr>CurrentFile := Some cf, CurrentAddr := Some (next_addr s), live := insert (next_addr s) (live s),
       next_addr := Suc (next_addr s)\<rparr>"

definition delete_current :: "i256_state \<Rightarrow> i256_state" where
  "delete_current s = s\<lparr>live := live s - set_option (CurrentAddr s)\<rparr>"

definition i256_ensureBasicData :: "codec \<Rightarrow> i256_state \<Rightarrow> (bool \<times> i256_state) option" where
  "i256_ensureBasicData cd s0 =
     (let s = resetError s0 in
      if basicDataLoaded s then Some (True, s)
      else if currentFileName s = '''' then Some (False, s\<lparr>lastErrorMessage := ERROR_NO_FILE_NAME\<rparr>)
      else do {
        cf \<leftarrow> I256File_open cd (disk s) (currentFileName s);
        let s = new_container cf s;
        if GetFrameCount cf < 1
        then Some (False, (delete_current s)\<lparr>basicDataLoaded := False, CurrentFile := None, CurrentAddr := None\<rparr>)
        else do {
          let fh = fh_set_height (word_of_int (GetHeight cf))
                     (fh_set_width (word_of_int (GetWidth cf)) (fileHeader s));
          let pal = GetPalette cf;
          (rgb, alpha) \<leftarrow> palette_to_tables (pColors pal) 0 (nat (iNumColors pal)) (rgbTable s) (alphaTable s);
          Some (True, s\<lparr>fileHeader := fh, rgbTable := rgb, alphaTable := alpha, basicDataLoaded := True\<rparr>)
        }
      })"

definition i256_canHandle :: "codec \<Rightarrow> i256_state \<Rightarrow> (bool \<times> i256_state) option" where
  "i256_canHandle cd s = i256_ensureBasicData cd s"

definition i256_loadBasicData :: "codec \<Rightarrow> i256_state \<Rightarrow> (bool \<times> i256_state) option" where
  "i256_loadBasicData cd s = i256_ensureBasicData cd s"

definition i256_getTransparentColor :: "i256_state \<Rightarrow> int" where
  "i256_getTransparentColor s = - 1"

definition i256_isAlphaEnabled :: "i256_state \<Rightarrow> bool" where
  "i256_isAlphaEnabled s = (if basicDataLoaded s then False else False)"

text \<open>\<open>loadNextImage\<close> returns its result and the caller's two buffers as it leaves them.
  \<open>Width*Height\<close> is a C \<open>int\<close> product, converted to \<open>size_t\<close> by \<open>memcpy\<close>: a negative
  value is a huge size, undefined behaviour.\<close>

definition i256_loadNextImage ::
  "byte list \<Rightarrow> byte list \<Rightarrow> i256_state \<Rightarrow> (bool \<times> byte list \<times> byte list \<times> i256_state) option" where
  "i256_loadNextImage colorFrame colorFramePalette s0 =
     (if \<not> basicDataLoaded s0 then Some (False, colorFrame, colorFramePalette, s0)
      else do {
        let s = updateProgress 0 s0;
        cf \<leftarrow> CurrentFile s;
        let PixelMaps = GetPixelMaps cf;
        let n = sint (word_of_int (GetWidth cf * GetHeight cf) :: i32);
        colorFrame' \<leftarrow> (if 0 < length PixelMaps then
                          (if n < 0 then None else memcpy colorFrame (hd PixelMaps) (nat n))
                        else Some colorFrame);
        let s = updateProgress 50 s;
        colorFramePalette' \<leftarrow> memcpy colorFramePalette (rgbTable s) 768;
        Some (True, colorFrame', colorFramePalette', updateProgress 100 s)
      })"

text \<open>\<open>writeNextImage\<close>: the test \<open>if (CurrentFile)\<close> replaces an existing container by a
  blank one of the header's size with 256 colours, and leaves a null one null, to be
  dereferenced. \<open>AddImages\<close> copies \<open>width * height\<close> bytes of the caller's frame.\<close>

definition i256_writeNextImage ::
  "codec \<Rightarrow> byte list \<Rightarrow> byte list \<Rightarrow> i256_state \<Rightarrow> (bool \<times> i256_state) option" where
  "i256_writeNextImage cd colorFrame colorFramePalette s0 =
     (let s = (if CurrentFile s0 \<noteq> None
               then new_container (I256File_blank (sint (fh_width (fileHeader s0)))
                                     (sint (fh_height (fileHeader s0))) 256) (delete_current s0)
               else s0)
      in do {
        cf \<leftarrow> CurrentFile s;
        let Palette = GetPalette cf;
        cols \<leftarrow> palette_from_host colorFramePalette (pColors Palette) 0 (nat (iNumColors Palette));
        let cf = cf\<lparr>m_pal := Palette\<lparr>pColors := cols\<rparr>\<rparr>;
        frame \<leftarrow> (if frame_size cf \<le> length colorFrame then Some (take (frame_size cf) colorFrame) else None);
        cf \<leftarrow> (case AddImages cf [frame] of Inl err \<Rightarrow> None | Inr c \<Rightarrow> Some c);
        let s = updateProgress 60 (s\<lparr>CurrentFile := Some cf\<rparr>);
        let s = s\<lparr>disk := SaveToFile cd cf (currentFileName s) (disk s)\<rparr>;
        Some (True, updateProgress 100 s)
      })"

subsection \<open>Example states\<close>

text \<open>The plugin after \<open>initialize\<close> and \<open>setFilename(\<open>a.256\<close>)\<close> with a disk holding
  the saved container \<open>c\<close> under that name; a container of 257 colours.\<close>

definition example_state :: "I256File \<Rightarrow> i256_state" where
  "example_state c = (i256_init [''a.256'' \<mapsto> I256File_Save store_codec c])\<lparr>currentFileName := ''a.256''\<rparr>"

definition example_big :: I256File where
  "example_big = (I256File_blank 1 1 257)\<lparr>m_pPixelMaps := [[0]]\<rparr>"

text \<open>The plugin holding \<open>example_file\<close> with a header of a 4 by 2 image, ready to write.\<close>

definition example_write_state :: i256_state where
  "example_write_state = (i256_init Map.empty)\<lparr>currentFileName := ''a.256'', CurrentFile := Some example_file,
     CurrentAddr := Some 0, live := {0}, next_addr := 1,
     fileHeader := fh_bytes (ascii_bytes ''I256'') 1 4 2 (- 1) False\<rparr>"


declare new_container_def [simp] delete_current_def [simp]

subsection \<open>The palette loops\<close>

lemma length_concat_color_rgb [simp]:
  "length (concat (map (\<lambda>c. [color_r c, color_g c, color_b c]) cs)) = 3 * length cs"
  by (induction cs) simp_all

lemma length_concat_map_color_rgb [simp]: "length (concat (map color_rgb cs)) = 3 * length cs"
  by (induction cs) (simp_all add: color_rgb_def)

text \<open>The loop of \<open>ensureBasicData\<close> is a block store of the colours into the two tables,
  when they fit.\<close>

lemma palette_to_tables_Some:
  "idx + k \<le> length cols \<Longrightarrow> 3 * (idx + k) \<le> length rgb \<Longrightarrow> idx + k \<le> length alpha \<Longrightarrow>
   palette_to_tables cols idx k rgb alpha =
     Some (store_bytes rgb (3 * idx) (concat (map color_rgb (take k (drop idx cols)))),
           store_bytes alpha idx (map color_a (take k (drop idx cols))))"
proof (induction k arbitrary: idx rgb alpha)
  case 0
  then show ?case by (simp add: store_bytes_def)
next
  case (Suc k)
  have "drop idx cols = cols ! idx # drop (Suc idx) cols"
    using Suc.prems(1) by (simp add: Cons_nth_drop_Suc)
  then have d: "take (Suc k) (drop idx cols) = cols ! idx # take k (drop (Suc idx) cols)"
    by simp
  show ?case
    using Suc.prems Suc.IH [of "Suc idx"]
    by (simp add: d store_bytes_Cons color_rgb_def, simp add: eval_nat_numeral)
qed

text \<open>Started at or below index 256 with more colours left than the tables hold, it writes
  past \<open>alphaTable\<close>.\<close>

lemma palette_to_tables_overrun:
  "length alpha = 256 \<Longrightarrow> length rgb = 768 \<Longrightarrow> idx \<le> 256 \<Longrightarrow> idx + k \<le> length cols \<Longrightarrow>
   256 < idx + k \<Longrightarrow> palette_to_tables cols idx k rgb alpha = None"
proof (induction k arbitrary: idx rgb alpha)
  case 0
  then show ?case by simp
next
  case (Suc k)
  show ?case
  proof (cases "idx < 256")
    case True
    then show ?thesis using Suc.prems Suc.IH [where idx = "Suc idx"] by simp
  next
    case False
    with Suc.prems have "store_checked alpha idx (color_a (cols ! idx)) = None"
      by simp
    with Suc.prems show ?thesis by simp
  qed
qed

text \<open>The loop of \<open>writeNextImage\<close> over the last colour reads the caller's palette at
  \<open>3 * idx + 3\<close>, one past the three bytes of that colour.\<close>

lemma palette_from_host_overrun:
  "length cols = idx + k \<Longrightarrow> 0 < k \<Longrightarrow> length pal \<le> 3 * (idx + k) \<Longrightarrow>
   palette_from_host pal cols idx k = None"
proof (induction k arbitrary: cols idx)
  case 0
  then show ?case by simp
next
  case (Suc k)
  show ?case
  proof (cases "3 * idx + 3 < length pal")
    case False
    then show ?thesis using Suc.prems by (simp add: load_checked_def)
  next
    case True
    with Suc.prems have "0 < k" by simp
    then show ?thesis using True Suc.prems
      Suc.IH [of "cols[idx := (cols ! idx)\<lparr>color_r := pal ! (3 * idx), color_g := pal ! (3 * idx + 1),
                 color_b := pal ! (3 * idx + 3), color_a := 255\<rparr>]" "Suc idx"]
      by (simp add: load_checked_def)
  qed
qed

lemma palette_to_tables_length:
  "palette_to_tables cols idx k rgb alpha = Some (rgb', alpha') \<Longrightarrow>
   length rgb' = length rgb \<and> length alpha' = length alpha"
proof (induction k arbitrary: idx rgb alpha)
  case 0
  then show ?case by simp
next
  case (Suc k)
  then show ?case
    by (fastforce simp: store_checked_def split: if_splits Option.bind_splits)
qed

text \<open>With a palette buffer long enough, the loop of \<open>writeNextImage\<close> sets colour \<open>i\<close> to
  the bytes at \<open>3 i\<close>, \<open>3 i + 1\<close> and \<open>3 i + 3\<close>.\<close>

lemma palette_from_host_Some:
  "idx + k \<le> length cols \<Longrightarrow> 3 * (idx + k) < length pal \<Longrightarrow>
   \<exists>cols'. palette_from_host pal cols idx k = Some cols' \<and> length cols' = length cols \<and>
     (\<forall>i < length cols. cols' ! i = (if idx \<le> i \<and> i < idx + k
        then (cols ! i)\<lparr>color_r := pal ! (3 * i), color_g := pal ! (3 * i + 1),
                        color_b := pal ! (3 * i + 3), color_a := 255\<rparr>
        else cols ! i))"
proof (induction k arbitrary: cols idx)
  case 0
  then show ?case by auto
next
  case (Suc k)
  let ?cols1 = "cols[idx := (cols ! idx)\<lparr>color_r := pal ! (3 * idx), color_g := pal ! (3 * idx + 1),
                 color_b := pal ! (3 * idx + 3), color_a := 255\<rparr>]"
  have rd: "3 * idx + 3 < length pal" "idx < length cols"
    using Suc.prems by simp_all
  obtain cols' where c: "palette_from_host pal ?cols1 (Suc idx) k = Some cols'" "length cols' = length cols"
    "\<forall>i < length cols. cols' ! i = (if Suc idx \<le> i \<and> i < Suc idx + k
        then (?cols1 ! i)\<lparr>color_r := pal ! (3 * i), color_g := pal ! (3 * i + 1),
                        color_b := pal ! (3 * i + 3), color_a := 255\<rparr>
        else ?cols1 ! i)"
    using Suc.IH [of "Suc idx" ?cols1] Suc.prems by auto
  have "palette_from_host pal cols idx (Suc k) = Some cols'"
    using rd c(1) by simp
  moreover have "\<forall>i < length cols. cols' ! i = (if idx \<le> i \<and> i < idx + Suc k
        then (cols ! i)\<lparr>color_r := pal ! (3 * i), color_g := pal ! (3 * i + 1),
                        color_b := pal ! (3 * i + 3), color_a := 255\<rparr>
        else cols ! i)"
  proof (intro allI impI)
    fix i assume "i < length cols"
    then show "cols' ! i = (if idx \<le> i \<and> i < idx + Suc k
        then (cols ! i)\<lparr>color_r := pal ! (3 * i), color_g := pal ! (3 * i + 1),
                        color_b := pal ! (3 * i + 3), color_a := 255\<rparr>
        else cols ! i)"
      using c(3) by (cases "i = idx") auto
  qed
  ultimately show ?case
    using c(2) by blast
qed

lemma nth_concat_color_rgb:
  "i < 3 * length cs \<Longrightarrow> concat (map color_rgb cs) ! i = color_rgb (cs ! (i div 3)) ! (i mod 3)"
proof (induction cs arbitrary: i)
  case Nil
  then show ?case by simp
next
  case (Cons c cs)
  show ?case
  proof (cases "i < 3")
    case True
    moreover have "length (color_rgb c) = 3" by (simp add: color_rgb_def)
    ultimately show ?thesis by (simp add: nth_append)
  next
    case False
    then obtain j where j: "i = j + 3" by (metis add.commute le_Suc_ex not_less)
    moreover have "length (color_rgb c) = 3" by (simp add: color_rgb_def)
    moreover have "(j + 3) div 3 = Suc (j div 3)" by simp
    ultimately show ?thesis using Cons by (simp add: nth_append)
  qed
qed

lemma palette_to_tables_None:
  "0 < k \<Longrightarrow> idx + k \<le> length cols \<Longrightarrow> \<not> (idx + k \<le> length alpha \<and> 3 * (idx + k) \<le> length rgb) \<Longrightarrow>
   palette_to_tables cols idx k rgb alpha = None"
proof (induction k arbitrary: idx rgb alpha)
  case 0
  then show ?case by simp
next
  case (Suc k)
  show ?case
  proof (cases "idx < length alpha \<and> 3 * idx + 2 < length rgb")
    case True
    with Suc.prems have "0 < k" by (cases k) auto
    with True show ?thesis using Suc.prems Suc.IH [where idx = "Suc idx"] by simp
  next
    case False
    with Suc.prems show ?thesis by (auto simp: store_checked_def)
  qed
qed

subsection \<open>Opening a saved file\<close>

lemma I256File_open_saved:
  assumes "I256File_storable c" "codec_ok cd" "length (m_pPixelMaps c) < 65536"
    "length (I256File_Save cd c) < 2 ^ 32" "d path = Some (I256File_Save cd c)"
  shows "I256File_open cd d path = Some c"
  using assms I256File_Load_Save [OF assms(1-4)] by (simp add: I256File_open_def)

lemma width_bounds_storable:
  "I256File_storable c \<Longrightarrow> sint (word_of_int (m_widthPixels c) :: u32) = m_widthPixels c \<and>
     sint (word_of_int (m_heightPixels c) :: u32) = m_heightPixels c"
  by (simp add: I256File_storable_def sint_sbintrunc' signed_take_bit_int_eq_self)

lemma frame_product_i32:
  assumes "I256File_wf c"
  shows "sint (word_of_int (m_widthPixels c * m_heightPixels c) :: i32) = int (frame_size c)"
proof -
  have "m_widthPixels c * m_heightPixels c \<le> 32767 * 32767"
    using assms by (intro mult_mono) (auto simp: I256File_wf_def)
  moreover have "0 \<le> m_widthPixels c * m_heightPixels c"
    using assms by (auto simp: I256File_wf_def)
  ultimately show ?thesis
    by (simp del: of_int_mult add: frame_size_def sint_sbintrunc' signed_take_bit_int_eq_self)
qed

lemma storable_product_i32:
  assumes "I256File_storable c"
  shows "sint (word_of_int (m_widthPixels c * m_heightPixels c) :: i32) = m_widthPixels c * m_heightPixels c"
proof -
  have "\<bar>m_widthPixels c\<bar> \<le> 32768" "\<bar>m_heightPixels c\<bar> \<le> 32768"
    using assms by (auto simp: I256File_storable_def)
  then have "\<bar>m_widthPixels c\<bar> * \<bar>m_heightPixels c\<bar> \<le> 32768 * 32768"
    by (intro mult_mono) simp_all
  then have "\<bar>m_widthPixels c * m_heightPixels c\<bar> \<le> 32768 * 32768"
    by (simp add: abs_mult)
  then show ?thesis
    by (simp del: of_int_mult add: sint_sbintrunc' signed_take_bit_int_eq_self abs_le_iff)
qed


lemma example_file_saved:
  "I256File_wf example_file \<and> length (I256File_Save store_codec example_file) < 2 ^ 32"
  using example_file_wf example_file_save_length by simp

subsection \<open>The read path\<close>

text \<open>\<open>ensureBasicData\<close> on a file saved from a well-formed container of at most 256
  colours with a frame: it keeps the container, sets the header's width and height and
  stores the palette into the two tables.\<close>

lemma i256_ensureBasicData_saved:
  assumes wf: "I256File_storable c" and ok: "codec_ok cd" and fr: "m_pPixelMaps c \<noteq> []"
    and nfr: "length (m_pPixelMaps c) < 65536" and size: "length (I256File_Save cd c) < 2 ^ 32"
    and ncol: "m_numColors c \<le> 256"
    and sv: "disk s (currentFileName s) = Some (I256File_Save cd c)"
    and name: "currentFileName s \<noteq> ''''" and fresh: "\<not> basicDataLoaded s"
    and tabs: "length (rgbTable s) = 768" "length (alphaTable s) = 256"
  shows "i256_ensureBasicData cd s =
           Some (True, s\<lparr>lastErrorMessage := '''', CurrentFile := Some c,
             CurrentAddr := Some (next_addr s), live := insert (next_addr s) (live s), next_addr := Suc (next_addr s),
             fileHeader := fh_set_height (word_of_int (m_heightPixels c))
                             (fh_set_width (word_of_int (m_widthPixels c)) (fileHeader s)),
             rgbTable := store_bytes (rgbTable s) 0 (concat (map color_rgb (pColors (m_pal c)))),
             alphaTable := store_bytes (alphaTable s) 0 (map color_a (pColors (m_pal c))),
             basicDataLoaded := True\<rparr>)"
proof -
  have op: "I256File_open cd (disk s) (currentFileName s) = Some c"
    by (rule I256File_open_saved [of c cd "disk s" "currentFileName s", OF wf ok nfr size sv])
  have cnt: "\<not> GetFrameCount c < 1"
    using fr by (simp add: GetFrameCount_def)
  have pl: "nat (iNumColors (m_pal c)) = length (pColors (m_pal c))" "length (pColors (m_pal c)) \<le> 256"
    using storable_palette [OF wf] ncol by simp_all
  have tab: "palette_to_tables (pColors (GetPalette c)) 0 (nat (iNumColors (GetPalette c))) (rgbTable s) (alphaTable s)
     = Some (store_bytes (rgbTable s) 0 (concat (map color_rgb (pColors (m_pal c)))),
             store_bytes (alphaTable s) 0 (map color_a (pColors (m_pal c))))"
    using palette_to_tables_Some [of 0 "length (pColors (m_pal c))" "pColors (m_pal c)" "rgbTable s" "alphaTable s"]
      pl tabs by (simp add: GetPalette_def)
  show ?thesis
    using op cnt tab name fresh
    by (simp add: i256_ensureBasicData_def resetError_def GetWidth_def GetHeight_def)
qed

text \<open>\<open>loadNextImage\<close> after a load copies the container's first frame and the colour
  table into the caller's buffers and reports progress 0, 50 and 100.\<close>

lemma i256_loadNextImage_loaded:
  assumes "basicDataLoaded s" and "CurrentFile s = Some c"
    and wf: "I256File_wf c" and fr: "m_pPixelMaps c \<noteq> []"
    and "length (rgbTable s) = 768"
    and "frame_size c \<le> length colorFrame" "768 \<le> length colorFramePalette"
  shows "i256_loadNextImage colorFrame colorFramePalette s =
           Some (True, hd (GetPixelMaps c) @ drop (frame_size c) colorFrame,
                 rgbTable s @ drop 768 colorFramePalette,
                 updateProgress 100 (updateProgress 50 (updateProgress 0 s)))"
  using assms frame_product_i32 [OF wf] wf_first_frame [OF wf fr]
  by (simp add: i256_loadNextImage_def GetPixelMaps_def GetWidth_def GetHeight_def memcpy_Some
      updateProgress_def)

subsection \<open>Properties of the I256 plugin\<close>

text \<open>C7: A file of more than 256 colours overruns the tables: loading a saved well-formed
  container whose palette has more than 256 entries makes the palette loop of
  \<open>ensureBasicData\<close> write past \<open>alphaTable[255]\<close> (and \<open>rgbTable[767]\<close>), although
  the format allows up to 16384 colours.\<close>

theorem i256_ensureBasicData_palette_overflow:
  assumes wf: "I256File_storable c" and ok: "codec_ok cd" and fr: "m_pPixelMaps c \<noteq> []"
    and nfr: "length (m_pPixelMaps c) < 65536" and size: "length (I256File_Save cd c) < 2 ^ 32"
    and ncol: "256 < m_numColors c"
    and sv: "disk s (currentFileName s) = Some (I256File_Save cd c)"
    and name: "currentFileName s \<noteq> ''''" and fresh: "\<not> basicDataLoaded s"
    and tabs: "length (rgbTable s) = 768" "length (alphaTable s) = 256"
  shows "i256_ensureBasicData cd s = None"
proof -
  have op: "I256File_open cd (disk s) (currentFileName s) = Some c"
    by (rule I256File_open_saved [of c cd "disk s" "currentFileName s", OF wf ok nfr size sv])
  have cnt: "\<not> GetFrameCount c < 1"
    using fr by (simp add: GetFrameCount_def)
  have pl: "nat (iNumColors (m_pal c)) = length (pColors (m_pal c))" "256 < length (pColors (m_pal c))"
    using storable_palette [OF wf] ncol by simp_all
  have tab: "palette_to_tables (pColors (GetPalette c)) 0 (nat (iNumColors (GetPalette c))) (rgbTable s) (alphaTable s) = None"
    using palette_to_tables_overrun [of "alphaTable s" "rgbTable s" 0 "length (pColors (m_pal c))" "pColors (m_pal c)"]
      pl tabs by (simp add: GetPalette_def)
  show ?thesis
    using op cnt tab name fresh
    by (simp add: i256_ensureBasicData_def resetError_def)
qed

theorem i256_ensureBasicData_palette_overflow_witness:
  "i256_ensureBasicData store_codec (example_state example_big) = None"
proof -
  have wf: "I256File_storable example_big"
    by (simp add: I256File_storable_def example_big_def I256File_blank_def frame_size_def)
  have len: "length (I256File_Save store_codec example_big) < 2 ^ 32"
    by (simp add: length_I256File_Save example_big_def I256File_blank_def blob_bytes_def store_codec_def)
  have big: "m_pPixelMaps example_big \<noteq> []" "length (m_pPixelMaps example_big) < 65536"
      "256 < m_numColors example_big"
    by (simp_all add: example_big_def I256File_blank_def)
  show ?thesis
    by (rule i256_ensureBasicData_palette_overflow [OF wf store_codec_ok big(1,2) len big(3)])
       (simp_all add: example_state_def i256_init_def)
qed

text \<open>C6: \<open>writeNextImage\<close> never completes with the 768-byte palette buffer the host
  passes: with a container present it is replaced by a blank one of 256 colours whose copy
  loop reads \<open>colorFramePalette[3 * 255 + 3]\<close>, one byte past the buffer (the blue byte is
  read at \<open>rgbindex + 3\<close> instead of \<open>rgbindex + 2\<close>); without one, the null
  \<open>CurrentFile\<close> is dereferenced.\<close>

theorem i256_writeNextImage_overread:
  assumes "length colorFramePalette = 768"
  shows "i256_writeNextImage cd colorFrame colorFramePalette s = None"
proof (cases "CurrentFile s")
  case None
  then show ?thesis by (simp add: i256_writeNextImage_def)
next
  case (Some c)
  let ?cf = "I256File_blank (sint (fh_width (fileHeader s))) (sint (fh_height (fileHeader s))) 256"
  have "palette_from_host colorFramePalette (pColors (GetPalette ?cf)) 0 (nat (iNumColors (GetPalette ?cf))) = None"
    using assms by (intro palette_from_host_overrun) (simp_all add: GetPalette_def I256File_blank_def)
  with Some show ?thesis by (simp add: i256_writeNextImage_def)
qed

theorem i256_writeNextImage_overread_witness:
  "length (replicate 768 (0::byte)) = 768 \<and>
   i256_writeNextImage store_codec [] (replicate 768 0) (i256_init Map.empty) = None"
  using i256_writeNextImage_overread [of "replicate 768 0" store_codec "[]" "i256_init Map.empty"]
  by simp

text \<open>C12: A write that was not preceded by a successful load dereferences a null pointer:
  \<open>writeNextImage\<close> only creates a new container when one exists already, whatever the
  buffers passed.\<close>

theorem i256_writeNextImage_null:
  assumes "CurrentFile s = None"
  shows "i256_writeNextImage cd colorFrame colorFramePalette s = None"
  using assms by (simp add: i256_writeNextImage_def)

theorem i256_writeNextImage_null_witness:
  "CurrentFile (i256_init Map.empty) = None \<and>
   i256_writeNextImage store_codec (replicate 8 0) (replicate 1024 0) (i256_init Map.empty) = None"
  using i256_writeNextImage_null [of "i256_init Map.empty" store_codec "replicate 8 0" "replicate 1024 0"]
  by (simp add: i256_init_def)

text \<open>C8: What \<open>writeNextImage\<close> saves when the palette buffer has a byte to spare: the
  file named by the plugin receives a blank container of the header's size with one frame,
  the first \<open>width * height\<close> bytes of the caller's frame, and 256 colours whose blue
  byte is the caller's byte \<open>3 i + 3\<close>, the red of the next colour: the written palette
  is not the one passed in.\<close>

theorem i256_writeNextImage_saved:
  fixes s :: i256_state
  defines "w \<equiv> sint (fh_width (fileHeader s))" and "h \<equiv> sint (fh_height (fileHeader s))"
  assumes cur: "CurrentFile s \<noteq> None" and pl: "769 \<le> length colorFramePalette"
    and fr: "frame_size (I256File_blank w h 256) \<le> length colorFrame"
  shows "\<exists>s'. i256_writeNextImage cd colorFrame colorFramePalette s = Some (True, s') \<and>
     disk s' (currentFileName s) = Some (I256File_Save cd ((I256File_blank w h 256)\<lparr>
       m_pal := \<lparr>iNumColors = 256, pColors = map (\<lambda>i. \<lparr>color_b = colorFramePalette ! (3 * i + 3),
                    color_g = colorFramePalette ! (3 * i + 1), color_r = colorFramePalette ! (3 * i),
                    color_a = 255\<rparr>) [0..<256]\<rparr>,
       m_pPixelMaps := [take (frame_size (I256File_blank w h 256)) colorFrame]\<rparr>))"
proof -
  let ?cols = "map (\<lambda>i. \<lparr>color_b = colorFramePalette ! (3 * i + 3), color_g = colorFramePalette ! (3 * i + 1),
                  color_r = colorFramePalette ! (3 * i), color_a = 255\<rparr>) [0..<256]"
  obtain cols' where c: "palette_from_host colorFramePalette (replicate 256 zero_color) 0 256 = Some cols'"
      "length cols' = 256"
      "\<forall>i < 256. cols' ! i = zero_color\<lparr>color_r := colorFramePalette ! (3 * i),
          color_g := colorFramePalette ! (3 * i + 1), color_b := colorFramePalette ! (3 * i + 3), color_a := 255\<rparr>"
    using palette_from_host_Some [of 0 256 "replicate 256 zero_color" colorFramePalette] pl by auto
  have cols: "cols' = ?cols"
    using c(2,3) by (intro nth_equalityI) (simp_all add: zero_color_def)
  let ?cf = "(I256File_blank w h 256)\<lparr>m_pal := \<lparr>iNumColors = 256, pColors = ?cols\<rparr>\<rparr>"
  have fs: "frame_size ?cf = frame_size (I256File_blank w h 256)"
    by (simp add: frame_size_def)
  have add: "AddImages ?cf [take (frame_size ?cf) colorFrame] =
      Inr (?cf\<lparr>m_pPixelMaps := [take (frame_size (I256File_blank w h 256)) colorFrame]\<rparr>)"
    using fr fs by (simp add: AddImages_def I256File_blank_def)
  show ?thesis
    using cur c(1) cols add fr fs
    by (auto simp: i256_writeNextImage_def GetPalette_def I256File_blank_def SaveToFile_def
        updateProgress_def w_def h_def Let_def)
qed

theorem i256_writeNextImage_saved_witness:
  "\<exists>s'. i256_writeNextImage store_codec (replicate 8 1) (replicate 769 7) example_write_state = Some (True, s') \<and>
     disk s' (currentFileName example_write_state) = Some (I256File_Save store_codec
       ((I256File_blank (sint (fh_width (fileHeader example_write_state))) (sint (fh_height (fileHeader example_write_state))) 256)\<lparr>
       m_pal := \<lparr>iNumColors = 256, pColors = map (\<lambda>i. \<lparr>color_b = replicate 769 7 ! (3 * i + 3),
                    color_g = replicate 769 7 ! (3 * i + 1), color_r = replicate 769 7 ! (3 * i),
                    color_a = 255\<rparr>) [0..<256]\<rparr>,
       m_pPixelMaps := [take (frame_size (I256File_blank (sint (fh_width (fileHeader example_write_state)))
          (sint (fh_height (fileHeader example_write_state))) 256)) (replicate 8 1)]\<rparr>))"
  by (rule i256_writeNextImage_saved)
     (simp_all add: example_write_state_def i256_init_def ascii_bytes_def frame_size_def I256File_blank_def)

text \<open>C14: The \<open>ensureBasicData\<close> palette loop, run over all \<open>n\<close> colours of a palette
  with checked stores, is equivalent to its element-wise specification: it returns the
  tables the specification describes exactly when the colours fit (\<open>n\<close> alpha bytes and
  \<open>3 n\<close> table bytes), and has undefined behaviour otherwise.\<close>

theorem palette_to_tables_ref:
  "palette_to_tables cols 0 (length cols) rgb alpha = palette_tables_ref cols rgb alpha"
proof (cases "length cols \<le> length alpha \<and> 3 * length cols \<le> length rgb")
  case True
  then have "palette_to_tables cols 0 (length cols) rgb alpha =
     Some (store_bytes rgb 0 (concat (map color_rgb cols)), store_bytes alpha 0 (map color_a cols))"
    using palette_to_tables_Some [of 0 "length cols" cols rgb alpha] by simp
  also have "\<dots> = palette_tables_ref cols rgb alpha"
    using True by (simp add: palette_tables_ref_def store_bytes_prefix_nth nth_concat_color_rgb cong: map_cong)
  finally show ?thesis .
next
  case False
  then have "0 < length cols" by auto
  with False show ?thesis
    using palette_to_tables_None [where k = "length cols" and idx = 0] by (simp add: palette_tables_ref_def)
qed


end
