(* ===== verification/Sim_Plugin.thy ===== *)
theory Sim_Plugin
  imports Plugin_Shell
begin

text \<open>
  The SIM sample plugin, \<open>simImage/simImageIo.cpp\<close>: the shared globals of
  \<open>Plugin_Shell\<close> (it has no others) and the entry points whose bodies differ from the
  I256 plugin's. A SIM file is the 18 bytes of the packed \<open>fileHeader\<close> struct, the
  768-byte RGB table, the 256-byte alpha table when \<open>alphaEnabled\<close>, then the colour
  bitmap and, when \<open>alphaEnabled\<close>, the alpha bitmap, each of \<open>width * height\<close> bytes.

  A file opened for reading is its bytes in \<open>disk\<close> and a position; \<open>fread(p, 1, n, f)\<close>
  stores the \<open>min n (remaining)\<close> bytes it gets at \<open>p\<close> and returns their count, which the
  code compares with \<open>n\<close>; \<open>fseek\<close> to a position sets it (binary streams may seek past
  the end, so it does not fail). \<open>fopen(name, "w+b")\<close> empties the file and \<open>fwrite\<close>
  appends to it; opening fails for the empty name only, and \<open>fwrite\<close> writes everything
  (a full disk is not modelled). \<open>width * height\<close> is an \<open>unsigned int\<close> product, so it
  wraps modulo \<open>2^32\<close> (a \<open>u32\<close> product here). A read or write of a caller buffer
  past its end is undefined behaviour, \<open>None\<close>; an absent optional buffer (\<open>NULL\<close>) is
  \<open>None\<close> in the buffer record.
\<close>

type_synonym sim_state = shell

definition sim_consts :: plugin_consts where
  "sim_consts =
     \<lparr>FILE_TYPE_ID = ''de.cosmigo.fileio.sim'', FILE_BOX_DESCRIPTION = ''SIM - Sample Image'',
      FILE_EXTENSION = ''sim'', FILE_HEADER_TYPE_ID = ''SIMG''\<rparr>"

subsection \<open>Reading and writing files\<close>

text \<open>\<open>fread\<close> into a fixed global at offset \<open>off\<close>: the bytes got are stored there.\<close>

definition fread_into :: "byte list \<Rightarrow> nat \<Rightarrow> byte list \<Rightarrow> nat \<Rightarrow> nat \<Rightarrow> byte list \<times> nat" where
  "fread_into dst off file pos n =
     (let got = load_bytes file pos n in (store_bytes dst off got, length got))"

text \<open>\<open>fread\<close> into a caller buffer, which must hold the bytes got.\<close>

definition fread_buf :: "byte list \<Rightarrow> byte list \<Rightarrow> nat \<Rightarrow> nat \<Rightarrow> (byte list \<times> nat) option" where
  "fread_buf dst file pos n =
     (let got = load_bytes file pos n in
      if length got \<le> length dst then Some (store_bytes dst 0 got, length got) else None)"

text \<open>\<open>fwrite\<close> of \<open>n\<close> bytes of a caller buffer, which must hold them.\<close>

definition fwrite_buf :: "byte list \<Rightarrow> nat \<Rightarrow> byte list option" where
  "fwrite_buf src n = (if n \<le> length src then Some (take n src) else None)"

definition sim_pixels :: "byte list \<Rightarrow> nat" where
  "sim_pixels fh = unat (fh_width fh * fh_height fh)"

definition sim_bitmapPos :: "byte list \<Rightarrow> nat" where
  "sim_bitmapPos fh = sizeof_fileHeader + 768 + (if fh_alphaEnabled fh then 256 else 0)"

subsection \<open>Entry points\<close>

definition sim_ensureBasicData :: "sim_state \<Rightarrow> bool \<times> sim_state" where
  "sim_ensureBasicData s0 =
     (let s = resetError s0 in
      if basicDataLoaded s then (True, s)
      else if currentFileName s = '''' then (False, s\<lparr>lastErrorMessage := ERROR_NO_FILE_NAME\<rparr>)
      else case disk s (currentFileName s) of
        None \<Rightarrow> (False, s\<lparr>lastErrorMessage := ERROR_FILE_OPEN_FAILED\<rparr>)
      | Some file \<Rightarrow>
          (let (fh, got) = fread_into (fileHeader s) 0 file 0 5; s = s\<lparr>fileHeader := fh\<rparr> in
           if got \<noteq> 5 then (False, s\<lparr>lastErrorMessage := ERROR_FILE_READ_FAILED\<rparr>)
           else if fh_version fh \<noteq> 1 \<or> fh_typeId fh \<noteq> ascii_bytes (FILE_HEADER_TYPE_ID sim_consts)
           then (False, s)
           else
             let (fh, got) = fread_into fh 5 file 5 (sizeof_fileHeader - 5); s = s\<lparr>fileHeader := fh\<rparr> in
             if got \<noteq> sizeof_fileHeader - 5 then (False, s\<lparr>lastErrorMessage := ERROR_FILE_READ_FAILED\<rparr>)
             else
               let (rgb, got) = fread_into (rgbTable s) 0 file sizeof_fileHeader 768;
                   s = s\<lparr>rgbTable := rgb\<rparr> in
               if got \<noteq> 768 then (False, s\<lparr>lastErrorMessage := ERROR_FILE_READ_FAILED\<rparr>)
               else if fh_alphaEnabled fh then
                 (let (alpha, got) = fread_into (alphaTable s) 0 file (sizeof_fileHeader + 768) 256;
                      s = s\<lparr>alphaTable := alpha\<rparr> in
                  if got \<noteq> 256 then (False, s\<lparr>lastErrorMessage := ERROR_FILE_READ_FAILED\<rparr>)
                  else (True, s\<lparr>basicDataLoaded := True\<rparr>))
               else (True, s\<lparr>basicDataLoaded := True\<rparr>)))"

definition sim_getTransparentColor :: "sim_state \<Rightarrow> int" where
  "sim_getTransparentColor s =
     (if basicDataLoaded s then sint (fh_transparentColor (fileHeader s)) else - 1)"

definition sim_isAlphaEnabled :: "sim_state \<Rightarrow> bool" where
  "sim_isAlphaEnabled s = (if basicDataLoaded s then fh_alphaEnabled (fileHeader s) else False)"

text \<open>\<open>loadNextImage\<close> returns its result and the caller's buffers as it leaves them.\<close>

definition sim_loadNextImage :: "frame_bufs \<Rightarrow> sim_state \<Rightarrow> (bool \<times> frame_bufs \<times> sim_state) option" where
  "sim_loadNextImage b s0 =
     (if \<not> basicDataLoaded s0 then Some (False, b, s0)
      else
        let s = updateProgress 0 s0 in
        case disk s (currentFileName s) of
          None \<Rightarrow> Some (False, b, s\<lparr>lastErrorMessage := ERROR_FILE_OPEN_FAILED\<rparr>)
        | Some file \<Rightarrow> do {
            let fh = fileHeader s;
            cfp \<leftarrow> memcpy (buf_colorFramePalette b) (rgbTable s) 768;
            afp \<leftarrow> (case buf_alphaFramePalette b of
                      Some p \<Rightarrow> if fh_alphaEnabled fh then map_option Some (memcpy p (alphaTable s) 256)
                                else Some (Some p)
                    | None \<Rightarrow> Some None);
            let b = b\<lparr>buf_colorFramePalette := cfp, buf_alphaFramePalette := afp\<rparr>;
            let pos = sim_bitmapPos fh;
            let n = sim_pixels fh;
            (cf, got) \<leftarrow> fread_buf (buf_colorFrame b) file pos n;
            let b = b\<lparr>buf_colorFrame := cf\<rparr>;
            if got \<noteq> n then Some (False, b, s\<lparr>lastErrorMessage := ERROR_FILE_READ_FAILED\<rparr>)
            else do {
              let s = updateProgress 50 s;
              case buf_alphaFrame b of
                Some af \<Rightarrow>
                  if fh_alphaEnabled fh then do {
                    (af', got) \<leftarrow> fread_buf af file (pos + n) n;
                    let b = b\<lparr>buf_alphaFrame := Some af'\<rparr>;
                    if got \<noteq> n then Some (False, b, s\<lparr>lastErrorMessage := ERROR_FILE_READ_FAILED\<rparr>)
                    else Some (True, b, updateProgress 100 s)
                  }
                  else Some (True, b, updateProgress 100 s)
              | None \<Rightarrow> Some (True, b, updateProgress 100 s)
            }
          })"

text \<open>\<open>writeNextImage\<close>: the file gets the header struct's 18 bytes, the caller's 768
  palette bytes, its 256 alpha palette bytes and alpha bitmap when \<open>alphaEnabled\<close>, and
  \<open>width * height\<close> bytes of its colour bitmap.\<close>

definition sim_writeNextImage :: "frame_bufs \<Rightarrow> sim_state \<Rightarrow> (bool \<times> sim_state) option" where
  "sim_writeNextImage b s =
     (if currentFileName s = '''' then Some (False, s\<lparr>lastErrorMessage := ERROR_FILE_OPEN_FAILED\<rparr>)
      else do {
        let fh = fileHeader s;
        let n = sim_pixels fh;
        pal \<leftarrow> fwrite_buf (buf_colorFramePalette b) 768;
        let s = updateProgress 30 s;
        apal \<leftarrow> (if fh_alphaEnabled fh
                 then (case buf_alphaFramePalette b of None \<Rightarrow> None | Some p \<Rightarrow> fwrite_buf p 256)
                 else Some []);
        frame \<leftarrow> fwrite_buf (buf_colorFrame b) n;
        let s = updateProgress 60 s;
        aframe \<leftarrow> (if fh_alphaEnabled fh
                   then (case buf_alphaFrame b of None \<Rightarrow> None | Some p \<Rightarrow> fwrite_buf p n)
                   else Some []);
        let s = s\<lparr>disk := (disk s)(currentFileName s \<mapsto> fh @ pal @ apal @ frame @ aframe)\<rparr>;
        Some (True, updateProgress 100 s)
      })"


subsection \<open>Example\<close>

text \<open>A host's buffers for a 2 by 1 image: the pixels, a palette of 7s, a zero alpha plane
  and alpha palette; and the same buffers zeroed, for reading back.\<close>

definition example_bufs :: frame_bufs where
  "example_bufs = \<lparr>buf_colorFrame = [1, 2], buf_colorFramePalette = replicate 768 7,
     buf_alphaFrame = Some [0, 0], buf_alphaFramePalette = Some (replicate 256 0)\<rparr>"

definition example_blank_bufs :: frame_bufs where
  "example_blank_bufs = \<lparr>buf_colorFrame = [0, 0], buf_colorFramePalette = replicate 768 0,
     buf_alphaFrame = Some [0, 0], buf_alphaFramePalette = Some (replicate 256 0)\<rparr>"

subsection \<open>The three file operations\<close>

text \<open>\<open>ensureBasicData\<close> on a file that starts with a complete header of type \<open>SIMG\<close>,
  version 1, followed by the tables it announces: the header, the colour table and, with
  alpha, the alpha table are those of the file.\<close>

lemma sim_ensureBasicData_file:
  assumes fresh: "\<not> basicDataLoaded s" and name: "currentFileName s \<noteq> ''''"
    and f: "disk s (currentFileName s) = Some (fh @ rest)" and l: "length fh = 18"
    and v: "fh_version fh = 1" and t: "fh_typeId fh = ascii_bytes ''SIMG''"
    and r: "768 + (if fh_alphaEnabled fh then 256 else 0) \<le> length rest"
    and ok: "fh_ok (fileHeader s)" "length (rgbTable s) = 768" "length (alphaTable s) = 256"
  shows "sim_ensureBasicData s =
           (True, s\<lparr>lastErrorMessage := '''', fileHeader := fh, rgbTable := take 768 rest,
                   alphaTable := (if fh_alphaEnabled fh then take 256 (drop 768 rest) else alphaTable s),
                   basicDataLoaded := True\<rparr>)"
proof -
  have ok': "length (fileHeader s) = 18" using ok(1) by (simp add: fh_ok_def sizeof_fileHeader_def)
  have h5: "store_bytes (fileHeader s) 0 (load_bytes (fh @ rest) 0 5) = take 5 fh @ drop 5 (fileHeader s)"
    using l ok' by (simp add: store_bytes_def load_bytes_def)
  have v5: "fh_version (take 5 fh @ drop 5 (fileHeader s)) = 1"
      "fh_typeId (take 5 fh @ drop 5 (fileHeader s)) = ascii_bytes ''SIMG''"
    using v t l by (simp_all add: fh_version_def fh_typeId_def load_bytes_def nth_append)
  have h13: "store_bytes (take 5 fh @ drop 5 (fileHeader s)) 5 (load_bytes (fh @ rest) 5 13) = fh"
    using l ok' by (simp add: store_bytes_def load_bytes_def)
  have rgb: "store_bytes (rgbTable s) 0 (load_bytes (fh @ rest) 18 768) = take 768 rest"
    using l r ok(2) by (simp add: store_bytes_def load_bytes_def)
  have alpha: "fh_alphaEnabled fh \<Longrightarrow>
      store_bytes (alphaTable s) 0 (load_bytes (fh @ rest) (18 + 768) 256) = take 256 (drop 768 rest)"
    using l r ok(3) by (simp add: store_bytes_def load_bytes_def)
  show ?thesis
    using fresh name f h5 v5 h13 rgb alpha l r
    by (cases "fh_alphaEnabled fh")
       (simp_all add: sim_ensureBasicData_def resetError_def fread_into_def sim_consts_def
         sizeof_fileHeader_def Let_def)
qed

text \<open>\<open>loadNextImage\<close> on a loaded file whose body holds the tables and the bitmaps: the
  caller's buffers receive the tables and the \<open>width * height\<close> bytes of each bitmap.\<close>

lemma sim_loadNextImage_file:
  assumes loaded: "basicDataLoaded s"
    and f: "disk s (currentFileName s) = Some (fileHeader s @ body)"
    and l: "length (fileHeader s) = 18"
    and tabs: "length (rgbTable s) = 768" "length (alphaTable s) = 256"
    and len: "768 + (if fh_alphaEnabled (fileHeader s) then 256 + 2 * sim_pixels (fileHeader s)
                     else sim_pixels (fileHeader s)) \<le> length body"
    and bufs: "768 \<le> length (buf_colorFramePalette b)" "sim_pixels (fileHeader s) \<le> length (buf_colorFrame b)"
      "buf_alphaFramePalette b = Some ap" "256 \<le> length ap" "buf_alphaFrame b = Some af"
      "sim_pixels (fileHeader s) \<le> length af"
  shows "sim_loadNextImage b s =
    (let fh = fileHeader s; n = sim_pixels fh; A = (if fh_alphaEnabled fh then 256 else 0) in
     Some (True,
       b\<lparr>buf_colorFramePalette := rgbTable s @ drop 768 (buf_colorFramePalette b),
         buf_alphaFramePalette := Some (if fh_alphaEnabled fh then alphaTable s @ drop 256 ap else ap),
         buf_colorFrame := take n (drop (768 + A) body) @ drop n (buf_colorFrame b),
         buf_alphaFrame := Some (if fh_alphaEnabled fh then take n (drop (768 + A + n) body) @ drop n af else af)\<rparr>,
       updateProgress 100 (updateProgress 50 (updateProgress 0 s))))"
  using assms
  by (cases "fh_alphaEnabled (fileHeader s)")
     (simp_all add: sim_loadNextImage_def Let_def memcpy_Some fread_buf_def sim_bitmapPos_def
       sizeof_fileHeader_def load_bytes_def store_bytes_def updateProgress_def)

text \<open>\<open>writeNextImage\<close> with buffers as large as the header announces: the file holds the
  header, the palette, with alpha the alpha palette, the bitmap and with alpha the alpha
  bitmap.\<close>

lemma sim_writeNextImage_ok:
  assumes name: "currentFileName s \<noteq> ''''"
    and bufs: "768 \<le> length (buf_colorFramePalette b)" "sim_pixels (fileHeader s) \<le> length (buf_colorFrame b)"
      "buf_alphaFramePalette b = Some ap" "256 \<le> length ap" "buf_alphaFrame b = Some af"
      "sim_pixels (fileHeader s) \<le> length af"
  shows "sim_writeNextImage b s =
    (let fh = fileHeader s; n = sim_pixels fh in
     Some (True, updateProgress 100 ((updateProgress 60 (updateProgress 30 s))\<lparr>disk := (disk s)(currentFileName s \<mapsto>
        fh @ take 768 (buf_colorFramePalette b) @ (if fh_alphaEnabled fh then take 256 ap else []) @
        take n (buf_colorFrame b) @ (if fh_alphaEnabled fh then take n af else []))\<rparr>)))"
  using assms
  by (cases "fh_alphaEnabled (fileHeader s)")
     (simp_all add: sim_writeNextImage_def Let_def fwrite_buf_def updateProgress_def)

subsection \<open>Properties of the SIM plugin\<close>

text \<open>C2: Write then read: after \<open>beginWrite(w, h, tc, ae)\<close> and \<open>writeNextImage\<close> of a
  frame, \<open>finishProcessing\<close> and \<open>loadBasicData\<close> succeed, \<open>getWidth\<close>, \<open>getHeight\<close>,
  \<open>getTransparentColor\<close> and \<open>isAlphaEnabled\<close> give back the values written, and
  \<open>loadNextImage\<close> returns true and fills the caller's buffers with the \<open>w * h\<close> pixels,
  the 768 palette bytes and, when alpha is enabled, the alpha palette and plane that were
  written; for dimensions that fit an \<open>int\<close> and whose product fits 32 bits, and buffers
  of the sizes the header announces.\<close>

theorem sim_write_read_roundtrip:
  fixes w h tc :: int
  defines "n \<equiv> nat (w * h)"
  assumes ok: "fh_ok (fileHeader s)" and name: "currentFileName s \<noteq> ''''"
    and dims: "0 \<le> w" "w < 2 ^ 31" "0 \<le> h" "h < 2 ^ 31" "w * h < 2 ^ 32"
    and tcb: "- (2 ^ 31) \<le> tc" "tc < 2 ^ 31"
    and wb: "768 \<le> length (buf_colorFramePalette b)" "n \<le> length (buf_colorFrame b)"
      "buf_alphaFramePalette b = Some ap" "256 \<le> length ap" "buf_alphaFrame b = Some af" "n \<le> length af"
    and rb: "768 \<le> length (buf_colorFramePalette b')" "n \<le> length (buf_colorFrame b')"
      "buf_alphaFramePalette b' = Some ap'" "256 \<le> length ap'" "buf_alphaFrame b' = Some af'" "n \<le> length af'"
  shows "\<exists>s1 s2 s3 s4 b''. beginWrite sim_consts w h tc ae nf s = (True, s1) \<and>
     sim_writeNextImage b s1 = Some (True, s2) \<and>
     sim_ensureBasicData (finishProcessing s2) = (True, s3) \<and>
     getWidth s3 = w \<and> getHeight s3 = h \<and> sim_getTransparentColor s3 = tc \<and> sim_isAlphaEnabled s3 = ae \<and>
     sim_loadNextImage b' s3 = Some (True, b'', s4) \<and>
     buf_colorFrame b'' = take n (buf_colorFrame b) @ drop n (buf_colorFrame b') \<and>
     buf_colorFramePalette b'' = take 768 (buf_colorFramePalette b) @ drop 768 (buf_colorFramePalette b') \<and>
     buf_alphaFramePalette b'' = Some (if ae then take 256 ap @ drop 256 ap' else ap') \<and>
     buf_alphaFrame b'' = Some (if ae then take n af @ drop n af' else af')"
proof -
  define fh where "fh = fh_bytes (ascii_bytes ''SIMG'') 1 (word_of_int w) (word_of_int h) (word_of_int tc) ae"
  have tid: "length (ascii_bytes ''SIMG'') = 4" by (simp add: ascii_bytes_def)
  have np: "sim_pixels fh = n"
    using dims unat_u32_mult_of_int [of w h] by (simp add: fh_def tid sim_pixels_def n_def)
  have lf: "length fh = 18" "fh_version fh = 1" "fh_typeId fh = ascii_bytes ''SIMG''"
    "fh_alphaEnabled fh = ae" "fh_width fh = word_of_int w" "fh_height fh = word_of_int h"
    "fh_transparentColor fh = word_of_int tc"
    using tid by (simp_all add: fh_def)
  define s1 where "s1 = updateProgress 0 ((resetBasicData s)\<lparr>fileHeader := fh\<rparr>)"
  have bw: "beginWrite sim_consts w h tc ae nf s = (True, s1)"
    using beginWrite_header [OF ok, of sim_consts] tid by (simp add: s1_def fh_def sim_consts_def)
  define body where "body = take 768 (buf_colorFramePalette b) @ (if ae then take 256 ap else []) @
        take n (buf_colorFrame b) @ (if ae then take n af else [])"
  define s2 where "s2 = updateProgress 100 ((updateProgress 60 (updateProgress 30 s1))
                          \<lparr>disk := (disk s1)(currentFileName s1 \<mapsto> fh @ body)\<rparr>)"
  have c1: "currentFileName s1 \<noteq> ''''" "fileHeader s1 = fh"
    using name by (simp_all add: s1_def resetBasicData_def resetError_def updateProgress_def)
  have wr: "sim_writeNextImage b s1 = Some (True, s2)"
    using sim_writeNextImage_ok [of s1 b ap af] c1 wb np lf(4)
    by (simp add: s2_def body_def Let_def)
  have fhok: "fh_ok fh"
    using tid by (simp add: fh_ok_def sizeof_fileHeader_def fh_def)
  define s2' where "s2' = finishProcessing s2"
  have s2': "\<not> basicDataLoaded s2'" "currentFileName s2' = currentFileName s"
    "disk s2' (currentFileName s2') = Some (fh @ body)" "fh_ok (fileHeader s2')"
    "length (rgbTable s2') = 768" "length (alphaTable s2') = 256"
    using c1 fhok by (simp_all add: s2'_def s2_def s1_def finishProcessing_def resetBasicData_def
        resetError_def updateProgress_def)
  have lb: "768 + (if fh_alphaEnabled fh then 256 else 0) \<le> length body"
    using wb lf(4) by (simp add: body_def)
  define s3 where "s3 = s2'\<lparr>lastErrorMessage := '''', fileHeader := fh, rgbTable := take 768 body,
                   alphaTable := (if fh_alphaEnabled fh then take 256 (drop 768 body) else alphaTable s2'),
                   basicDataLoaded := True\<rparr>"
  have en: "sim_ensureBasicData (finishProcessing s2) = (True, s3)"
    using sim_ensureBasicData_file [of s2' fh body] s2' lf lb name by (simp add: s3_def s2'_def)
  have fields: "getWidth s3 = w" "getHeight s3 = h" "sim_getTransparentColor s3 = tc"
      "sim_isAlphaEnabled s3 = ae"
    using dims tcb lf by (simp_all add: s3_def getWidth_def getHeight_def sim_getTransparentColor_def
        sim_isAlphaEnabled_def sint_u32_of_int sint_sbintrunc' signed_take_bit_int_eq_self)
  have ld: "sim_loadNextImage b' s3 =
    (let fh = fileHeader s3; n = sim_pixels fh; A = (if fh_alphaEnabled fh then 256 else 0) in
     Some (True,
       b'\<lparr>buf_colorFramePalette := rgbTable s3 @ drop 768 (buf_colorFramePalette b'),
         buf_alphaFramePalette := Some (if fh_alphaEnabled fh then alphaTable s3 @ drop 256 ap' else ap'),
         buf_colorFrame := take n (drop (768 + A) body) @ drop n (buf_colorFrame b'),
         buf_alphaFrame := Some (if fh_alphaEnabled fh then take n (drop (768 + A + n) body) @ drop n af' else af')\<rparr>,
       updateProgress 100 (updateProgress 50 (updateProgress 0 s3))))"
    using s2' lf rb wb np
    by (intro sim_loadNextImage_file) (auto simp: s3_def body_def)
  show ?thesis
    using bw wr en fields ld lf np wb
    by (cases ae) (auto simp: s3_def body_def Let_def)
qed

theorem sim_write_read_roundtrip_witness:
  "\<exists>s1 s2 s3 s4 b''. beginWrite sim_consts 2 1 0 False 1 ((shell_init Map.empty)\<lparr>currentFileName := ''a.sim''\<rparr>) = (True, s1) \<and>
     sim_writeNextImage example_bufs s1 = Some (True, s2) \<and>
     sim_ensureBasicData (finishProcessing s2) = (True, s3) \<and>
     getWidth s3 = 2 \<and> getHeight s3 = 1 \<and> sim_getTransparentColor s3 = 0 \<and> sim_isAlphaEnabled s3 = False \<and>
     sim_loadNextImage example_blank_bufs s3 = Some (True, b'', s4) \<and>
     buf_colorFrame b'' = take (nat (2 * 1)) (buf_colorFrame example_bufs) @ drop (nat (2 * 1)) (buf_colorFrame example_blank_bufs) \<and>
     buf_colorFramePalette b'' = take 768 (buf_colorFramePalette example_bufs) @ drop 768 (buf_colorFramePalette example_blank_bufs) \<and>
     buf_alphaFramePalette b'' = Some (if False then take 256 (replicate 256 0) @ drop 256 (replicate 256 0) else replicate 256 0) \<and>
     buf_alphaFrame b'' = Some (if False then take (nat (2 * 1)) [0, 0] @ drop (nat (2 * 1)) [0, 0] else [0, 0])"
  by (rule sim_write_read_roundtrip)
     (simp_all add: shell_init_def fh_ok_def sizeof_fileHeader_def example_bufs_def example_blank_bufs_def)



text \<open>C26: A SIM file shorter than 5 bytes: \<open>ensureBasicData\<close> fails with
  \<open>ERROR_FILE_READ_FAILED\<close> and leaves the bytes it got over the start of
  \<open>fileHeader\<close>.\<close>

theorem sim_ensureBasicData_short_file:
  assumes "\<not> basicDataLoaded s" and "currentFileName s \<noteq> ''''"
    and "disk s (currentFileName s) = Some file" and "length file < 5" and "fh_ok (fileHeader s)"
  shows "sim_ensureBasicData s =
           (False, s\<lparr>fileHeader := file @ drop (length file) (fileHeader s),
                     lastErrorMessage := ERROR_FILE_READ_FAILED\<rparr>)"
  using assms
  by (simp add: sim_ensureBasicData_def resetError_def fread_into_def load_bytes_def store_bytes_def
      fh_ok_def sizeof_fileHeader_def)

theorem sim_ensureBasicData_short_file_witness:
  "sim_ensureBasicData ((shell_init [''a.sim'' \<mapsto> [83, 73]])\<lparr>currentFileName := ''a.sim''\<rparr>) =
     (False, (shell_init [''a.sim'' \<mapsto> [83, 73]])\<lparr>currentFileName := ''a.sim'',
        fileHeader := [83, 73] @ replicate 16 0, lastErrorMessage := ERROR_FILE_READ_FAILED\<rparr>)"
  using sim_ensureBasicData_short_file [of "(shell_init [''a.sim'' \<mapsto> [83, 73]])\<lparr>currentFileName := ''a.sim''\<rparr>" "[83, 73]"]
  by (simp add: shell_init_def fh_ok_def sizeof_fileHeader_def)

text \<open>C27: A SIM file whose first 4 bytes are not \<open>SIMG\<close> or whose version byte is not 1:
  \<open>ensureBasicData\<close> returns false without an error message (so that probing another
  format reports nothing), having overwritten the type and version of \<open>fileHeader\<close>.\<close>

theorem sim_ensureBasicData_wrong_type:
  assumes "\<not> basicDataLoaded s" and "currentFileName s \<noteq> ''''"
    and "disk s (currentFileName s) = Some file" and "5 \<le> length file" and "fh_ok (fileHeader s)"
    and "file ! 4 \<noteq> 1 \<or> take 4 file \<noteq> ascii_bytes ''SIMG''"
  shows "sim_ensureBasicData s =
           (False, s\<lparr>lastErrorMessage := '''', fileHeader := take 5 file @ drop 5 (fileHeader s)\<rparr>)"
  using assms
  by (auto simp: sim_ensureBasicData_def resetError_def fread_into_def load_bytes_def store_bytes_def
      fh_ok_def sizeof_fileHeader_def fh_version_def fh_typeId_def sim_consts_def nth_append min_def)

theorem sim_ensureBasicData_wrong_type_witness:
  "sim_ensureBasicData ((shell_init [''a.sim'' \<mapsto> [73, 50, 53, 54, 0, 4, 0]])\<lparr>currentFileName := ''a.sim''\<rparr>) =
     (False, (shell_init [''a.sim'' \<mapsto> [73, 50, 53, 54, 0, 4, 0]])\<lparr>currentFileName := ''a.sim'',
        fileHeader := [73, 50, 53, 54, 0] @ replicate 13 0\<rparr>)"
  using sim_ensureBasicData_wrong_type [of "(shell_init [''a.sim'' \<mapsto> [73, 50, 53, 54, 0, 4, 0]])\<lparr>currentFileName := ''a.sim''\<rparr>"
      "[73, 50, 53, 54, 0, 4, 0]"]
  by (simp add: shell_init_def fh_ok_def sizeof_fileHeader_def)

end
