(* ===== verification/Plugin_Interface.thy ===== *)
theory Plugin_Interface
  imports I256_Plugin Sim_Plugin
begin

text \<open>
  The plugin interface of \<open>i256/pluginInterface.h\<close>: the 23 functions a plugin exports,
  as a datatype of calls with their arguments, and a datatype of the values they return
  (\<open>void\<close>, \<open>bool\<close>, \<open>int\<close>, a string pointer that may be \<open>NULL\<close>, the palette pointer,
  the results \<open>initialize\<close> stores through its pointers, and the buffers
  \<open>loadNextImage\<close> fills). Each plugin is a step function from a call and its globals to
  the returned value and the new globals, \<open>None\<close> when the call has undefined behaviour;
  \<open>run\<close> executes a sequence of calls as the host makes them, one at a time on the single
  thread the interface assumes, and stops at the first undefined behaviour. The theory
  proves the invariants every call keeps (\<open>i256_inv\<close>, \<open>sim_inv\<close>), hence every state a
  host call sequence reaches satisfies them, and the behaviour of whole host sequences:
  reading a saved I256 file, the crash on a file with a negative dimension, and how each
  plugin reports a missing file.
\<close>

datatype plugin_call =
    Op_initialize
  | Op_setProgressCallback bool
  | Op_getErrorMessage
  | Op_getFileTypeId
  | Op_isReadSupported
  | Op_isWriteSupported
  | Op_isWriteTrueColorSupported
  | Op_getFileBoxDescription
  | Op_getFileExtension
  | Op_setFilename string
  | Op_canHandle
  | Op_loadBasicData
  | Op_getWidth
  | Op_getHeight
  | Op_getImageCount
  | Op_canExtractPalette
  | Op_getRgbPalette
  | Op_getTransparentColor
  | Op_isAlphaEnabled
  | Op_loadNextImage frame_bufs
  | Op_beginWrite int int int bool int
  | Op_writeNextImage frame_bufs
  | Op_finishProcessing

datatype plugin_ret =
    R_void
  | R_bool bool
  | R_int int
  | R_str "string option"
  | R_bytes "byte list option"
  | R_init bool u16 bool
  | R_frame bool frame_bufs

fun run :: "(plugin_call \<Rightarrow> 's \<Rightarrow> (plugin_ret \<times> 's) option) \<Rightarrow> plugin_call list \<Rightarrow> 's \<Rightarrow>
            (plugin_ret list \<times> 's) option" where
  "run step [] s = Some ([], s)"
| "run step (c # cs) s =
     (case step c s of
        None \<Rightarrow> None
      | Some (r, s') \<Rightarrow> map_option (\<lambda>(rs, s''). (r # rs, s'')) (run step cs s'))"

subsection \<open>The entry points shared by both plugins\<close>

text \<open>The calls whose bodies are the same in both plugins, over any extension of the
  shared globals; \<open>None\<close> for the calls each plugin implements itself.\<close>

fun shell_call :: "plugin_consts \<Rightarrow> plugin_call \<Rightarrow> 'a shell_scheme \<Rightarrow> (plugin_ret \<times> 'a shell_scheme) option option" where
  "shell_call k Op_initialize s = (let ((r, v, a), s') = initialize s in Some (Some (R_init r v a, s')))"
| "shell_call k (Op_setProgressCallback cb) s = Some (Some (R_void, setProgressCallback cb s))"
| "shell_call k Op_getErrorMessage s = Some (Some (R_str (getErrorMessage s), s))"
| "shell_call k Op_getFileTypeId s = (let (r, s') = getFileTypeId k s in Some (Some (R_str (Some r), s')))"
| "shell_call k Op_isReadSupported s = (let (r, s') = isReadSupported s in Some (Some (R_bool r, s')))"
| "shell_call k Op_isWriteSupported s = (let (r, s') = isWriteSupported s in Some (Some (R_bool r, s')))"
| "shell_call k Op_isWriteTrueColorSupported s =
     (let (r, s') = isWriteTrueColorSupported s in Some (Some (R_bool r, s')))"
| "shell_call k Op_getFileBoxDescription s =
     (let (r, s') = getFileBoxDescription k s in Some (Some (R_str (Some r), s')))"
| "shell_call k Op_getFileExtension s = (let (r, s') = getFileExtension k s in Some (Some (R_str (Some r), s')))"
| "shell_call k (Op_setFilename f) s = Some (map_option (\<lambda>s'. (R_void, s')) (setFilename f s))"
| "shell_call k Op_getWidth s = Some (Some (R_int (getWidth s), s))"
| "shell_call k Op_getHeight s = Some (Some (R_int (getHeight s), s))"
| "shell_call k Op_getImageCount s = (let (r, s') = getImageCount s in Some (Some (R_int r, s')))"
| "shell_call k Op_canExtractPalette s = (let (r, s') = canExtractPalette s in Some (Some (R_bool r, s')))"
| "shell_call k Op_getRgbPalette s = Some (Some (R_bytes (getRgbPalette s), s))"
| "shell_call k (Op_beginWrite w h tc ae nf) s =
     (let (r, s') = beginWrite k w h tc ae nf s in Some (Some (R_bool r, s')))"
| "shell_call k Op_finishProcessing s = Some (Some (R_void, finishProcessing s))"
| "shell_call k c s = None"

subsection \<open>The two plugins\<close>

fun i256_own :: "codec \<Rightarrow> plugin_call \<Rightarrow> i256_state \<Rightarrow> (plugin_ret \<times> i256_state) option" where
  "i256_own cd Op_canHandle s = map_option (\<lambda>(r, s'). (R_bool r, s')) (i256_canHandle cd s)"
| "i256_own cd Op_loadBasicData s = map_option (\<lambda>(r, s'). (R_bool r, s')) (i256_loadBasicData cd s)"
| "i256_own cd Op_getTransparentColor s = Some (R_int (i256_getTransparentColor s), s)"
| "i256_own cd Op_isAlphaEnabled s = Some (R_bool (i256_isAlphaEnabled s), s)"
| "i256_own cd (Op_loadNextImage b) s =
     map_option (\<lambda>(r, cf, cfp, s'). (R_frame r (b\<lparr>buf_colorFrame := cf, buf_colorFramePalette := cfp\<rparr>), s'))
       (i256_loadNextImage (buf_colorFrame b) (buf_colorFramePalette b) s)"
| "i256_own cd (Op_writeNextImage b) s =
     map_option (\<lambda>(r, s'). (R_bool r, s')) (i256_writeNextImage cd (buf_colorFrame b) (buf_colorFramePalette b) s)"
| "i256_own cd c s = None"

definition i256_call :: "codec \<Rightarrow> plugin_call \<Rightarrow> i256_state \<Rightarrow> (plugin_ret \<times> i256_state) option" where
  "i256_call cd c s = (case shell_call i256_consts c s of Some r \<Rightarrow> r | None \<Rightarrow> i256_own cd c s)"

fun sim_own :: "plugin_call \<Rightarrow> sim_state \<Rightarrow> (plugin_ret \<times> sim_state) option" where
  "sim_own Op_canHandle s = (let (r, s') = sim_ensureBasicData s in Some (R_bool r, s'))"
| "sim_own Op_loadBasicData s = (let (r, s') = sim_ensureBasicData s in Some (R_bool r, s'))"
| "sim_own Op_getTransparentColor s = Some (R_int (sim_getTransparentColor s), s)"
| "sim_own Op_isAlphaEnabled s = Some (R_bool (sim_isAlphaEnabled s), s)"
| "sim_own (Op_loadNextImage b) s = map_option (\<lambda>(r, b', s'). (R_frame r b', s')) (sim_loadNextImage b s)"
| "sim_own (Op_writeNextImage b) s = map_option (\<lambda>(r, s'). (R_bool r, s')) (sim_writeNextImage b s)"
| "sim_own c s = None"

definition sim_call :: "plugin_call \<Rightarrow> sim_state \<Rightarrow> (plugin_ret \<times> sim_state) option" where
  "sim_call c s = (case shell_call sim_consts c s of Some r \<Rightarrow> r | None \<Rightarrow> sim_own c s)"

subsection \<open>Invariants\<close>

text \<open>What every entry point keeps true of the globals: the tables and the header keep their
  sizes; for the I256 plugin, a loaded flag comes with a container.\<close>

definition shell_tables_ok :: "'a shell_scheme \<Rightarrow> bool" where
  "shell_tables_ok s \<longleftrightarrow> length (rgbTable s) = 768 \<and> length (alphaTable s) = 256 \<and> fh_ok (fileHeader s)"

definition i256_inv :: "i256_state \<Rightarrow> bool" where
  "i256_inv s \<longleftrightarrow> shell_tables_ok s \<and> (basicDataLoaded s \<longrightarrow> CurrentFile s \<noteq> None)"

definition sim_inv :: "sim_state \<Rightarrow> bool" where
  "sim_inv s \<longleftrightarrow> shell_tables_ok s"

text \<open>Buffers a host allocates for a 4 by 2 image without alpha.\<close>

definition example_read_bufs :: frame_bufs where
  "example_read_bufs = \<lparr>buf_colorFrame = replicate 8 0, buf_colorFramePalette = replicate 768 0,
     buf_alphaFrame = None, buf_alphaFramePalette = None\<rparr>"


text \<open>A container of width -1 and height 1 with one (empty) frame.\<close>

definition example_neg :: I256File where
  "example_neg = (I256File_blank (- 1) 1 1)\<lparr>m_pPixelMaps := [[]]\<rparr>"


subsection \<open>Every call keeps the invariants\<close>

lemmas shell_entry_defs = initialize_def resetError_def setProgressCallback_def getFileTypeId_def
  isReadSupported_def isWriteSupported_def isWriteTrueColorSupported_def getFileBoxDescription_def
  getFileExtension_def setFilename_def resetBasicData_def getImageCount_def canExtractPalette_def
  beginWrite_def updateProgress_def finishProcessing_def

lemma shell_call_more:
  "shell_call k c s = Some (Some (r, s')) \<Longrightarrow> shell.more s' = shell.more s"
  by (cases c) (auto simp: shell_entry_defs Let_def split: if_splits)

lemma shell_call_preserves:
  assumes "shell_call k c s = Some (Some (r, s'))" and "shell_tables_ok s"
  shows "shell_tables_ok s' \<and> shell.more s' = shell.more s \<and> (basicDataLoaded s' \<longrightarrow> basicDataLoaded s)"
  using assms shell_call_more [OF assms(1)]
  by (cases c) (auto simp: shell_tables_ok_def shell_entry_defs Let_def split: if_splits)

lemma i256_ensureBasicData_inv:
  "i256_ensureBasicData cd s = Some (b, s') \<Longrightarrow> i256_inv s \<Longrightarrow> i256_inv s'"
  by (auto simp: i256_ensureBasicData_def i256_inv_def shell_tables_ok_def resetError_def Let_def
      split: if_splits Option.bind_splits prod.splits dest!: palette_to_tables_length)

lemma CurrentFile_more:
  "shell.more s' = shell.more (s :: i256_state) \<Longrightarrow> CurrentFile s' = CurrentFile s"
  by (cases s, cases s') simp

lemma i256_own_inv:
  assumes "i256_own cd c s = Some (r, s')" and "i256_inv s"
  shows "i256_inv s'"
  using assms
proof (cases c)
  case Op_canHandle
  then show ?thesis
    using assms i256_ensureBasicData_inv by (auto simp: i256_canHandle_def)
next
  case Op_loadBasicData
  then show ?thesis
    using assms i256_ensureBasicData_inv by (auto simp: i256_loadBasicData_def)
next
  case (Op_loadNextImage b)
  then show ?thesis using assms
    by (auto simp: i256_loadNextImage_def i256_inv_def shell_tables_ok_def updateProgress_def Let_def
        split: if_splits Option.bind_splits)
next
  case (Op_writeNextImage b)
  then show ?thesis using assms
    by (auto simp: i256_writeNextImage_def i256_inv_def shell_tables_ok_def updateProgress_def Let_def
        split: if_splits Option.bind_splits)
qed auto

lemma i256_call_inv:
  assumes "i256_call cd c s = Some (r, s')" and "i256_inv s"
  shows "i256_inv s'"
proof (cases "shell_call i256_consts c s")
  case None
  then show ?thesis using assms i256_own_inv by (simp add: i256_call_def)
next
  case (Some x)
  then have "shell_call i256_consts c s = Some (Some (r, s'))"
    using assms(1) by (simp add: i256_call_def)
  then show ?thesis
    using shell_call_preserves [of i256_consts c s r s'] assms(2) CurrentFile_more [of s' s]
    by (auto simp: i256_inv_def)
qed
lemma sim_ensureBasicData_inv:
  assumes "sim_ensureBasicData s = (b, s')" and "sim_inv s"
  shows "sim_inv s'"
proof -
  have l: "length (fileHeader s) = 18" "length (rgbTable s) = 768" "length (alphaTable s) = 256"
    using assms(2) by (simp_all add: sim_inv_def shell_tables_ok_def fh_ok_def sizeof_fileHeader_def)
  show ?thesis
    using assms(1) l
    by (auto simp: sim_ensureBasicData_def sim_inv_def shell_tables_ok_def resetError_def Let_def
        fh_ok_def sizeof_fileHeader_def fread_into_def split: if_splits option.splits prod.splits)
qed

lemma sim_own_inv:
  assumes "sim_own c s = Some (r, s')" and "sim_inv s"
  shows "sim_inv s'"
  using assms
proof (cases c)
  case Op_canHandle
  then show ?thesis using assms sim_ensureBasicData_inv by (auto split: prod.splits)
next
  case Op_loadBasicData
  then show ?thesis using assms sim_ensureBasicData_inv by (auto split: prod.splits)
next
  case (Op_loadNextImage b)
  then show ?thesis using assms
    by (auto simp: sim_loadNextImage_def sim_inv_def shell_tables_ok_def updateProgress_def Let_def
        split: if_splits option.splits Option.bind_splits prod.splits)
next
  case (Op_writeNextImage b)
  then show ?thesis using assms
    by (auto simp: sim_writeNextImage_def sim_inv_def shell_tables_ok_def updateProgress_def Let_def
        split: if_splits option.splits Option.bind_splits)
qed auto

lemma sim_call_inv:
  assumes "sim_call c s = Some (r, s')" and "sim_inv s"
  shows "sim_inv s'"
proof (cases "shell_call sim_consts c s")
  case None
  then show ?thesis using assms sim_own_inv by (simp add: sim_call_def)
next
  case (Some x)
  then have "shell_call sim_consts c s = Some (Some (r, s'))"
    using assms(1) by (simp add: sim_call_def)
  then show ?thesis
    using shell_call_preserves [of sim_consts c s r s'] assms(2) by (simp add: sim_inv_def)
qed

lemma run_invariant:
  assumes step: "\<And>c s r s'. P s \<Longrightarrow> step c s = Some (r, s') \<Longrightarrow> P s'"
  shows "P s \<Longrightarrow> run step cs s = Some (rs, s') \<Longrightarrow> P s'"
proof (induction cs arbitrary: s rs)
  case Nil
  then show ?case by simp
next
  case (Cons c cs)
  then show ?case
    by (auto split: option.splits dest: step)
qed

lemma run_append:
  "run step (xs @ ys) s =
     (case run step xs s of None \<Rightarrow> None
      | Some (rs, s') \<Rightarrow> map_option (\<lambda>(rs', s''). (rs @ rs', s'')) (run step ys s'))"
  by (induction xs arbitrary: s) (auto simp: option.map_comp option.map_ident o_def split_def split: option.splits)

lemma i256_inv_init: "i256_inv (i256_init d)"
  by (simp add: i256_inv_def shell_tables_ok_def i256_init_def fh_ok_def sizeof_fileHeader_def)

lemma sim_inv_init: "sim_inv (shell_init d)"
  by (simp add: sim_inv_def shell_tables_ok_def shell_init_def fh_ok_def sizeof_fileHeader_def)


subsection \<open>Properties of host call sequences\<close>

text \<open>C5: The host's read sequence on the I256 plugin: after \<open>initialize\<close> and
  \<open>setFilename\<close> naming a file saved from a well-formed container of 1 to 256 colours with
  at least one frame, \<open>canHandle\<close> and \<open>loadBasicData\<close> return true, \<open>getWidth\<close> and
  \<open>getHeight\<close> the container's dimensions, \<open>getRgbPalette\<close> the table of its colours'
  \<open>r, g, b\<close> bytes (zero after them), and \<open>loadNextImage\<close> returns true with the first
  frame and that table in the caller's buffers.\<close>

theorem i256_host_read:
  fixes c :: I256File
  defines "pal \<equiv> store_bytes (replicate 768 0) 0 (concat (map color_rgb (pColors (m_pal c))))"
  assumes wf: "I256File_wf c" and ok: "codec_ok cd" and fr: "m_pPixelMaps c \<noteq> []"
    and nfr: "length (m_pPixelMaps c) < 65536" and size: "length (I256File_Save cd c) < 2 ^ 32"
    and ncol: "m_numColors c \<le> 256"
    and sv: "d name = Some (I256File_Save cd c)" and name: "name \<noteq> ''''" "length name < 2048"
    and bufs: "frame_size c \<le> length (buf_colorFrame b)" "768 \<le> length (buf_colorFramePalette b)"
  shows "\<exists>s'. run (i256_call cd)
      [Op_initialize, Op_setFilename name, Op_canHandle, Op_loadBasicData, Op_getWidth, Op_getHeight,
       Op_getRgbPalette, Op_loadNextImage b] (i256_init d) =
    Some ([R_init True 1 False, R_void, R_bool True, R_bool True, R_int (m_widthPixels c),
           R_int (m_heightPixels c), R_bytes (Some pal),
           R_frame True (b\<lparr>buf_colorFrame := hd (m_pPixelMaps c) @ drop (frame_size c) (buf_colorFrame b),
                           buf_colorFramePalette := pal @ drop 768 (buf_colorFramePalette b)\<rparr>)], s')"
proof -
  define s2 where "s2 = (resetBasicData (i256_init d))\<lparr>currentFileName := name\<rparr>"
  have init: "i256_call cd Op_initialize (i256_init d) = Some (R_init True 1 False, i256_init d)"
    by (simp add: i256_call_def initialize_def resetError_def i256_init_def PLUGIN_INTERFACE_VERSION_USED_def)
  have setf: "i256_call cd (Op_setFilename name) (i256_init d) = Some (R_void, s2)"
    using name by (simp add: i256_call_def setFilename_def s2_def resetError_def i256_init_def resetBasicData_def)
  have s2: "disk s2 (currentFileName s2) = Some (I256File_Save cd c)" "currentFileName s2 \<noteq> ''''"
    "\<not> basicDataLoaded s2" "length (rgbTable s2) = 768" "length (alphaTable s2) = 256"
    "rgbTable s2 = replicate 768 0"
    using sv name by (simp_all add: s2_def i256_init_def resetBasicData_def resetError_def)
  have "fh_ok (fileHeader (i256_init d))"
    by (simp add: i256_init_def fh_ok_def sizeof_fileHeader_def)
  then have fh2: "fh_ok (fileHeader s2)"
    by (simp add: s2_def)
  define s3 where "s3 = s2\<lparr>lastErrorMessage := '''', CurrentFile := Some c,
             CurrentAddr := Some (next_addr s2), live := insert (next_addr s2) (live s2), next_addr := Suc (next_addr s2),
             fileHeader := fh_set_height (word_of_int (m_heightPixels c))
                             (fh_set_width (word_of_int (m_widthPixels c)) (fileHeader s2)),
             rgbTable := store_bytes (rgbTable s2) 0 (concat (map color_rgb (pColors (m_pal c)))),
             alphaTable := store_bytes (alphaTable s2) 0 (map color_a (pColors (m_pal c))),
             basicDataLoaded := True\<rparr>"
  have en: "i256_ensureBasicData cd s2 = Some (True, s3)"
    unfolding s3_def by (rule i256_ensureBasicData_saved [OF wf_storable [OF wf] ok fr nfr size ncol s2(1-5)])
  have n256: "length (pColors (m_pal c)) \<le> 256"
    using storable_palette [OF wf_storable [OF wf]] ncol by simp
  have s3: "basicDataLoaded s3" "CurrentFile s3 = Some c" "rgbTable s3 = pal" "length (rgbTable s3) = 768"
    "getWidth s3 = m_widthPixels c" "getHeight s3 = m_heightPixels c" "resetError s3 = s3"
    using s2 fh2 width_bounds_storable [OF wf_storable [OF wf]] n256
    by (simp_all add: s3_def pal_def getWidth_def getHeight_def resetError_def)
  have ld: "i256_loadNextImage (buf_colorFrame b) (buf_colorFramePalette b) s3 =
      Some (True, hd (GetPixelMaps c) @ drop (frame_size c) (buf_colorFrame b),
            rgbTable s3 @ drop 768 (buf_colorFramePalette b),
            updateProgress 100 (updateProgress 50 (updateProgress 0 s3)))"
    by (rule i256_loadNextImage_loaded [OF s3(1,2) wf fr s3(4) bufs])
  show ?thesis
    using init setf en s3 ld
    by (simp add: i256_call_def i256_canHandle_def i256_loadBasicData_def i256_ensureBasicData_def
        getRgbPalette_def GetPixelMaps_def)
qed
theorem i256_host_read_witness:
  "\<exists>s'. run (i256_call store_codec)
      [Op_initialize, Op_setFilename ''a.256'', Op_canHandle, Op_loadBasicData, Op_getWidth, Op_getHeight,
       Op_getRgbPalette, Op_loadNextImage example_read_bufs] (i256_init [''a.256'' \<mapsto> I256File_Save store_codec example_file]) =
    Some ([R_init True 1 False, R_void, R_bool True, R_bool True, R_int (m_widthPixels example_file),
           R_int (m_heightPixels example_file),
           R_bytes (Some (store_bytes (replicate 768 0) 0 (concat (map color_rgb (pColors (m_pal example_file)))))),
           R_frame True (example_read_bufs\<lparr>buf_colorFrame := hd (m_pPixelMaps example_file) @
                drop (frame_size example_file) (buf_colorFrame example_read_bufs),
              buf_colorFramePalette := store_bytes (replicate 768 0) 0 (concat (map color_rgb (pColors (m_pal example_file))))
                @ drop 768 (buf_colorFramePalette example_read_bufs)\<rparr>)], s')"
  using example_file_saved
  by (intro i256_host_read [OF _ store_codec_ok])
     (simp_all add: example_file_def example_palette_def I256File_blank_def frame_size_def example_read_bufs_def)

text \<open>C9: In every state the I256 plugin reaches from its start state by any sequence of
  host calls that has defined behaviour, the tables keep their 768 and 256 bytes, the
  header its 18, and \<open>basicDataLoaded\<close> implies a non-null \<open>CurrentFile\<close>: the null
  dereference in \<open>loadNextImage\<close> cannot happen.\<close>

theorem i256_run_invariant:
  assumes "run (i256_call cd) cs (i256_init d) = Some (rs, s)"
  shows "i256_inv s"
proof -
  have step: "\<And>c s r s'. i256_inv s \<Longrightarrow> i256_call cd c s = Some (r, s') \<Longrightarrow> i256_inv s'"
    using i256_call_inv by blast
  show ?thesis
    by (rule run_invariant [where P = i256_inv and step = "i256_call cd", OF step i256_inv_init assms])
qed

theorem i256_run_invariant_witness:
  "\<exists>rs s. run (i256_call store_codec) [Op_initialize, Op_setFilename ''a.256'', Op_loadBasicData, Op_getWidth]
      (i256_init Map.empty) = Some (rs, s) \<and> i256_inv s"
proof -
  obtain rs s where r: "run (i256_call store_codec) [Op_initialize, Op_setFilename ''a.256'', Op_loadBasicData, Op_getWidth]
      (i256_init Map.empty) = Some (rs, s)"
    by (simp add: i256_call_def i256_init_def initialize_def resetError_def setFilename_def resetBasicData_def
        i256_loadBasicData_def i256_ensureBasicData_def I256File_open_def GetFrameCount_def I256File_blank_def)
  show ?thesis
    using r i256_run_invariant [OF r] by blast
qed
text \<open>C13: In every state the SIM plugin reaches from its start state by any sequence of
  host calls that has defined behaviour, the tables keep their 768 and 256 bytes and the
  header its 18: no \<open>fread\<close> into a global runs past it, whatever the files hold.\<close>

theorem sim_run_invariant:
  assumes "run sim_call cs (shell_init d) = Some (rs, s)"
  shows "sim_inv s"
proof -
  have step: "\<And>c s r s'. sim_inv s \<Longrightarrow> sim_call c s = Some (r, s') \<Longrightarrow> sim_inv s'"
    using sim_call_inv by blast
  show ?thesis
    by (rule run_invariant [where P = sim_inv and step = sim_call, OF step sim_inv_init assms])
qed

theorem sim_run_invariant_witness:
  "\<exists>rs s. run sim_call [Op_initialize, Op_setFilename ''a.sim'', Op_loadBasicData, Op_getWidth]
      (shell_init Map.empty) = Some (rs, s) \<and> sim_inv s"
proof -
  obtain rs s where r: "run sim_call [Op_initialize, Op_setFilename ''a.sim'', Op_loadBasicData, Op_getWidth]
      (shell_init Map.empty) = Some (rs, s)"
    by (simp add: sim_call_def shell_init_def initialize_def resetError_def setFilename_def resetBasicData_def
        sim_ensureBasicData_def Let_def fread_into_def split: prod.splits)
  show ?thesis
    using r sim_run_invariant [OF r] by blast
qed


text \<open>C11: A file with a negative dimension crashes the I256 plugin: \<open>IsValid\<close> only rejects
  a zero width or height, so a saved container of width -1 (or any dimensions of opposite
  signs) loads and \<open>loadBasicData\<close> succeeds, and then \<open>loadNextImage\<close> passes the
  negative \<open>Width*Height\<close> to \<open>memcpy\<close> as a huge \<open>size_t\<close>.\<close>

theorem i256_negative_size_crash:
  assumes st: "I256File_storable c" and ok: "codec_ok cd" and fr: "m_pPixelMaps c \<noteq> []"
    and nfr: "length (m_pPixelMaps c) < 65536" and size: "length (I256File_Save cd c) < 2 ^ 32"
    and ncol: "m_numColors c \<le> 256" and neg: "m_widthPixels c * m_heightPixels c < 0"
    and sv: "d name = Some (I256File_Save cd c)" and name: "name \<noteq> ''''" "length name < 2048"
  shows "\<exists>s. run (i256_call cd) [Op_initialize, Op_setFilename name, Op_loadBasicData] (i256_init d) =
               Some ([R_init True 1 False, R_void, R_bool True], s) \<and>
             i256_call cd (Op_loadNextImage b) s = None"
proof -
  define s2 where "s2 = (resetBasicData (i256_init d))\<lparr>currentFileName := name\<rparr>"
  have init: "i256_call cd Op_initialize (i256_init d) = Some (R_init True 1 False, i256_init d)"
    by (simp add: i256_call_def initialize_def resetError_def i256_init_def PLUGIN_INTERFACE_VERSION_USED_def)
  have setf: "i256_call cd (Op_setFilename name) (i256_init d) = Some (R_void, s2)"
    using name by (simp add: i256_call_def setFilename_def s2_def resetError_def i256_init_def resetBasicData_def)
  have s2: "disk s2 (currentFileName s2) = Some (I256File_Save cd c)" "currentFileName s2 \<noteq> ''''"
    "\<not> basicDataLoaded s2" "length (rgbTable s2) = 768" "length (alphaTable s2) = 256"
    using sv name by (simp_all add: s2_def i256_init_def resetBasicData_def resetError_def)
  obtain s3 where en: "i256_ensureBasicData cd s2 = Some (True, s3)" and s3: "basicDataLoaded s3"
      "CurrentFile s3 = Some c"
    using i256_ensureBasicData_saved [OF st ok fr nfr size ncol s2] by simp
  have ld: "i256_loadNextImage (buf_colorFrame b) (buf_colorFramePalette b) s3 = None"
    using s3 fr neg storable_product_i32 [OF st]
    by (simp add: i256_loadNextImage_def GetPixelMaps_def GetWidth_def GetHeight_def updateProgress_def)
  show ?thesis
    using init setf en ld by (simp add: i256_call_def i256_loadBasicData_def)
qed

theorem i256_negative_size_crash_witness:
  "\<exists>s. run (i256_call store_codec) [Op_initialize, Op_setFilename ''a.256'', Op_loadBasicData]
          (i256_init [''a.256'' \<mapsto> I256File_Save store_codec example_neg]) =
        Some ([R_init True 1 False, R_void, R_bool True], s) \<and>
      i256_call store_codec (Op_loadNextImage example_read_bufs) s = None"
  by (rule i256_negative_size_crash [OF _ store_codec_ok])
     (simp_all add: example_neg_def I256File_storable_def I256File_blank_def frame_size_def
       length_I256File_Save blob_bytes_def store_codec_def)

text \<open>C32: The SIM plugin reports a missing file: after \<open>initialize\<close> and \<open>setFilename\<close> with
  a name the file system does not hold, \<open>loadBasicData\<close> returns false and
  \<open>getErrorMessage\<close> returns \<open>ERROR_FILE_OPEN_FAILED\<close>.\<close>

theorem sim_missing_file_error:
  assumes "d name = None" and "name \<noteq> ''''" and "length name < 2048"
  shows "\<exists>s. run sim_call [Op_initialize, Op_setFilename name, Op_loadBasicData, Op_getErrorMessage]
      (shell_init d) = Some ([R_init True 1 False, R_void, R_bool False, R_str (Some ERROR_FILE_OPEN_FAILED)], s)"
  using assms
  by (simp add: sim_call_def shell_init_def initialize_def resetError_def setFilename_def resetBasicData_def
      sim_ensureBasicData_def getErrorMessage_def isError_def ERROR_FILE_OPEN_FAILED_def
      PLUGIN_INTERFACE_VERSION_USED_def)

theorem sim_missing_file_error_witness:
  "\<exists>s. run sim_call [Op_initialize, Op_setFilename ''a.sim'', Op_loadBasicData, Op_getErrorMessage]
      (shell_init Map.empty) = Some ([R_init True 1 False, R_void, R_bool False, R_str (Some ERROR_FILE_OPEN_FAILED)], s)"
  by (rule sim_missing_file_error) simp_all

text \<open>C33: The I256 plugin does not report a missing or unreadable file: the same sequence
  returns false from \<open>loadBasicData\<close> and no message from \<open>getErrorMessage\<close> (the
  error is suppressed on purpose, lines 120-122, so that probing other formats is quiet).\<close>

theorem i256_missing_file_silent:
  assumes "d name = None" and "name \<noteq> ''''" and "length name < 2048"
  shows "\<exists>s. run (i256_call cd) [Op_initialize, Op_setFilename name, Op_loadBasicData, Op_getErrorMessage]
      (i256_init d) = Some ([R_init True 1 False, R_void, R_bool False, R_str None], s)"
  using assms
  by (simp add: i256_call_def i256_init_def initialize_def resetError_def setFilename_def resetBasicData_def
      i256_loadBasicData_def i256_ensureBasicData_def I256File_open_def GetFrameCount_def I256File_blank_def
      getErrorMessage_def isError_def PLUGIN_INTERFACE_VERSION_USED_def)

theorem i256_missing_file_silent_witness:
  "\<exists>s. run (i256_call store_codec) [Op_initialize, Op_setFilename ''a.256'', Op_loadBasicData, Op_getErrorMessage]
      (i256_init Map.empty) = Some ([R_init True 1 False, R_void, R_bool False, R_str None], s)"
  by (rule i256_missing_file_silent) simp_all

end
