(* ===== verification/Sim_Format.thy ===== *)
theory Sim_Format
  imports Plugin_Interface
begin

text \<open>
  The SIM file format as an abstract value and the refinement of the SIM plugin's reader
  and writer against it. An image is its header fields, its 768-byte palette, its pixels
  and an optional alpha palette and plane; \<open>sim_encode\<close> lays it out the way
  \<open>simImageIo.cpp\<close>'s \<open>writeNextImage\<close> writes it (header, palette, alpha palette, pixels,
  alpha plane) and \<open>sim_decode\<close> is the format's specification of a well-formed file:
  an 18-byte header of type \<open>SIMG\<close>, version 1, followed by at least the bytes it
  announces. Decoding inverts encoding on images whose sizes agree with their header;
  \<open>loadBasicData\<close> and \<open>loadNextImage\<close> on any file that decodes return exactly the
  decoded image; \<open>beginWrite\<close> and \<open>writeNextImage\<close> store the encoding of the image the
  host's buffers describe, and that encoding decodes back to it.
\<close>

record sim_image =
  img_width :: u32
  img_height :: u32
  img_transparentColor :: i32
  img_palette :: "byte list"
  img_pixels :: "byte list"
  img_alpha :: "(byte list \<times> byte list) option"

definition sim_image_ok :: "sim_image \<Rightarrow> bool" where
  "sim_image_ok img \<longleftrightarrow>
     length (img_palette img) = 768 \<and> length (img_pixels img) = unat (img_width img * img_height img) \<and>
     (case img_alpha img of None \<Rightarrow> True
      | Some (ap, apx) \<Rightarrow> length ap = 256 \<and> length apx = unat (img_width img * img_height img))"

definition sim_encode :: "sim_image \<Rightarrow> byte list" where
  "sim_encode img =
     fh_bytes (ascii_bytes ''SIMG'') 1 (img_width img) (img_height img) (img_transparentColor img)
       (img_alpha img \<noteq> None)
     @ img_palette img @ (case img_alpha img of None \<Rightarrow> [] | Some (ap, apx) \<Rightarrow> ap)
     @ img_pixels img @ (case img_alpha img of None \<Rightarrow> [] | Some (ap, apx) \<Rightarrow> apx)"

definition sim_decode :: "byte list \<Rightarrow> sim_image option" where
  "sim_decode f =
     (let fh = take 18 f; n = sim_pixels fh; ae = fh_alphaEnabled fh; A = (if ae then 256 else 0);
          body = drop 18 f in
      if length f < 18 \<or> fh_typeId fh \<noteq> ascii_bytes ''SIMG'' \<or> fh_version fh \<noteq> 1
         \<or> length body < 768 + A + n + (if ae then n else 0) then None
      else Some \<lparr>img_width = fh_width fh, img_height = fh_height fh,
                 img_transparentColor = fh_transparentColor fh, img_palette = take 768 body,
                 img_pixels = take n (drop (768 + A) body),
                 img_alpha = (if ae then Some (take 256 (drop 768 body), take n (drop (768 + A + n) body))
                              else None)\<rparr>)"

text \<open>The image the host's buffers describe after \<open>beginWrite(w, h, tc, ae)\<close>: the
  dimensions and transparent colour as the header stores them, the first 768 palette
  bytes, the first \<open>w * h\<close> (in 32 bits) pixels and, with alpha, the first 256 alpha
  palette bytes and \<open>w * h\<close> alpha bytes.\<close>

definition sim_host_image :: "int \<Rightarrow> int \<Rightarrow> int \<Rightarrow> bool \<Rightarrow> frame_bufs \<Rightarrow> byte list \<Rightarrow> byte list \<Rightarrow> sim_image" where
  "sim_host_image w h tc ae b ap af =
     (let n = unat (word_of_int w * word_of_int h :: u32) in
      \<lparr>img_width = word_of_int w, img_height = word_of_int h, img_transparentColor = word_of_int tc,
       img_palette = take 768 (buf_colorFramePalette b), img_pixels = take n (buf_colorFrame b),
       img_alpha = (if ae then Some (take 256 ap, take n af) else None)\<rparr>)"

definition example_sim_file :: "byte list" where
  "example_sim_file = fh_bytes (ascii_bytes ''SIMG'') 1 1 1 0 False @ replicate 768 5 @ [9]"

lemma sim_decode_encode:
  assumes "sim_image_ok img"
  shows "sim_decode (sim_encode img) = Some img"
proof -
  have tid: "length (ascii_bytes ''SIMG'') = 4" by (simp add: ascii_bytes_def)
  define fh where "fh = fh_bytes (ascii_bytes ''SIMG'') 1 (img_width img) (img_height img)
      (img_transparentColor img) (img_alpha img \<noteq> None)"
  have l: "length fh = 18" using tid by (simp add: fh_def)
  have f: "fh_typeId fh = ascii_bytes ''SIMG''" "fh_version fh = 1" "fh_width fh = img_width img"
      "fh_height fh = img_height img" "fh_transparentColor fh = img_transparentColor img"
      "fh_alphaEnabled fh = (img_alpha img \<noteq> None)"
    using tid by (simp_all add: fh_def)
  have n: "sim_pixels fh = unat (img_width img * img_height img)"
    using f by (simp add: sim_pixels_def)
  define body where "body = img_palette img @ (case img_alpha img of None \<Rightarrow> [] | Some (ap, apx) \<Rightarrow> ap)
     @ img_pixels img @ (case img_alpha img of None \<Rightarrow> [] | Some (ap, apx) \<Rightarrow> apx)"
  have enc: "sim_encode img = fh @ body"
    by (simp add: sim_encode_def fh_def body_def)
  have td: "take 18 (fh @ body) = fh" "drop 18 (fh @ body) = body"
    using l by simp_all
  show ?thesis
  proof (cases "img_alpha img")
    case None
    with assms have "img = \<lparr>img_width = img_width img, img_height = img_height img,
        img_transparentColor = img_transparentColor img, img_palette = take 768 body,
        img_pixels = take (sim_pixels fh) (drop 768 body), img_alpha = None\<rparr>"
      using n by (cases img) (simp add: body_def sim_image_ok_def)
    then show ?thesis
      using None assms l f n by (simp add: enc td sim_decode_def body_def sim_image_ok_def Let_def)
  next
    case (Some a)
    obtain ap apx where a: "a = (ap, apx)" by (cases a)
    with Some assms have "img = \<lparr>img_width = img_width img, img_height = img_height img,
        img_transparentColor = img_transparentColor img, img_palette = take 768 body,
        img_pixels = take (sim_pixels fh) (drop (768 + 256) body),
        img_alpha = Some (take 256 (drop 768 body), take (sim_pixels fh) (drop (768 + 256 + sim_pixels fh) body))\<rparr>"
      using n by (cases img) (simp add: body_def sim_image_ok_def)
    then show ?thesis
      using Some a assms l f n by (simp add: enc td sim_decode_def body_def sim_image_ok_def Let_def)
  qed
qed

text \<open>C3: Reader refinement: for every file that decodes to an image under the format
  specification, \<open>loadBasicData\<close> on a fresh state succeeds and \<open>getWidth\<close>,
  \<open>getHeight\<close>, \<open>getTransparentColor\<close>, \<open>isAlphaEnabled\<close> and \<open>getRgbPalette\<close> give
  that image's fields, and \<open>loadNextImage\<close> returns true and fills the host's buffers
  with exactly its palette, pixels and, when it has one, its alpha palette and plane,
  leaving the bytes past them unchanged.\<close>

theorem sim_reader_correct:
  assumes dec: "sim_decode f = Some img"
    and sv: "disk s (currentFileName s) = Some f" and name: "currentFileName s \<noteq> ''''"
    and fresh: "\<not> basicDataLoaded s" and inv: "sim_inv s"
    and bufs: "768 \<le> length (buf_colorFramePalette b)" "length (img_pixels img) \<le> length (buf_colorFrame b)"
      "buf_alphaFramePalette b = Some ap'" "256 \<le> length ap'" "buf_alphaFrame b = Some af'"
      "length (img_pixels img) \<le> length af'"
  shows "\<exists>s1 s2 b'. sim_ensureBasicData s = (True, s1) \<and>
     fh_width (fileHeader s1) = img_width img \<and> fh_height (fileHeader s1) = img_height img \<and>
     sim_getTransparentColor s1 = sint (img_transparentColor img) \<and>
     sim_isAlphaEnabled s1 = (img_alpha img \<noteq> None) \<and> getRgbPalette s1 = Some (img_palette img) \<and>
     sim_loadNextImage b s1 = Some (True, b', s2) \<and>
     buf_colorFrame b' = img_pixels img @ drop (length (img_pixels img)) (buf_colorFrame b) \<and>
     buf_colorFramePalette b' = img_palette img @ drop 768 (buf_colorFramePalette b) \<and>
     (case img_alpha img of
        None \<Rightarrow> buf_alphaFramePalette b' = Some ap' \<and> buf_alphaFrame b' = Some af'
      | Some (ap, apx) \<Rightarrow> buf_alphaFramePalette b' = Some (ap @ drop 256 ap') \<and>
                          buf_alphaFrame b' = Some (apx @ drop (length apx) af'))"
proof -
  define fh where "fh = take 18 f"
  define body where "body = drop 18 f"
  have f: "f = fh @ body" by (simp add: fh_def body_def)
  have d: "length f \<ge> 18" "fh_typeId fh = ascii_bytes ''SIMG''" "fh_version fh = 1"
      "768 + (if fh_alphaEnabled fh then 256 + 2 * sim_pixels fh else sim_pixels fh) \<le> length body"
    using dec by (auto simp: sim_decode_def fh_def body_def Let_def split: if_splits)
  have l: "length fh = 18" using d(1) by (simp add: fh_def)
  have img: "img = \<lparr>img_width = fh_width fh, img_height = fh_height fh,
                 img_transparentColor = fh_transparentColor fh, img_palette = take 768 body,
                 img_pixels = take (sim_pixels fh) (drop (768 + (if fh_alphaEnabled fh then 256 else 0)) body),
                 img_alpha = (if fh_alphaEnabled fh then Some (take 256 (drop 768 body),
                   take (sim_pixels fh) (drop (768 + 256 + sim_pixels fh) body)) else None)\<rparr>"
    using dec d by (auto simp: sim_decode_def fh_def body_def Let_def split: if_splits)
  have tabs: "fh_ok (fileHeader s)" "length (rgbTable s) = 768" "length (alphaTable s) = 256"
    using inv by (simp_all add: sim_inv_def shell_tables_ok_def)
  define s1 where "s1 = s\<lparr>lastErrorMessage := '''', fileHeader := fh, rgbTable := take 768 body,
                   alphaTable := (if fh_alphaEnabled fh then take 256 (drop 768 body) else alphaTable s),
                   basicDataLoaded := True\<rparr>"
  have en: "sim_ensureBasicData s = (True, s1)"
    unfolding s1_def using d l
    by (intro sim_ensureBasicData_file [OF fresh name]) (simp_all add: sv f tabs split: if_splits)
  have np: "length (img_pixels img) = sim_pixels fh"
    using d(4) by (subst img) (simp split: if_splits)
  have ld: "sim_loadNextImage b s1 =
    (let fh = fileHeader s1; n = sim_pixels fh; A = (if fh_alphaEnabled fh then 256 else 0) in
     Some (True,
       b\<lparr>buf_colorFramePalette := rgbTable s1 @ drop 768 (buf_colorFramePalette b),
         buf_alphaFramePalette := Some (if fh_alphaEnabled fh then alphaTable s1 @ drop 256 ap' else ap'),
         buf_colorFrame := take n (drop (768 + A) body) @ drop n (buf_colorFrame b),
         buf_alphaFrame := Some (if fh_alphaEnabled fh then take n (drop (768 + A + n) body) @ drop n af' else af')\<rparr>,
       updateProgress 100 (updateProgress 50 (updateProgress 0 s1))))"
    using d l bufs np tabs sv
    by (intro sim_loadNextImage_file) (simp_all add: s1_def f split: if_splits)
  show ?thesis
    using en ld d l img
    by (cases "fh_alphaEnabled fh")
       (simp_all add: s1_def sim_getTransparentColor_def sim_isAlphaEnabled_def getRgbPalette_def Let_def)
qed

text \<open>C4: Writer refinement: \<open>beginWrite(w, h, tc, ae)\<close> followed by
  \<open>writeNextImage\<close> stores under the current file name exactly the encoding of the
  image the host's buffers describe, with the header's 32-bit dimensions, and that file
  decodes back to the image; for any dimensions, with buffers of the sizes the header
  announces.\<close>

theorem sim_writer_correct:
  assumes ok: "fh_ok (fileHeader s)" and name: "currentFileName s \<noteq> ''''"
    and wb: "768 \<le> length (buf_colorFramePalette b)"
      "unat (word_of_int w * word_of_int h :: u32) \<le> length (buf_colorFrame b)"
      "buf_alphaFramePalette b = Some ap" "256 \<le> length ap" "buf_alphaFrame b = Some af"
      "unat (word_of_int w * word_of_int h :: u32) \<le> length af"
  shows "\<exists>s1 s2. beginWrite sim_consts w h tc ae nf s = (True, s1) \<and>
     sim_writeNextImage b s1 = Some (True, s2) \<and>
     disk s2 (currentFileName s) = Some (sim_encode (sim_host_image w h tc ae b ap af)) \<and>
     sim_decode (sim_encode (sim_host_image w h tc ae b ap af)) = Some (sim_host_image w h tc ae b ap af)"
proof -
  define n where "n = unat (word_of_int w * word_of_int h :: u32)"
  define fh where "fh = fh_bytes (ascii_bytes ''SIMG'') 1 (word_of_int w) (word_of_int h) (word_of_int tc) ae"
  have tid: "length (ascii_bytes ''SIMG'') = 4" by (simp add: ascii_bytes_def)
  have np: "sim_pixels fh = n"
    using tid by (simp add: fh_def sim_pixels_def n_def)
  have ae: "fh_alphaEnabled fh = ae"
    using tid by (simp add: fh_def)
  define s1 where "s1 = updateProgress 0 ((resetBasicData s)\<lparr>fileHeader := fh\<rparr>)"
  have bw: "beginWrite sim_consts w h tc ae nf s = (True, s1)"
    using beginWrite_header [OF ok, of sim_consts] tid by (simp add: s1_def fh_def sim_consts_def)
  have c1: "currentFileName s1 = currentFileName s" "fileHeader s1 = fh"
    by (simp_all add: s1_def resetBasicData_def resetError_def updateProgress_def)
  have ok_img: "sim_image_ok (sim_host_image w h tc ae b ap af)"
    using wb by (simp add: sim_image_ok_def sim_host_image_def Let_def)
  have wr: "\<exists>s2. sim_writeNextImage b s1 = Some (True, s2) \<and>
      disk s2 (currentFileName s) = Some (sim_encode (sim_host_image w h tc ae b ap af))"
    using sim_writeNextImage_ok [of s1 b ap af] c1 name wb np ae
    by (cases ae) (simp_all add: sim_encode_def sim_host_image_def fh_def n_def Let_def updateProgress_def)
  show ?thesis
    using bw wr sim_decode_encode [OF ok_img] by blast
qed

theorem sim_reader_correct_witness:
  "\<exists>s1 s2 b'. sim_ensureBasicData ((shell_init [''a.sim'' \<mapsto> example_sim_file])\<lparr>currentFileName := ''a.sim''\<rparr>) = (True, s1) \<and>
     fh_width (fileHeader s1) = 1 \<and> fh_height (fileHeader s1) = 1 \<and>
     sim_getTransparentColor s1 = sint (0 :: i32) \<and>
     sim_isAlphaEnabled s1 = (None \<noteq> (None :: (byte list \<times> byte list) option)) \<and>
     getRgbPalette s1 = Some (replicate 768 5) \<and>
     sim_loadNextImage example_blank_bufs s1 = Some (True, b', s2) \<and>
     buf_colorFrame b' = [9] @ drop (length [9 :: byte]) (buf_colorFrame example_blank_bufs) \<and>
     buf_colorFramePalette b' = replicate 768 5 @ drop 768 (buf_colorFramePalette example_blank_bufs) \<and>
     (case None :: (byte list \<times> byte list) option of
        None \<Rightarrow> buf_alphaFramePalette b' = Some (replicate 256 0) \<and> buf_alphaFrame b' = Some [0, 0]
      | Some (ap, apx) \<Rightarrow> buf_alphaFramePalette b' = Some (ap @ drop 256 (replicate 256 0)) \<and>
                          buf_alphaFrame b' = Some (apx @ drop (length apx) [0, 0]))"
proof -
  have tid: "length (ascii_bytes ''SIMG'') = 4" by (simp add: ascii_bytes_def)
  have dec: "sim_decode example_sim_file = Some \<lparr>img_width = 1, img_height = 1, img_transparentColor = 0,
      img_palette = replicate 768 5, img_pixels = [9], img_alpha = None\<rparr>"
    using tid by (simp add: sim_decode_def example_sim_file_def sim_pixels_def Let_def)
  show ?thesis
    using sim_reader_correct [OF dec, of "(shell_init [''a.sim'' \<mapsto> example_sim_file])\<lparr>currentFileName := ''a.sim''\<rparr>"
        example_blank_bufs "replicate 256 0" "[0, 0]"]
    by (simp add: shell_init_def sim_inv_def shell_tables_ok_def fh_ok_def sizeof_fileHeader_def example_blank_bufs_def)
qed

theorem sim_writer_correct_witness:
  "\<exists>s1 s2. beginWrite sim_consts 2 1 0 True 1 ((shell_init Map.empty)\<lparr>currentFileName := ''a.sim''\<rparr>) = (True, s1) \<and>
     sim_writeNextImage example_bufs s1 = Some (True, s2) \<and>
     disk s2 (currentFileName ((shell_init Map.empty)\<lparr>currentFileName := ''a.sim''\<rparr>)) =
       Some (sim_encode (sim_host_image 2 1 0 True example_bufs (replicate 256 0) [0, 0])) \<and>
     sim_decode (sim_encode (sim_host_image 2 1 0 True example_bufs (replicate 256 0) [0, 0])) =
       Some (sim_host_image 2 1 0 True example_bufs (replicate 256 0) [0, 0])"
  by (rule sim_writer_correct)
     (simp_all add: shell_init_def fh_ok_def sizeof_fileHeader_def example_bufs_def)

text \<open>C31: The SIM reader is memory safe on every file: in every state the SIM plugin reaches
  through host calls with defined behaviour, \<open>loadNextImage\<close> with buffers of the sizes
  the loaded header announces (a 768-byte palette, \<open>width * height\<close> pixels, and 256 and
  \<open>width * height\<close> bytes for the alpha buffers it is given) has defined behaviour,
  whatever the file holds: short files only make \<open>fread\<close> return fewer bytes.\<close>

theorem sim_loadNextImage_reachable_safe:
  assumes run: "run sim_call cs (shell_init d) = Some (rs, s)"
    and bufs: "768 \<le> length (buf_colorFramePalette b)" "sim_pixels (fileHeader s) \<le> length (buf_colorFrame b)"
      "case buf_alphaFramePalette b of None \<Rightarrow> True | Some p \<Rightarrow> 256 \<le> length p"
      "case buf_alphaFrame b of None \<Rightarrow> True | Some p \<Rightarrow> sim_pixels (fileHeader s) \<le> length p"
  shows "\<exists>r. sim_loadNextImage b s = Some r"
proof -
  have "sim_inv s"
    by (rule run_invariant [where P = sim_inv and step = sim_call, OF sim_call_inv sim_inv_init run])
  then have tabs: "length (rgbTable s) = 768" "length (alphaTable s) = 256"
    by (simp_all add: sim_inv_def shell_tables_ok_def)
  show ?thesis
    using bufs tabs
    by (auto simp: sim_loadNextImage_def Let_def memcpy_def fread_buf_def updateProgress_def
        split: option.splits)
qed

theorem sim_loadNextImage_reachable_safe_witness:
  "\<exists>rs s. run sim_call [Op_initialize, Op_setFilename ''a.sim'', Op_loadBasicData]
       (shell_init [''a.sim'' \<mapsto> example_sim_file]) = Some (rs, s) \<and>
     768 \<le> length (buf_colorFramePalette example_blank_bufs) \<and>
     sim_pixels (fileHeader s) \<le> length (buf_colorFrame example_blank_bufs) \<and>
     (case buf_alphaFramePalette example_blank_bufs of None \<Rightarrow> True | Some p \<Rightarrow> 256 \<le> length p) \<and>
     (case buf_alphaFrame example_blank_bufs of None \<Rightarrow> True | Some p \<Rightarrow> sim_pixels (fileHeader s) \<le> length p) \<and>
     (\<exists>r. sim_loadNextImage example_blank_bufs s = Some r)"
proof -
  have tid: "length (ascii_bytes ''SIMG'') = 4" by (simp add: ascii_bytes_def)
  obtain rs s where r: "run sim_call [Op_initialize, Op_setFilename ''a.sim'', Op_loadBasicData]
       (shell_init [''a.sim'' \<mapsto> example_sim_file]) = Some (rs, s)" and p: "sim_pixels (fileHeader s) = 1"
  proof -
  define fh where "fh = fh_bytes (ascii_bytes ''SIMG'') 1 1 1 0 False"
  define s2 where "s2 = (resetBasicData (shell_init [''a.sim'' \<mapsto> example_sim_file]))\<lparr>currentFileName := ''a.sim''\<rparr>"
  have f: "example_sim_file = fh @ (replicate 768 5 @ [9])" by (simp add: example_sim_file_def fh_def)
  have fhs: "length fh = 18" "fh_version fh = 1" "fh_typeId fh = ascii_bytes ''SIMG''" "\<not> fh_alphaEnabled fh"
    "sim_pixels fh = 1"
    using tid by (simp_all add: fh_def sim_pixels_def)
  have init: "sim_call Op_initialize (shell_init [''a.sim'' \<mapsto> example_sim_file]) =
      Some (R_init True 1 False, shell_init [''a.sim'' \<mapsto> example_sim_file])"
    by (simp add: sim_call_def initialize_def resetError_def shell_init_def PLUGIN_INTERFACE_VERSION_USED_def)
  have setf: "sim_call (Op_setFilename ''a.sim'') (shell_init [''a.sim'' \<mapsto> example_sim_file]) = Some (R_void, s2)"
    by (simp add: sim_call_def setFilename_def s2_def resetError_def shell_init_def resetBasicData_def)
  have "fh_ok (fileHeader (shell_init [''a.sim'' \<mapsto> example_sim_file]))"
    by (simp add: shell_init_def fh_ok_def sizeof_fileHeader_def)
  then have s2: "\<not> basicDataLoaded s2" "currentFileName s2 \<noteq> ''''" "disk s2 (currentFileName s2) = Some (fh @ (replicate 768 5 @ [9]))"
    "fh_ok (fileHeader s2)" "length (rgbTable s2) = 768" "length (alphaTable s2) = 256"
    using f by (simp_all add: s2_def shell_init_def resetBasicData_def resetError_def)
  obtain s3 where en: "sim_ensureBasicData s2 = (True, s3)" and s3: "fileHeader s3 = fh"
    using sim_ensureBasicData_file [OF s2(1,2,3) fhs(1,2,3) _ s2(4,5,6)] fhs(4) by simp
  have "run sim_call [Op_initialize, Op_setFilename ''a.sim'', Op_loadBasicData]
       (shell_init [''a.sim'' \<mapsto> example_sim_file]) = Some ([R_init True 1 False, R_void, R_bool True], s3)"
    using init setf en by (simp add: sim_call_def)
  then show ?thesis using s3 fhs(5) that by blast
  qed
  show ?thesis
    using r p sim_loadNextImage_reachable_safe [OF r, of example_blank_bufs]
    by (simp add: example_blank_bufs_def)
qed

end
