(* ===== verification/I256_Session.thy ===== *)
theory I256_Session
  imports Plugin_Interface
begin

text \<open>
  The I256 plugin across a whole host session. Once \<open>basicDataLoaded\<close> is set, the
  globals describe the container \<open>CurrentFile\<close> points to: the header's width and height
  are the container's, which are signed 16-bit values, and the container has at least one
  frame, a palette of its colour count of entries and frames of \<open>width * height\<close> bytes.
  Every call keeps this (\<open>i256_loaded_inv\<close>): \<open>ensureBasicData\<close> through what
  \<open>Load\<close> guarantees, \<open>writeNextImage\<close> because the blank container it makes takes its
  size from the header and \<open>AddImages\<close> checks the frame. Hence \<open>loadNextImage\<close>, in
  any state a host reaches, has undefined behaviour exactly when the header's dimensions
  have opposite signs: the 32-bit \<open>Width * Height\<close> never wraps, and otherwise the frame it
  copies has exactly that many bytes.
\<close>

definition I256File_loaded_ok :: "I256File \<Rightarrow> bool" where
  "I256File_loaded_ok c \<longleftrightarrow> I256File_shape c \<and> m_pPixelMaps c \<noteq> [] \<and>
     - 32768 \<le> GetWidth c \<and> GetWidth c \<le> 32767 \<and> - 32768 \<le> GetHeight c \<and> GetHeight c \<le> 32767"

definition i256_loaded_inv :: "i256_state \<Rightarrow> bool" where
  "i256_loaded_inv s \<longleftrightarrow> shell_tables_ok s \<and>
     (basicDataLoaded s \<longrightarrow>
        (case CurrentFile s of None \<Rightarrow> False
         | Some c \<Rightarrow> I256File_loaded_ok c \<and> getWidth s = GetWidth c \<and> getHeight s = GetHeight c))"

lemma I256File_open_loaded:
  assumes "I256File_open cd d p = Some cf" and "1 \<le> GetFrameCount cf"
  shows "I256File_loaded_ok cf"
proof -
  obtain bs where bs: "d p = Some bs" "I256File_Load cd bs = Some (Inr cf)"
    using assms by (auto simp: I256File_open_def GetFrameCount_def I256File_blank_def
        split: option.splits sum.splits)
  obtain hdr cs where l: "load_chunks cd bs (I256File_init hdr) cs = Inr cf"
    using I256File_Load_chunks [OF bs(2)] by blast
  have "I256File_shape (I256File_init hdr)"
    by (simp add: I256File_shape_def I256File_init_def)
  then have "I256File_shape cf" "m_widthPixels cf = sint (width hdr)" "m_heightPixels cf = sint (height hdr)"
    using load_chunks_shape [OF l] by (simp_all add: I256File_init_def)
  then show ?thesis
    using assms(2) sint_i16_range [of "width hdr"] sint_i16_range [of "height hdr"]
    by (auto simp: I256File_loaded_ok_def GetWidth_def GetHeight_def GetFrameCount_def)
qed

lemma palette_from_host_length:
  "palette_from_host pal cols idx k = Some cols' \<Longrightarrow> length cols' = length cols"
  by (induction pal cols idx k rule: palette_from_host.induct)
     (auto simp: load_checked_def split: if_splits Option.bind_splits)

lemma shell_call_header:
  assumes "shell_call k c s = Some (Some (r, s'))"
  shows "basicDataLoaded s' \<longrightarrow> fileHeader s' = fileHeader s"
  using assms by (cases c) (auto simp: shell_entry_defs Let_def split: if_splits)

lemma i256_ensureBasicData_loaded:
  assumes "i256_ensureBasicData cd s = Some (b, s')" and inv: "i256_loaded_inv s"
  shows "i256_loaded_inv s'"
proof (cases "basicDataLoaded s")
  case True
  then show ?thesis using assms
    by (auto simp: i256_ensureBasicData_def i256_loaded_inv_def shell_tables_ok_def resetError_def getWidth_def getHeight_def split: option.splits)
next
  case False
  have fh: "fh_ok (fileHeader s)" using inv by (simp add: i256_loaded_inv_def shell_tables_ok_def)
  show ?thesis
  proof (cases "\<exists>cf. I256File_open cd (disk s) (currentFileName s) = Some cf \<and> 1 \<le> GetFrameCount cf \<and> currentFileName s \<noteq> ''''")
    case True
    then obtain cf where o: "I256File_open cd (disk s) (currentFileName s) = Some cf" "1 \<le> GetFrameCount cf"
      "currentFileName s \<noteq> ''''" by blast
    have ok: "I256File_loaded_ok cf" by (rule I256File_open_loaded [OF o(1,2)])
    then have r: "- (2 ^ 31) \<le> GetWidth cf" "GetWidth cf < 2 ^ 31" "- (2 ^ 31) \<le> GetHeight cf" "GetHeight cf < 2 ^ 31"
      by (simp_all add: I256File_loaded_ok_def)
    show ?thesis using assms False o ok fh sint_u32_of_int [OF r(1,2)] sint_u32_of_int [OF r(3,4)]
      by (auto simp: i256_ensureBasicData_def i256_loaded_inv_def shell_tables_ok_def resetError_def
          getWidth_def getHeight_def Let_def split: prod.splits Option.bind_splits if_splits
          dest!: palette_to_tables_length)
  next
    case False
    then have "currentFileName s = [] \<or>
        (\<forall>cf. I256File_open cd (disk s) (currentFileName s) = Some cf \<longrightarrow> GetFrameCount cf < 1)"
      by (auto simp: not_le [symmetric])
    with assms \<open>\<not> basicDataLoaded s\<close> show ?thesis
      by (auto simp: i256_ensureBasicData_def i256_loaded_inv_def shell_tables_ok_def resetError_def
          Let_def split: if_splits Option.bind_splits)
  qed
qed

lemma i256_writeNextImage_loaded:
  assumes w: "i256_writeNextImage cd cfr cfp s = Some (b, s')" and inv: "i256_loaded_inv s"
  shows "i256_loaded_inv s'"
proof -
  obtain c0 where c0: "CurrentFile s = Some c0"
    using w by (cases "CurrentFile s") (auto simp: i256_writeNextImage_def)
  define bl where "bl = I256File_blank (sint (fh_width (fileHeader s))) (sint (fh_height (fileHeader s))) 256"
  obtain cols where cols: "palette_from_host cfp (pColors (GetPalette bl)) 0 (nat (iNumColors (GetPalette bl))) = Some cols"
    using w c0 by (auto simp: i256_writeNextImage_def bl_def Let_def split: Option.bind_splits)
  define cf where "cf = bl\<lparr>m_pal := (GetPalette bl)\<lparr>pColors := cols\<rparr>\<rparr>"
  obtain fr c' where fr: "frame_size cf \<le> length cfr" "fr = take (frame_size cf) cfr"
    and add: "AddImages cf [fr] = Inr c'"
    and s': "s' = updateProgress 100 ((updateProgress 60 ((new_container bl (delete_current s))\<lparr>CurrentFile := Some c'\<rparr>))\<lparr>disk :=
               SaveToFile cd c' (currentFileName s) (disk s)\<rparr>)"
    using w c0 cols
    by (auto simp: i256_writeNextImage_def bl_def cf_def Let_def updateProgress_def split: Option.bind_splits if_splits sum.splits)
  have lc: "length cols = 256"
    using palette_from_host_length [OF cols] by (simp add: bl_def GetPalette_def I256File_blank_def)
  have c': "c' = cf\<lparr>m_pPixelMaps := [fr]\<rparr>" "frame_size c' = frame_size cf"
    using add by (auto simp: AddImages_def cf_def bl_def I256File_blank_def frame_size_def split: if_splits)
  have shape: "I256File_shape c'" "m_pPixelMaps c' \<noteq> []"
    using c' fr lc by (simp_all add: I256File_shape_def cf_def bl_def GetPalette_def I256File_blank_def)
  have dims: "GetWidth c' = getWidth s" "GetHeight c' = getHeight s"
    using c' by (simp_all add: GetWidth_def GetHeight_def getWidth_def getHeight_def cf_def bl_def I256File_blank_def)
  show ?thesis
  proof (cases "basicDataLoaded s")
    case True
    with inv c0 have "- 32768 \<le> getWidth s \<and> getWidth s \<le> 32767 \<and> - 32768 \<le> getHeight s \<and> getHeight s \<le> 32767"
      by (auto simp: i256_loaded_inv_def I256File_loaded_ok_def)
    then show ?thesis using inv shape dims
      by (simp add: s' i256_loaded_inv_def I256File_loaded_ok_def shell_tables_ok_def updateProgress_def
          getWidth_def getHeight_def)
  next
    case False
    then show ?thesis using inv
      by (simp add: s' i256_loaded_inv_def shell_tables_ok_def updateProgress_def)
  qed
qed

lemma i256_own_loaded:
  assumes "i256_own cd c s = Some (r, s')" and "i256_loaded_inv s"
  shows "i256_loaded_inv s'"
  using assms
proof (cases c)
  case Op_canHandle
  then show ?thesis
    using assms i256_ensureBasicData_loaded by (auto simp: i256_canHandle_def)
next
  case Op_loadBasicData
  then show ?thesis
    using assms i256_ensureBasicData_loaded by (auto simp: i256_loadBasicData_def)
next
  case (Op_loadNextImage b)
  then show ?thesis using assms
    by (auto simp: i256_loadNextImage_def i256_loaded_inv_def shell_tables_ok_def updateProgress_def Let_def
        getWidth_def getHeight_def split: if_splits Option.bind_splits option.splits)
next
  case (Op_writeNextImage b)
  then show ?thesis
    using assms i256_writeNextImage_loaded by auto
qed auto

lemma i256_call_loaded:
  assumes "i256_call cd c s = Some (r, s')" and "i256_loaded_inv s"
  shows "i256_loaded_inv s'"
proof (cases "shell_call i256_consts c s")
  case None
  then show ?thesis using assms i256_own_loaded by (simp add: i256_call_def)
next
  case (Some x)
  then have sc: "shell_call i256_consts c s = Some (Some (r, s'))" using assms by (simp add: i256_call_def)
  have "shell_tables_ok s" using assms(2) by (simp add: i256_loaded_inv_def)
  then have "shell_tables_ok s'" "CurrentFile s' = CurrentFile s" "basicDataLoaded s' \<longrightarrow> basicDataLoaded s"
      "basicDataLoaded s' \<longrightarrow> fileHeader s' = fileHeader s"
    using shell_call_preserves [OF sc] shell_call_header [OF sc] CurrentFile_more by blast+
  then show ?thesis using assms(2)
    by (auto simp: i256_loaded_inv_def getWidth_def getHeight_def split: option.splits)
qed

lemma i256_loaded_inv_init: "i256_loaded_inv (i256_init d)"
  by (simp add: i256_loaded_inv_def shell_tables_ok_def i256_init_def fh_ok_def sizeof_fileHeader_def)

lemma i256_run_loaded:
  "run (i256_call cd) cs (i256_init d) = Some (rs, s) \<Longrightarrow> i256_loaded_inv s"
  by (rule run_invariant [where P = i256_loaded_inv and step = "i256_call cd", OF i256_call_loaded i256_loaded_inv_init])

lemma i256_run_load_saved:
  assumes wf: "I256File_wf c" and ok: "codec_ok cd" and fr: "m_pPixelMaps c \<noteq> []"
    and nfr: "length (m_pPixelMaps c) < 65536" and size: "length (I256File_Save cd c) < 2 ^ 32"
    and ncol: "m_numColors c \<le> 256"
    and sv: "d name = Some (I256File_Save cd c)" and name: "name \<noteq> ''''" "length name < 2048"
  shows "\<exists>s. run (i256_call cd) [Op_initialize, Op_setFilename name, Op_loadBasicData] (i256_init d)
           = Some ([R_init True 1 False, R_void, R_bool True], s) \<and>
         basicDataLoaded s \<and> getWidth s = m_widthPixels c \<and> getHeight s = m_heightPixels c \<and>
         CurrentFile s = Some c \<and> currentFileName s = name \<and> disk s = d \<and>
         CurrentAddr s = Some 0 \<and> live s = {0} \<and> next_addr s = 1"
proof -
  define s2 where "s2 = (resetBasicData (i256_init d))\<lparr>currentFileName := name\<rparr>"
  have init: "i256_call cd Op_initialize (i256_init d) = Some (R_init True 1 False, i256_init d)"
    by (simp add: i256_call_def initialize_def resetError_def i256_init_def PLUGIN_INTERFACE_VERSION_USED_def)
  have setf: "i256_call cd (Op_setFilename name) (i256_init d) = Some (R_void, s2)"
    using name by (simp add: i256_call_def setFilename_def s2_def resetError_def i256_init_def resetBasicData_def)
  have s2: "disk s2 (currentFileName s2) = Some (I256File_Save cd c)" "currentFileName s2 \<noteq> ''''"
    "\<not> basicDataLoaded s2" "length (rgbTable s2) = 768" "length (alphaTable s2) = 256"
    using sv name by (simp_all add: s2_def i256_init_def resetBasicData_def resetError_def)
  have "fh_ok (fileHeader (i256_init d))"
    by (simp add: i256_init_def fh_ok_def sizeof_fileHeader_def)
  then have fh2: "fh_ok (fileHeader s2)"
    by (simp add: s2_def)
  define s3 where "s3 = s2\<lparr>lastErrorMessage := '''', CurrentFile := Some c,
             CurrentAddr := Some (next_addr s2), live := insert (next_addr s2) (live s2), next_addr := Suc (next_addr s2),
             fileHeader := fh_set_height (word_of_int (m_heightPixels c))
                             (fh_set_width (word_of_int (m_widthPixels c)) (fileHeader s2)),
             rgbTable := store_bytes (rgbTable s2) 0 (concat (map color_rgb (pColors (m_pal c)))),
             alphaTable := store_bytes (alphaTable s2) 0 (map color_a (pColors (m_pal c))),
             basicDataLoaded := True\<rparr>"
  have en: "i256_ensureBasicData cd s2 = Some (True, s3)"
    unfolding s3_def by (rule i256_ensureBasicData_saved [OF wf_storable [OF wf] ok fr nfr size ncol s2(1-5)])
  have s3: "basicDataLoaded s3" "getWidth s3 = m_widthPixels c" "getHeight s3 = m_heightPixels c"
    "CurrentFile s3 = Some c" "currentFileName s3 = name" "disk s3 = d"
    "CurrentAddr s3 = Some 0" "live s3 = {0}" "next_addr s3 = 1"
    using fh2 width_bounds_storable [OF wf_storable [OF wf]]
    by (simp_all add: s3_def s2_def getWidth_def getHeight_def i256_init_def resetBasicData_def resetError_def)
  show ?thesis
    using init setf en s3 by (simp add: i256_call_def i256_loadBasicData_def)
qed

text \<open>C10: In every state the I256 plugin reaches from its start state through host calls
  with defined behaviour, once basic data is loaded and the host's buffers have the
  announced sizes, \<open>loadNextImage\<close> has undefined behaviour exactly when the image's
  width and height have opposite signs (a negative \<open>memcpy\<close> size); with any other
  dimensions the copy stays within both buffers.\<close>

theorem i256_loadNextImage_reachable:
  assumes run: "run (i256_call cd) cs (i256_init d) = Some (rs, s)" and ld: "basicDataLoaded s"
    and bufs: "nat (getWidth s * getHeight s) \<le> length colorFrame" "768 \<le> length colorFramePalette"
  shows "i256_loadNextImage colorFrame colorFramePalette s = None \<longleftrightarrow> getWidth s * getHeight s < 0"
proof -
  obtain c where c: "CurrentFile s = Some c" "I256File_loaded_ok c" "getWidth s = GetWidth c" "getHeight s = GetHeight c"
    and tabs: "length (rgbTable s) = 768"
    using i256_run_loaded [OF run] ld by (auto simp: i256_loaded_inv_def shell_tables_ok_def split: option.splits)
  have r: "- (2 ^ 31) \<le> GetWidth c * GetHeight c \<and> GetWidth c * GetHeight c < 2 ^ 31"
    using c(2) by (intro i16_product_range) (simp_all add: I256File_loaded_ok_def)
  have n: "sint (word_of_int (GetWidth c * GetHeight c) :: i32) = GetWidth c * GetHeight c"
    using r by (intro sint_i32_of_int) simp_all
  obtain f fs where f: "m_pPixelMaps c = f # fs"
    using c(2) by (cases "m_pPixelMaps c") (auto simp: I256File_loaded_ok_def)
  have lf: "length f = nat (GetWidth c * GetHeight c)"
    using c(2) f by (simp add: I256File_loaded_ok_def I256File_shape_def frame_size_def GetWidth_def GetHeight_def)
  show ?thesis
    using ld c n f lf bufs tabs
    by (simp add: i256_loadNextImage_def GetPixelMaps_def updateProgress_def Let_def memcpy_def)
qed

theorem i256_loadNextImage_reachable_witness:
  "\<exists>rs s. run (i256_call store_codec) [Op_initialize, Op_setFilename ''a.256'', Op_loadBasicData]
       (i256_init [''a.256'' \<mapsto> I256File_Save store_codec example_file]) = Some (rs, s) \<and>
     basicDataLoaded s \<and> nat (getWidth s * getHeight s) \<le> length (replicate 8 (0 :: byte)) \<and>
     768 \<le> length (replicate 768 (0 :: byte)) \<and>
     (i256_loadNextImage (replicate 8 0) (replicate 768 0) s = None \<longleftrightarrow> getWidth s * getHeight s < 0)"
proof -
  obtain s where r: "run (i256_call store_codec) [Op_initialize, Op_setFilename ''a.256'', Op_loadBasicData]
       (i256_init [''a.256'' \<mapsto> I256File_Save store_codec example_file]) = Some ([R_init True 1 False, R_void, R_bool True], s)"
    and s: "basicDataLoaded s" "getWidth s = 4" "getHeight s = 2"
    using i256_run_load_saved [OF conjunct1 [OF example_file_saved] store_codec_ok,
        where d = "[''a.256'' \<mapsto> I256File_Save store_codec example_file]" and name = "''a.256''"]
      conjunct2 [OF example_file_saved]
    by (auto simp: example_file_def example_palette_def I256File_blank_def)
  show ?thesis
    using r s i256_loadNextImage_reachable [OF r s(1), of "replicate 8 0" "replicate 768 0"] by auto
qed

text \<open>C28: \<open>initialize\<close> clears the file name but not the loaded data: on a state with basic
  data loaded, \<open>initialize\<close> followed by \<open>loadBasicData\<close> reports success, with no error
  message, for the previous file's container and header although no file name is set,
  where a fresh load without a name fails with \<open>ERROR_NO_FILE_NAME\<close>.\<close>

theorem i256_initialize_keeps_loaded:
  assumes "basicDataLoaded s"
  shows "\<exists>s2. run (i256_call cd) [Op_initialize, Op_loadBasicData] s =
           Some ([R_init True 1 False, R_bool True], s2) \<and>
         currentFileName s2 = '''' \<and> CurrentFile s2 = CurrentFile s \<and> fileHeader s2 = fileHeader s \<and>
         lastErrorMessage s2 = ''''"
  using assms
  by (simp add: i256_call_def initialize_def resetError_def PLUGIN_INTERFACE_VERSION_USED_def
      i256_loadBasicData_def i256_ensureBasicData_def)

theorem i256_initialize_keeps_loaded_witness:
  "\<exists>rs s. run (i256_call store_codec) [Op_initialize, Op_setFilename ''a.256'', Op_loadBasicData]
       (i256_init [''a.256'' \<mapsto> I256File_Save store_codec example_file]) = Some (rs, s) \<and>
     basicDataLoaded s \<and>
     (\<exists>s2. run (i256_call store_codec) [Op_initialize, Op_loadBasicData] s =
           Some ([R_init True 1 False, R_bool True], s2) \<and>
         currentFileName s2 = '''' \<and> CurrentFile s2 = CurrentFile s \<and> fileHeader s2 = fileHeader s \<and>
         lastErrorMessage s2 = '''')"
proof -
  obtain s where r: "run (i256_call store_codec) [Op_initialize, Op_setFilename ''a.256'', Op_loadBasicData]
       (i256_init [''a.256'' \<mapsto> I256File_Save store_codec example_file]) = Some ([R_init True 1 False, R_void, R_bool True], s)"
    and s: "basicDataLoaded s"
    using i256_run_load_saved [OF conjunct1 [OF example_file_saved] store_codec_ok,
        where d = "[''a.256'' \<mapsto> I256File_Save store_codec example_file]" and name = "''a.256''"]
      conjunct2 [OF example_file_saved]
    by (auto simp: example_file_def example_palette_def I256File_blank_def)
  show ?thesis using r s i256_initialize_keeps_loaded [OF s, of store_codec] by blast
qed

end
