(* ===== verification/I256_Heap.thy ===== *)
theory I256_Heap
  imports I256_Session
begin

text \<open>
  The containers the I256 plugin allocates, on the heap of addresses of \<open>I256_Plugin\<close>:
  \<open>new I256File\<close> (\<open>ensureBasicData\<close>, \<open>writeNextImage\<close>) takes the fresh address
  \<open>next_addr\<close> into \<open>live\<close>, \<open>delete CurrentFile\<close> takes \<open>CurrentAddr\<close> out of it.
  \<open>i256_heap_ok\<close> says that the pointer \<open>CurrentFile\<close> is null exactly when it has no
  address, that a non-null pointer holds a live (not deleted) address, and that every live
  address was handed out by \<open>new\<close>. Every call keeps it. The live containers other than the
  one \<open>CurrentFile\<close> points to are unreachable (\<open>i256_leaked\<close>): a reload leaks one, so a
  host session of \<open>k\<close> reloads of a file leaves \<open>k\<close> unreachable containers allocated.
\<close>

definition i256_heap_ok :: "i256_state \<Rightarrow> bool" where
  "i256_heap_ok s \<longleftrightarrow> (CurrentAddr s = None \<longleftrightarrow> CurrentFile s = None) \<and>
     set_option (CurrentAddr s) \<subseteq> live s \<and> live s \<subseteq> {..<next_addr s}"

definition i256_leaked :: "i256_state \<Rightarrow> nat" where
  "i256_leaked s = card (live s - set_option (CurrentAddr s))"

lemma heap_fields_more:
  "shell.more s' = shell.more (s :: i256_state) \<Longrightarrow>
     CurrentAddr s' = CurrentAddr s \<and> live s' = live s \<and> next_addr s' = next_addr s"
  by (cases s, cases s') simp

lemma heap_ok_fresh:
  "i256_heap_ok s \<Longrightarrow> next_addr s \<notin> live s"
  by (auto simp: i256_heap_ok_def)

lemma heap_ok_finite:
  "i256_heap_ok s \<Longrightarrow> finite (live s)"
  unfolding i256_heap_ok_def using finite_subset by blast

lemma i256_ensureBasicData_heap:
  "i256_ensureBasicData cd s = Some (b, s') \<Longrightarrow> i256_heap_ok s \<Longrightarrow> i256_heap_ok s'"
  by (auto simp: i256_ensureBasicData_def i256_heap_ok_def resetError_def Let_def
      split: if_splits Option.bind_splits prod.splits)

lemma i256_own_heap:
  assumes "i256_own cd c s = Some (r, s')" and "i256_heap_ok s"
  shows "i256_heap_ok s'"
  using assms
proof (cases c)
  case Op_canHandle
  then show ?thesis using assms i256_ensureBasicData_heap by (auto simp: i256_canHandle_def)
next
  case Op_loadBasicData
  then show ?thesis using assms i256_ensureBasicData_heap by (auto simp: i256_loadBasicData_def)
next
  case (Op_loadNextImage b)
  then show ?thesis using assms
    by (auto simp: i256_loadNextImage_def i256_heap_ok_def updateProgress_def Let_def
        split: if_splits Option.bind_splits)
next
  case (Op_writeNextImage b)
  then show ?thesis using assms
    by (auto simp: i256_writeNextImage_def i256_heap_ok_def updateProgress_def Let_def
        split: if_splits Option.bind_splits)
qed auto

lemma i256_call_heap:
  assumes "i256_call cd c s = Some (r, s')" and "i256_heap_ok s"
  shows "i256_heap_ok s'"
proof (cases "shell_call i256_consts c s")
  case None
  then show ?thesis using assms i256_own_heap by (simp add: i256_call_def)
next
  case (Some x)
  then have sc: "shell_call i256_consts c s = Some (Some (r, s'))" using assms by (simp add: i256_call_def)
  have m: "shell.more s' = shell.more s"
    by (rule shell_call_more [OF sc])
  have "CurrentFile s' = CurrentFile s"
    by (rule CurrentFile_more [OF m])
  then show ?thesis using assms(2) heap_fields_more [OF m] by (simp add: i256_heap_ok_def)
qed

lemma i256_heap_ok_init: "i256_heap_ok (i256_init d)"
  by (simp add: i256_heap_ok_def i256_init_def)

text \<open>C29: In every state the I256 plugin reaches through host calls with defined behaviour,
  the pointer \<open>CurrentFile\<close> is null exactly when it holds no address, and a non-null
  \<open>CurrentFile\<close> holds the address of a live container, allocated by \<open>new\<close> and not yet
  deleted: it never dangles, so the \<open>delete CurrentFile\<close> of \<open>writeNextImage\<close> always
  releases a live object, never one already deleted, and every later use of the pointer
  reads a live object.\<close>

theorem i256_run_heap_ok:
  "run (i256_call cd) cs (i256_init d) = Some (rs, s) \<Longrightarrow> i256_heap_ok s"
  by (rule run_invariant [where P = i256_heap_ok and step = "i256_call cd", OF i256_call_heap i256_heap_ok_init])

theorem i256_run_heap_ok_witness:
  "\<exists>rs s. run (i256_call store_codec) [Op_initialize, Op_setFilename ''a.256'', Op_loadBasicData, Op_getWidth]
      (i256_init Map.empty) = Some (rs, s) \<and> i256_heap_ok s"
proof -
  obtain rs s where r: "run (i256_call store_codec) [Op_initialize, Op_setFilename ''a.256'', Op_loadBasicData, Op_getWidth]
      (i256_init Map.empty) = Some (rs, s)"
    by (simp add: i256_call_def i256_init_def initialize_def resetError_def setFilename_def resetBasicData_def
        i256_loadBasicData_def i256_ensureBasicData_def I256File_open_def GetFrameCount_def I256File_blank_def)
  show ?thesis
    using r i256_run_heap_ok [OF r] by blast
qed

text \<open>\<open>ensureBasicData\<close> leaks the previous container: when it loads a file while
  \<open>CurrentFile\<close> still points to a container (after \<open>setFilename\<close> of another name or
  \<open>finishProcessing\<close>, which reset the loaded flag but not the pointer), it overwrites
  the pointer with \<open>new I256File\<close> without deleting the old object, whether the new file
  loads or not: one more allocated container becomes unreachable.\<close>

lemma card_live_minus_current:
  "finite L \<Longrightarrow> p \<in> L \<Longrightarrow> card L = card (L - {p}) + 1"
  using card_gt_0_iff [of L] by (auto simp: card_Diff_singleton)

lemma i256_reload_leaks:
  assumes "i256_ensureBasicData cd s = Some (b, s')" and "\<not> basicDataLoaded s"
    and "currentFileName s \<noteq> ''''" and "CurrentFile s \<noteq> None" and "i256_heap_ok s"
  shows "i256_leaked s' = i256_leaked s + 1"
proof -
  obtain p where p: "CurrentAddr s = Some p" "p \<in> live s"
    using assms(4,5) by (auto simp: i256_heap_ok_def)
  have "card (live s) = i256_leaked s + 1"
    using card_live_minus_current [OF heap_ok_finite [OF assms(5)] p(2)] p(1) by (simp add: i256_leaked_def)
  moreover have "i256_leaked s' = card (live s)"
    using assms(1-3) heap_ok_fresh [OF assms(5)]
    by (auto simp: i256_ensureBasicData_def i256_leaked_def resetError_def Let_def
        split: if_splits Option.bind_splits prod.splits)
  ultimately show ?thesis by simp
qed

lemma i256_reload_cycle:
  assumes wf: "I256File_wf c" and ok: "codec_ok cd" and fr: "m_pPixelMaps c \<noteq> []"
    and nfr: "length (m_pPixelMaps c) < 65536" and size: "length (I256File_Save cd c) < 2 ^ 32"
    and ncol: "m_numColors c \<le> 256"
    and st: "basicDataLoaded s" "CurrentFile s = Some c" "disk s (currentFileName s) = Some (I256File_Save cd c)"
      "currentFileName s \<noteq> ''''" "i256_heap_ok s"
  shows "\<exists>s'. run (i256_call cd) [Op_finishProcessing, Op_loadBasicData] s = Some ([R_void, R_bool True], s') \<and>
           basicDataLoaded s' \<and> CurrentFile s' = Some c \<and> currentFileName s' = currentFileName s \<and>
           disk s' = disk s \<and> i256_heap_ok s' \<and> i256_leaked s' = i256_leaked s + 1"
proof -
  define s1 where "s1 = finishProcessing s"
  have fin: "i256_call cd Op_finishProcessing s = Some (R_void, s1)"
    by (simp add: i256_call_def s1_def)
  have s1: "disk s1 (currentFileName s1) = Some (I256File_Save cd c)" "currentFileName s1 \<noteq> ''''"
    "\<not> basicDataLoaded s1" "length (rgbTable s1) = 768" "length (alphaTable s1) = 256"
    "CurrentFile s1 = Some c" "i256_heap_ok s1" "i256_leaked s1 = i256_leaked s" "currentFileName s1 = currentFileName s" "disk s1 = disk s"
    using st by (simp_all add: s1_def finishProcessing_def resetBasicData_def resetError_def updateProgress_def
        i256_heap_ok_def i256_leaked_def)
  obtain s2 where en: "i256_ensureBasicData cd s1 = Some (True, s2)"
    and s2: "basicDataLoaded s2" "CurrentFile s2 = Some c" "currentFileName s2 = currentFileName s1" "disk s2 = disk s1"
    using i256_ensureBasicData_saved [OF wf_storable [OF wf] ok fr nfr size ncol s1(1-5)] by simp
  have "i256_leaked s2 = i256_leaked s + 1"
    using i256_reload_leaks [OF en s1(3,2)] s1(6,7,8) by simp
  moreover have "i256_heap_ok s2"
    by (rule i256_ensureBasicData_heap [OF en s1(7)])
  ultimately show ?thesis
    using fin en s1 s2 by (simp add: i256_call_def i256_loadBasicData_def)
qed

text \<open>C30: The leak grows with every reload: a host session that opens a saved file and then
  repeats \<open>finishProcessing\<close>, \<open>loadBasicData\<close> \<open>k\<close> times ends with the container loaded
  and \<open>k\<close> earlier containers allocated and unreachable, for every \<open>k\<close>.\<close>

theorem i256_leak_unbounded:
  assumes wf: "I256File_wf c" and ok: "codec_ok cd" and fr: "m_pPixelMaps c \<noteq> []"
    and nfr: "length (m_pPixelMaps c) < 65536" and size: "length (I256File_Save cd c) < 2 ^ 32"
    and ncol: "m_numColors c \<le> 256"
    and sv: "d name = Some (I256File_Save cd c)" and name: "name \<noteq> ''''" "length name < 2048"
  shows "\<exists>rs s. run (i256_call cd) ([Op_initialize, Op_setFilename name, Op_loadBasicData] @
             concat (replicate k [Op_finishProcessing, Op_loadBasicData])) (i256_init d) = Some (rs, s) \<and>
           CurrentFile s = Some c \<and> i256_leaked s = k"
proof -
  let ?pre = "[Op_initialize, Op_setFilename name, Op_loadBasicData]"
  let ?cyc = "[Op_finishProcessing, Op_loadBasicData]"
  have "\<exists>rs s. run (i256_call cd) (?pre @ concat (replicate k ?cyc)) (i256_init d) = Some (rs, s) \<and>
          basicDataLoaded s \<and> CurrentFile s = Some c \<and> currentFileName s = name \<and> disk s = d \<and>
          i256_heap_ok s \<and> i256_leaked s = k"
  proof (induction k)
    case 0
    obtain s where r: "run (i256_call cd) ?pre (i256_init d) = Some ([R_init True 1 False, R_void, R_bool True], s)"
      and st: "basicDataLoaded s" "CurrentFile s = Some c" "currentFileName s = name" "disk s = d"
        "CurrentAddr s = Some 0" "live s = {0}" "next_addr s = 1"
      using i256_run_load_saved [where d = d and name = name, OF wf ok fr nfr size ncol sv name] by blast
    have "i256_heap_ok s" "i256_leaked s = 0"
      using st by (simp_all add: i256_heap_ok_def i256_leaked_def)
    moreover have "run (i256_call cd) (?pre @ concat (replicate 0 ?cyc)) (i256_init d) =
        Some ([R_init True 1 False, R_void, R_bool True], s)"
      using r by simp
    ultimately show ?case using st by blast
  next
    case (Suc k)
    then obtain rs s where r: "run (i256_call cd) (?pre @ concat (replicate k ?cyc)) (i256_init d) = Some (rs, s)"
      and st: "basicDataLoaded s" "CurrentFile s = Some c" "currentFileName s = name" "disk s = d"
        "i256_heap_ok s" "i256_leaked s = k"
      by blast
    obtain s' where r': "run (i256_call cd) ?cyc s = Some ([R_void, R_bool True], s')"
      and st': "basicDataLoaded s'" "CurrentFile s' = Some c" "currentFileName s' = currentFileName s"
        "disk s' = disk s" "i256_heap_ok s'" "i256_leaked s' = i256_leaked s + 1"
      using i256_reload_cycle [OF wf ok fr nfr size ncol st(1,2)] st(3,4,5) sv name(1) by auto
    have "concat (replicate (Suc k) ?cyc) = concat (replicate k ?cyc) @ ?cyc"
      by (induction k) auto
    then have "run (i256_call cd) (?pre @ concat (replicate (Suc k) ?cyc)) (i256_init d) =
        Some (rs @ [R_void, R_bool True], s')"
      using r r' by (simp only: append_assoc [symmetric] run_append) simp
    then show ?case using st st' by auto
  qed
  then show ?thesis by blast
qed

theorem i256_leak_unbounded_witness:
  "\<exists>rs s. run (i256_call store_codec) ([Op_initialize, Op_setFilename ''a.256'', Op_loadBasicData] @
       concat (replicate 3 [Op_finishProcessing, Op_loadBasicData]))
       (i256_init [''a.256'' \<mapsto> I256File_Save store_codec example_file]) = Some (rs, s) \<and>
     CurrentFile s = Some example_file \<and> i256_leaked s = 3"
  using example_file_saved
  by (intro i256_leak_unbounded [OF _ store_codec_ok])
     (simp_all add: example_file_def example_palette_def I256File_blank_def)

end
