(* ===== verification/Spec2Isabelle.thy ===== *)
theory Spec2Isabelle
  imports Sim_Format I256_Heap
begin

text \<open>
  A verification model of the image-file plugin samples of \<open>dwsJason/promotion\<close>
  (\<open>src/file_io_plugin_samples\<close>).

  \<^bold>\<open>The program.\<close> Two plugins implement the host image editor's plugin interface
  (\<open>i256/pluginInterface.h\<close>, 23 exported functions): \<open>i256/i256ImageIo.cpp\<close> reads and
  writes the chunked I256 format through the class \<open>I256File\<close> declared in
  \<open>i256/256_file.h\<close>, and \<open>simImage/simImageIo.cpp\<close> reads and writes a flat sample
  format (an 18-byte packed header, a 768-byte RGB palette, an optional 256-byte alpha
  table, the colour bitmap and an optional alpha bitmap). Both keep their state in process
  globals (file name, error message, loaded flag, palette tables, a packed header struct;
  the I256 plugin also a pointer to the current container) that the host drives through
  a sequence of calls on one thread. \<open>256_file.h\<close> declares the packed structs of the
  I256 format with their \<open>IsValid\<close> checks; the methods of \<open>I256File\<close> (loading, chunk
  walking, palette and pixel decoding, saving) are declared there but implemented outside
  the repository, so they are modelled from the specification (\<open>spec.md\<close>, sections 3-4).

  \<^bold>\<open>Theories and correspondence.\<close>
  \<^item> \<open>Prelude\<close>: machine types (\<open>byte\<close>, \<open>u16\<close>, \<open>u32\<close>, signed \<open>i16\<close>/\<open>i32\<close> as
    words read with \<open>sint\<close>), little-endian encodings with their round-trip laws, byte
    memory (\<open>store_bytes\<close>, \<open>load_bytes\<close>), checked array access and \<open>memcpy\<close> whose
    out-of-range case is \<open>None\<close> (undefined behaviour); the \<open>layout_simps\<close> collection.
  \<^item> \<open>I256_Format\<close>: the structs of \<open>256_file.h\<close> as records with their packed byte
    layouts as encode/decode pairs, \<open>I256File_Header::IsValid\<close>,
    \<open>I256File_PIXL::IsValid\<close>, \<open>I256File_CLUT::IsValid\<close>, the CLUT colour count.
  \<^item> \<open>I256_Chunks\<close>: the chunk walker of spec 4.2 as a \<open>partial_function (option)\<close>
    (\<open>None\<close> is a walk that never ends), the palette and pixel decoders \<open>UnpackClut\<close>,
    \<open>UnpackPixel\<close>, the compression codec as a parameter record with its
    decode-of-encode contract \<open>codec_ok\<close> and the pass-through codec \<open>store_codec\<close>.
  \<^item> \<open>I256_Container\<close>: the class \<open>I256File\<close> (data members, accessors, blank
    constructor, \<open>SetPalette\<close>, \<open>AddImages\<close>, \<open>Load\<close>, \<open>Save\<close>), its invariant
    \<open>I256File_wf\<close> and the containers a client can build (\<open>I256File_built\<close>).
  \<^item> \<open>Plugin_Shell\<close>: the globals shared by both plugins as the record \<open>shell\<close> (with the
    file system \<open>disk\<close> and the sequence of progress values reported), the packed
    \<open>fileHeader\<close> as its 18 bytes with field accessors, and the functions whose bodies the
    two files share (\<open>resetError\<close>, \<open>resetBasicData\<close>, \<open>updateProgress\<close>,
    \<open>initialize\<close>, \<open>setFilename\<close>, \<open>getWidth\<close>, \<open>beginWrite\<close>, \<open>finishProcessing\<close>, ...).
  \<^item> \<open>I256_Plugin\<close>: \<open>i256ImageIo.cpp\<close>'s own functions (\<open>ensureBasicData\<close> and its
    palette loop, \<open>loadNextImage\<close>, \<open>writeNextImage\<close> and its palette loop, ...) over the
    shell extended with \<open>CurrentFile\<close> and the heap of containers; the container is read and written through
    \<open>I256File_Load\<close> and \<open>I256File_Save\<close> on the file system.
  \<^item> \<open>Sim_Plugin\<close>: \<open>simImageIo.cpp\<close>'s own functions over the file system, with
    \<open>fread\<close> storing the bytes it gets (short reads included) and the 32-bit
    \<open>width * height\<close>.
  \<^item> \<open>Plugin_Interface\<close>: the exported functions as the datatype \<open>plugin_call\<close>, their
    results as \<open>plugin_ret\<close>, a step function per plugin (\<open>i256_call\<close>, \<open>sim_call\<close>,
    sharing \<open>shell_call\<close>) and \<open>run\<close> for sequences of host calls.
  \<^item> \<open>I256_Session\<close>: the invariant of the I256 plugin's loaded state
    (\<open>i256_loaded_inv\<close>: header dimensions equal the container's signed 16-bit ones, the
    container has a frame, its palette and frames have their declared sizes), kept by
    every call, and the safety of \<open>loadNextImage\<close> in every reachable state.
  \<^item> \<open>I256_Heap\<close>: the containers the I256 plugin allocates. \<open>I256_Plugin\<close> keeps them
    on a heap of addresses, as Imperative HOL does: \<open>live\<close> is the set of allocated and
    not deleted addresses, \<open>next_addr\<close> the next fresh one, \<open>CurrentAddr\<close> the address
    the pointer \<open>CurrentFile\<close> holds; \<open>new_container\<close> is \<open>new I256File\<close> (in
    \<open>ensureBasicData\<close> and \<open>writeNextImage\<close>), \<open>delete_current\<close> is
    \<open>delete CurrentFile\<close> (on a frameless file and before the blank container of a write).
    The theory proves that \<open>CurrentFile\<close> never dangles and that every reload leaks one
    container.
  \<^item> \<open>Sim_Format\<close>: the SIM format as an abstract image (\<open>sim_image\<close>) with its
    byte layout \<open>sim_encode\<close> and its specification of a well-formed file
    \<open>sim_decode\<close>, against which the SIM plugin's reader and writer are refined.

  \<^bold>\<open>What is proved.\<close> The container round trip (save then load gives the container back,
  for every codec meeting its contract); the SIM plugin's write-then-read round trip
  through \<open>beginWrite\<close>, \<open>writeNextImage\<close>, \<open>finishProcessing\<close>, \<open>loadBasicData\<close> and
  \<open>loadNextImage\<close>; the SIM reader and writer as refinements of the format: on every file
  that decodes, \<open>loadBasicData\<close> and \<open>loadNextImage\<close> return exactly the decoded image,
  and \<open>beginWrite\<close> with \<open>writeNextImage\<close> store exactly the encoding of the host's
  image, which decodes back to it; the I256 plugin's read path as the host's whole call sequence on a
  saved file (\<open>Plugin_Interface\<close>); invariants of every state either plugin reaches from
  its start state through any host call sequence (table and header sizes kept; for I256,
  no loaded flag without a container, so \<open>loadNextImage\<close> never dereferences null, and in
  every reachable loaded state \<open>loadNextImage\<close> has undefined behaviour exactly when the
  dimensions have opposite signs). Every container \<open>Load\<close> returns has a palette of its
  colour count and frames of \<open>width * height\<close> bytes; a file cut inside its \<open>PIXL\<close>
  blobs fails with \<open>TruncatedBlob\<close>; the \<open>ensureBasicData\<close> palette loop is equivalent to
  its element-wise specification \<open>palette_tables_ref\<close>.
  Defects of the I256 shell as theorems: \<open>writeNextImage\<close> always reads past the host's
  768-byte palette (blue read at \<open>rgbindex + 3\<close>) or dereferences a null \<open>CurrentFile\<close>,
  and with a longer buffer it saves each colour with the next colour's red as its blue; a
  file of more than 256 colours overflows \<open>alphaTable\<close>; a file with a negative
  dimension passes \<open>IsValid\<close> and makes \<open>loadNextImage\<close> call \<open>memcpy\<close> with a
  negative size; a missing file is not reported; after \<open>initialize\<close> clears the file
  name, \<open>loadBasicData\<close> still reports success for the previous file; every reload of a
  file while \<open>CurrentFile\<close> still points to a container (after \<open>setFilename\<close> or
  \<open>finishProcessing\<close>) leaks that container, so a session of \<open>k\<close> reloads leaks \<open>k\<close>
  containers, while in every reachable state a non-null \<open>CurrentFile\<close> holds the
  address of a live container, so \<open>writeNextImage\<close> only deletes live ones. The SIM reader is memory safe on any file contents in every reachable state,
  given buffers of the sizes the header announces. The SIM error paths:
  a missing file is reported, a short file fails with a read error after overwriting the
  start of the header, a file of another type fails silently. The header layout round-trips and a changed signature,
  version or reserved byte is rejected, but negative dimensions pass \<open>IsValid\<close>; the
  CLUT check has no lower bound; the colour-count encoding round-trips for 1..16384; the
  chunk walker returns exactly when no chunk it reaches has length 0 (it loops on one),
  tiles the buffer when it returns; PIXL blobs decode
  independently; every container built through the public operations is well formed; the
  SIM writer computes the pixel count modulo \<open>2^32\<close>, so it saves an image of \<open>2^32\<close>
  pixels or more with a truncated bitmap and reports success. \<open>setFilename\<close> models the
  \<open>wcscpy\<close> into the 2048-character \<open>currentFileName\<close> as undefined behaviour on longer
  names.

  \<^bold>\<open>Bounds.\<close> The round trips assume what the 16- and 32-bit length fields can hold
  (fewer than 65536 frames, files under \<open>2^32\<close> bytes, SIM dimensions whose product is
  under \<open>2^32\<close>). The chunk walker uses no fuel: it is a partial function whose
  non-termination is \<open>None\<close>, and its termination is characterised exactly by the
  terminating function \<open>chunks_advance\<close>; the palette loops recurse on the iteration count.

  \<^bold>\<open>Not modelled.\<close> \<open>DllMain\<close> and \<open>sanAnimation/sanAnimationIo.h\<close> (export macros
  and an empty DLL entry point); the compression codec's algorithm (LZSA2 is only named
  in a comment; the codec is a parameter); the target of the progress callback (only the
  values reported are recorded); I/O failures other than a missing file (short writes,
  \<open>fseek\<close> errors); wide-character strings beyond equality of file names; memory
  allocation beyond the heap of container addresses (the memory inside each container,
  allocation failure).
\<close>

end
